theory Spec2Isabelle
  imports Complex_Main "HOL-Library.Word" "HOL-Library.Signed_Division"
begin

unbundle bit_operations_syntax

section \<open>Screen space effects of the EEVEE engine (eevee\_effects.c)\<close>

text \<open>
  The development embeds the resource handling and the scheduling of
  \<^verbatim>\<open>source/blender/draw/engines/eevee/eevee_effects.c\<close>: the per-frame configuration
  (\<^verbatim>\<open>EEVEE_effects_init\<close>), the binding of the hit buffers of the reflection resolve pass
  (\<^verbatim>\<open>EEVEE_effects_cache_init\<close>), the construction of the depth pyramids
  (\<^verbatim>\<open>EEVEE_create_minmax_buffer\<close>), the reflection pass (\<^verbatim>\<open>EEVEE_effects_do_ssr\<close>) and
  the post-process chain (\<^verbatim>\<open>EEVEE_draw_effects\<close>).

  Conventions of the embedding.
  \<^item> A C \<^verbatim>\<open>int\<close> is an Isabelle \<open>int\<close>. Every \<^verbatim>\<open>int\<close> of the functions below is the
    result of a cast, of a clamp, of a halving or of a maximum of such values, and the cast
    checks the 32-bit range, so that no operation on \<^verbatim>\<open>int\<close> overflows. The bit mask
    \<^verbatim>\<open>enabled_effects\<close> is a \<open>32 word\<close>.
  \<^item> A \<^verbatim>\<open>float\<close> that is read (a side of the viewport, the radius of the bloom) is the
    \<open>real\<close> it stands for: infinities and NaN are not read. An operation on \<^verbatim>\<open>float\<close> and
    the store of a \<^verbatim>\<open>double\<close> in a \<^verbatim>\<open>float\<close> round to the nearest number of the binary32
    format, ties to even; a result that is not a number of the format (an infinity, NaN) is
    \<open>None\<close>. The operations on \<^verbatim>\<open>double\<close> (the logarithm, the quotient and the sum of the
    bloom iteration count) are exact: their rounding, of relative size \<open>2\<^sup>-\<^sup>5\<^sup>3\<close>, is not
    represented.
  \<^item> A pointer is an \<open>option\<close>, \<open>None\<close> being \<^verbatim>\<open>NULL\<close>. A texture carries the identity and
    the size it was created with; a framebuffer is an identity only, attachments being
    recorded in the log of GPU commands.
  \<^item> A pointer to a texture pointer (the \<^verbatim>\<open>tex\<close> field of \<^verbatim>\<open>DRWFboTexture\<close>) is the name of
    the field it points to.
  \<^item> Every call into the draw manager is appended to a log, in call order.
\<close>

subsection \<open>Macros and casts\<close>

text \<open>
  Modelled from the spec: the macros \<^verbatim>\<open>CLAMP\<close>, \<^verbatim>\<open>MIN2\<close> and \<^verbatim>\<open>MAX2\<close> of
  \<^verbatim>\<open>BLI_utildefines.h\<close> are not part of the sources. The spec says "clamped to
  \<open>[lo, hi]\<close>" and "the image's minor dimension"; \<^verbatim>\<open>CLAMP(a, b, c)\<close> raises \<open>a\<close> to \<open>b\<close>
  when it is below and otherwise lowers it to \<open>c\<close> when it is above.
\<close>

definition CLAMP :: "int \<Rightarrow> int \<Rightarrow> int \<Rightarrow> int" where
  "CLAMP a b c = (if a < b then b else if a > c then c else a)"

definition MIN2 :: "int \<Rightarrow> int \<Rightarrow> int" where
  "MIN2 a b = (if a < b then a else b)"

definition MAX2 :: "int \<Rightarrow> int \<Rightarrow> int" where
  "MAX2 a b = (if a > b then a else b)"

text \<open>
  The cast \<^verbatim>\<open>(int)x\<close> of a float: truncation toward zero, when the truncated value is an
  \<^verbatim>\<open>int\<close> of 32 bits. Otherwise, and for an infinity or NaN, the C standard leaves the cast
  undefined; the model returns \<^verbatim>\<open>INT_MIN\<close>, the value that the conversion instruction of
  x86-64 (\<^verbatim>\<open>cvttss2si\<close>) gives in these cases.
\<close>

definition INT_MIN :: int where
  "INT_MIN = - 2147483648"

definition int_of_float :: "real \<Rightarrow> int" where
  "int_of_float x =
     (if - 2147483649 < x \<and> x < 2147483648 then (if 0 \<le> x then \<lfloor>x\<rfloor> else \<lceil>x\<rceil>)
      else INT_MIN)"

text \<open>The clamp of the specification: the nearest point of the interval \<open>[lo, hi]\<close>.\<close>

definition spec_clamp :: "int \<Rightarrow> int \<Rightarrow> int \<Rightarrow> int" where
  "spec_clamp x lo hi = max lo (min hi x)"

subsection \<open>Single precision\<close>

text \<open>
  Rounding to the binary32 format, to nearest and ties to even. \<open>round_even x\<close> is the
  integer nearest to \<open>x\<close>, the even one of the two when \<open>x\<close> is half-way. The exponent of
  \<open>x\<close> is that of its binade, and \<open>-126\<close> for the subnormal numbers; a unit in the last
  place is \<open>2\<close> to that exponent less \<open>23\<close>, for a significand of 24 bits.
  \<open>round_float32 x\<close> is the multiple of the unit nearest to \<open>x\<close>, with no bound on the
  exponent; \<open>float32_of_real x\<close> is the binary32 value of \<open>x\<close>: this number when it is at
  most \<^verbatim>\<open>FLT_MAX\<close> in magnitude, and an infinity, which is \<open>None\<close>, otherwise.
\<close>

definition round_even :: "real \<Rightarrow> int" where
  "round_even x =
     (let n = \<lfloor>x\<rfloor>; f = x - of_int n
      in if f < 1 / 2 then n else if 1 / 2 < f then n + 1 else if even n then n else n + 1)"

definition float32_exponent :: "real \<Rightarrow> int" where
  "float32_exponent x = max \<lfloor>log 2 \<bar>x\<bar>\<rfloor> (- 126)"

definition float32_ulp :: "real \<Rightarrow> real" where
  "float32_ulp x = 2 powr (of_int (float32_exponent x) - 23)"

definition round_float32 :: "real \<Rightarrow> real" where
  "round_float32 x =
     (if x = 0 then 0 else of_int (round_even (x / float32_ulp x)) * float32_ulp x)"

definition FLT_MAX :: real where
  "FLT_MAX = (2 ^ 24 - 1) * 2 ^ 104"

definition float32_of_real :: "real \<Rightarrow> real option" where
  "float32_of_real x = (let y = round_float32 x in if \<bar>y\<bar> \<le> FLT_MAX then Some y else None)"

subsection \<open>Bloom iteration count\<close>

text \<open>
  Lines 345 to 350 of \<^verbatim>\<open>EEVEE_effects_init\<close>:
  \<^verbatim>\<open>const float minDim = (float)MIN2(blitsize[0], blitsize[1]);\<close>
  \<^verbatim>\<open>const float maxIter = (radius - 8.0f) + log(minDim) / log(2);\<close>
  \<^verbatim>\<open>const int maxIterInt = effects->bloom_iteration_ct = (int)maxIter;\<close>
  \<^verbatim>\<open>CLAMP(effects->bloom_iteration_ct, 1, MAX_BLOOM_STEP);\<close>
  The conversion of the minor dimension to \<^verbatim>\<open>float\<close> rounds, and so does the difference
  \<^verbatim>\<open>radius - 8.0f\<close> of two floats. \<^verbatim>\<open>log\<close> is the function of \<^verbatim>\<open>math.h\<close> on \<^verbatim>\<open>double\<close>: the
  quotient and the sum are computed in \<^verbatim>\<open>double\<close>, exactly in the model, and the sum is
  rounded when it is stored in \<^verbatim>\<open>maxIter\<close>. For a minor dimension that is not positive the
  logarithm is minus infinity or NaN, and so is \<^verbatim>\<open>maxIter\<close>. The constant
  \<^verbatim>\<open>MAX_BLOOM_STEP\<close> of \<^verbatim>\<open>eevee_private.h\<close> is not part of the sources and is the first
  parameter.
\<close>

definition bloom_minDim :: "int \<times> int \<Rightarrow> real" where
  "bloom_minDim blitsize = round_float32 (real_of_int (MIN2 (fst blitsize) (snd blitsize)))"

definition bloom_maxIter :: "real \<Rightarrow> int \<times> int \<Rightarrow> real option" where
  "bloom_maxIter radius blitsize =
     (if bloom_minDim blitsize \<le> 0 then None
      else float32_of_real
             (round_float32 (radius - 8) + ln (bloom_minDim blitsize) / ln 2))"

definition bloom_iteration_count :: "int \<Rightarrow> real \<Rightarrow> int \<times> int \<Rightarrow> int" where
  "bloom_iteration_count max_bloom_step radius blitsize =
     CLAMP (case bloom_maxIter radius blitsize of None \<Rightarrow> INT_MIN | Some x \<Rightarrow> int_of_float x)
       1 max_bloom_step"

subsection \<open>GPU objects, flags and the record of GPU commands\<close>

text \<open>
  A texture pointer \<^verbatim>\<open>GPUTexture *\<close> and a framebuffer pointer \<^verbatim>\<open>GPUFrameBuffer *\<close>.
\<close>

datatype GPUTexture = GPUTexture (tex_id: nat) (tex_width: int) (tex_height: int)

type_synonym tex_ptr = "GPUTexture option"

type_synonym fb_ptr = "nat option"

text \<open>
  Modelled from the spec: the flags \<^verbatim>\<open>EFFECT_*\<close> of \<^verbatim>\<open>eevee_private.h\<close> are not part of
  the sources. The spec speaks of an "enabled-effect bitmask", so each flag is one bit of
  its own.
\<close>

definition EFFECT_MOTION_BLUR :: "32 word" where "EFFECT_MOTION_BLUR = 1"
definition EFFECT_BLOOM :: "32 word" where "EFFECT_BLOOM = 2"
definition EFFECT_DOF :: "32 word" where "EFFECT_DOF = 4"
definition EFFECT_VOLUMETRIC :: "32 word" where "EFFECT_VOLUMETRIC = 8"
definition EFFECT_SSR :: "32 word" where "EFFECT_SSR = 16"
definition EFFECT_DOUBLE_BUFFER :: "32 word" where "EFFECT_DOUBLE_BUFFER = 32"

text \<open>The passes of \<^verbatim>\<open>EEVEE_PassList\<close> that the modelled functions draw.\<close>

datatype pass =
    PSL_motion_blur
  | PSL_dof_down | PSL_dof_scatter | PSL_dof_resolve
  | PSL_bloom_blit | PSL_bloom_downsample_first | PSL_bloom_downsample
  | PSL_bloom_upsample | PSL_bloom_resolve
  | PSL_ssr_raytrace | PSL_ssr_resolve
  | PSL_color_downsample_ps
  | PSL_minz_downlevel_ps | PSL_maxz_downlevel_ps
  | PSL_minz_downdepth_ps | PSL_maxz_downdepth_ps
  | PSL_minz_downdepth_layer_ps | PSL_maxz_downdepth_layer_ps

text \<open>The three callbacks handed to the recursive downsample driver, and the pass each draws.\<close>

datatype callback = min_downsample_cb | max_downsample_cb | simple_downsample_cb

fun callback_pass :: "callback \<Rightarrow> pass" where
  "callback_pass min_downsample_cb = PSL_minz_downlevel_ps"
| "callback_pass max_downsample_cb = PSL_maxz_downlevel_ps"
| "callback_pass simple_downsample_cb = PSL_color_downsample_ps"

text \<open>
  The fields a \<^verbatim>\<open>GPUTexture **\<close> or a \<^verbatim>\<open>GPUFrameBuffer **\<close> can point to: the members of
  \<^verbatim>\<open>EEVEE_TextureList\<close> (\<open>TXL\<close>), of \<^verbatim>\<open>EEVEE_PrivateData\<close> (\<open>G\<close>) and of
  \<^verbatim>\<open>EEVEE_FramebufferList\<close> (\<open>FBL\<close>) that are handed to \<^verbatim>\<open>DRW_framebuffer_init\<close> or to
  the macros that free them.
\<close>

datatype tex_slot =
    TXL_color | TXL_color_post | TXL_color_double_buffer
  | TXL_bloom_blit | TXL_bloom_downsample nat | TXL_bloom_upsample nat
  | TXL_dof_down_near | TXL_dof_down_far | TXL_dof_coc | TXL_dof_far_blur | TXL_dof_near_blur
  | TXL_ssr_normal_input | TXL_ssr_specrough_input | TXL_maxzbuffer
  | G_minzbuffer | G_volumetric | G_volumetric_transmit | G_ssr_hit_output nat

datatype fb_slot =
    FBL_main | FBL_effect_fb | FBL_double_buffer
  | FBL_bloom_blit_fb | FBL_bloom_down_fb nat | FBL_bloom_accum_fb nat
  | FBL_dof_down_fb | FBL_dof_scatter_far_fb | FBL_dof_scatter_near_fb
  | FBL_downsample_fb | FBL_volumetric_fb | FBL_screen_tracing_fb

text \<open>
  The calls into the draw manager, as they are recorded. \<open>Framebuffer_init\<close> keeps the
  framebuffer field, the size and the \<^verbatim>\<open>textures_len\<close> first texture fields of the call;
  \<open>Framebuffer_clear\<close> keeps the clear colour (the modelled calls clear the colour only);
  \<open>Recursive_downsample\<close> keeps the arguments of the driver and the mip levels it rendered,
  each with its index and size. \<open>Swap_double_buffers\<close> is not a call: it marks the
  exchange of the main and the double-buffer targets by the macro \<^verbatim>\<open>SWAP_DOUBLE_BUFFERS\<close>.
\<close>

datatype event =
    Framebuffer_init fb_slot int int "tex_slot list"
  | Framebuffer_free nat
  | Texture_free GPUTexture
  | Texture_attach fb_ptr tex_ptr int
  | Texture_detach tex_ptr
  | Framebuffer_bind fb_ptr
  | Framebuffer_clear real real real real
  | Draw_pass pass
  | Recursive_downsample fb_ptr tex_ptr int callback "(nat \<times> int \<times> int) list"
  | Transform_to_display tex_ptr
  | Swap_double_buffers
  | Request_redraw

subsection \<open>The data of a viewport\<close>

text \<open>
  The members of \<^verbatim>\<open>EEVEE_TextureList\<close>, \<^verbatim>\<open>EEVEE_FramebufferList\<close>, \<^verbatim>\<open>EEVEE_PrivateData\<close>
  and \<^verbatim>\<open>EEVEE_EffectsInfo\<close> that the modelled functions read or write. The arrays
  \<^verbatim>\<open>bloom_downsample\<close>, \<^verbatim>\<open>bloom_upsample\<close>, \<^verbatim>\<open>bloom_down_fb\<close>, \<^verbatim>\<open>bloom_accum_fb\<close> (of
  \<^verbatim>\<open>MAX_BLOOM_STEP\<close> entries) and \<^verbatim>\<open>ssr_hit_output\<close> (of four) are functions of the index.
\<close>

record EEVEE_TextureList =
  color :: tex_ptr
  color_post :: tex_ptr
  color_double_buffer :: tex_ptr
  bloom_blit :: tex_ptr
  bloom_downsample :: "nat \<Rightarrow> tex_ptr"
  bloom_upsample :: "nat \<Rightarrow> tex_ptr"
  dof_down_near :: tex_ptr
  dof_down_far :: tex_ptr
  dof_coc :: tex_ptr
  dof_near_blur :: tex_ptr
  dof_far_blur :: tex_ptr
  ssr_normal_input :: tex_ptr
  ssr_specrough_input :: tex_ptr
  maxzbuffer :: tex_ptr

record EEVEE_FramebufferList =
  main :: fb_ptr
  double_buffer :: fb_ptr
  effect_fb :: fb_ptr
  bloom_blit_fb :: fb_ptr
  bloom_down_fb :: "nat \<Rightarrow> fb_ptr"
  bloom_accum_fb :: "nat \<Rightarrow> fb_ptr"
  dof_down_fb :: fb_ptr
  dof_scatter_far_fb :: fb_ptr
  dof_scatter_near_fb :: fb_ptr
  downsample_fb :: fb_ptr
  volumetric_fb :: fb_ptr
  screen_tracing_fb :: fb_ptr

record EEVEE_PrivateData =
  minzbuffer :: tex_ptr
  volumetric :: tex_ptr
  volumetric_transmit :: tex_ptr
  ssr_hit_output :: "nat \<Rightarrow> tex_ptr"
  valid_double_buffer :: bool

record EEVEE_EffectsInfo =
  enabled_effects :: "32 word"
  bloom_iteration_ct :: int
  ssr_ray_count :: int
  reflection_trace_full :: bool
  source_buffer :: tex_ptr
  target_buffer :: fb_ptr
  unf_source_buffer :: tex_ptr
  unf_base_buffer :: tex_ptr

text \<open>
  The whole state: the lists of the viewport (\<^verbatim>\<open>vedata\<close>), the transmittance mode kept in
  \<^verbatim>\<open>sldata->volumetrics\<close> (allocated zeroed, hence \<open>False\<close> at first), the static
  \<^verbatim>\<open>e_data\<close>, the depth texture and the framebuffer of the default lists, the next
  identity the GPU gives out, and the commands recorded so far.
\<close>

record eevee_state =
  txl :: EEVEE_TextureList
  fbl :: EEVEE_FramebufferList
  g_data :: EEVEE_PrivateData
  effects :: EEVEE_EffectsInfo
  use_colored_transmit :: bool
  e_depth_src :: tex_ptr
  e_color_src :: tex_ptr
  e_depth_src_layer :: int
  dtxl_depth :: tex_ptr
  dfbl_default_fb :: fb_ptr
  next_id :: nat
  cmds :: "event list"

text \<open>
  What \<^verbatim>\<open>EEVEE_effects_init\<close> reads from the scene layer properties, the draw context and
  the viewport. \<open>evil_C_set\<close> is \<^verbatim>\<open>draw_ctx->evil_C != NULL\<close>, \<open>camera_view\<close> is
  \<^verbatim>\<open>rv3d->persp == RV3D_CAMOB && v3d->camera\<close>, \<open>camera_not_keyed\<close> is the result of
  \<^verbatim>\<open>compare_m4m4\<close> on the viewport matrix and the recomputed one, and \<open>world_nodes\<close> is
  \<^verbatim>\<open>wo != NULL && wo->use_nodes && wo->nodetree != NULL\<close>.
\<close>

record config =
  viewport_size :: "real \<times> real"
  prop_motion_blur_enable :: bool
  evil_C_set :: bool
  camera_view :: bool
  camera_not_keyed :: bool
  prop_bloom_enable :: bool
  prop_bloom_radius :: real
  prop_dof_enable :: bool
  prop_volumetric_enable :: bool
  world_nodes :: bool
  prop_volumetric_colored_transmittance :: bool
  prop_ssr_enable :: bool
  prop_ssr_ray_count :: int
  prop_ssr_halfres :: bool

text \<open>What \<^verbatim>\<open>EEVEE_draw_effects\<close> reads from the globals: \<^verbatim>\<open>G.debug_value\<close> and
  \<^verbatim>\<open>DRW_state_is_image_render()\<close>.\<close>

record draw_env =
  debug_value :: int
  is_image_render :: bool

subsection \<open>Reading and writing through a field pointer\<close>

fun tex_get :: "tex_slot \<Rightarrow> eevee_state \<Rightarrow> tex_ptr" where
  "tex_get TXL_color s = color (txl s)"
| "tex_get TXL_color_post s = color_post (txl s)"
| "tex_get TXL_color_double_buffer s = color_double_buffer (txl s)"
| "tex_get TXL_bloom_blit s = bloom_blit (txl s)"
| "tex_get (TXL_bloom_downsample i) s = bloom_downsample (txl s) i"
| "tex_get (TXL_bloom_upsample i) s = bloom_upsample (txl s) i"
| "tex_get TXL_dof_down_near s = dof_down_near (txl s)"
| "tex_get TXL_dof_down_far s = dof_down_far (txl s)"
| "tex_get TXL_dof_coc s = dof_coc (txl s)"
| "tex_get TXL_dof_far_blur s = dof_far_blur (txl s)"
| "tex_get TXL_dof_near_blur s = dof_near_blur (txl s)"
| "tex_get TXL_ssr_normal_input s = ssr_normal_input (txl s)"
| "tex_get TXL_ssr_specrough_input s = ssr_specrough_input (txl s)"
| "tex_get TXL_maxzbuffer s = maxzbuffer (txl s)"
| "tex_get G_minzbuffer s = minzbuffer (g_data s)"
| "tex_get G_volumetric s = volumetric (g_data s)"
| "tex_get G_volumetric_transmit s = volumetric_transmit (g_data s)"
| "tex_get (G_ssr_hit_output i) s = ssr_hit_output (g_data s) i"

fun tex_set :: "tex_slot \<Rightarrow> tex_ptr \<Rightarrow> eevee_state \<Rightarrow> eevee_state" where
  "tex_set TXL_color v s = s\<lparr>txl := (txl s)\<lparr>color := v\<rparr>\<rparr>"
| "tex_set TXL_color_post v s = s\<lparr>txl := (txl s)\<lparr>color_post := v\<rparr>\<rparr>"
| "tex_set TXL_color_double_buffer v s = s\<lparr>txl := (txl s)\<lparr>color_double_buffer := v\<rparr>\<rparr>"
| "tex_set TXL_bloom_blit v s = s\<lparr>txl := (txl s)\<lparr>bloom_blit := v\<rparr>\<rparr>"
| "tex_set (TXL_bloom_downsample i) v s =
     s\<lparr>txl := (txl s)\<lparr>bloom_downsample := (bloom_downsample (txl s))(i := v)\<rparr>\<rparr>"
| "tex_set (TXL_bloom_upsample i) v s =
     s\<lparr>txl := (txl s)\<lparr>bloom_upsample := (bloom_upsample (txl s))(i := v)\<rparr>\<rparr>"
| "tex_set TXL_dof_down_near v s = s\<lparr>txl := (txl s)\<lparr>dof_down_near := v\<rparr>\<rparr>"
| "tex_set TXL_dof_down_far v s = s\<lparr>txl := (txl s)\<lparr>dof_down_far := v\<rparr>\<rparr>"
| "tex_set TXL_dof_coc v s = s\<lparr>txl := (txl s)\<lparr>dof_coc := v\<rparr>\<rparr>"
| "tex_set TXL_dof_far_blur v s = s\<lparr>txl := (txl s)\<lparr>dof_far_blur := v\<rparr>\<rparr>"
| "tex_set TXL_dof_near_blur v s = s\<lparr>txl := (txl s)\<lparr>dof_near_blur := v\<rparr>\<rparr>"
| "tex_set TXL_ssr_normal_input v s = s\<lparr>txl := (txl s)\<lparr>ssr_normal_input := v\<rparr>\<rparr>"
| "tex_set TXL_ssr_specrough_input v s = s\<lparr>txl := (txl s)\<lparr>ssr_specrough_input := v\<rparr>\<rparr>"
| "tex_set TXL_maxzbuffer v s = s\<lparr>txl := (txl s)\<lparr>maxzbuffer := v\<rparr>\<rparr>"
| "tex_set G_minzbuffer v s = s\<lparr>g_data := (g_data s)\<lparr>minzbuffer := v\<rparr>\<rparr>"
| "tex_set G_volumetric v s = s\<lparr>g_data := (g_data s)\<lparr>volumetric := v\<rparr>\<rparr>"
| "tex_set G_volumetric_transmit v s = s\<lparr>g_data := (g_data s)\<lparr>volumetric_transmit := v\<rparr>\<rparr>"
| "tex_set (G_ssr_hit_output i) v s =
     s\<lparr>g_data := (g_data s)\<lparr>ssr_hit_output := (ssr_hit_output (g_data s))(i := v)\<rparr>\<rparr>"

fun fb_get :: "fb_slot \<Rightarrow> eevee_state \<Rightarrow> fb_ptr" where
  "fb_get FBL_main s = main (fbl s)"
| "fb_get FBL_effect_fb s = effect_fb (fbl s)"
| "fb_get FBL_double_buffer s = double_buffer (fbl s)"
| "fb_get FBL_bloom_blit_fb s = bloom_blit_fb (fbl s)"
| "fb_get (FBL_bloom_down_fb i) s = bloom_down_fb (fbl s) i"
| "fb_get (FBL_bloom_accum_fb i) s = bloom_accum_fb (fbl s) i"
| "fb_get FBL_dof_down_fb s = dof_down_fb (fbl s)"
| "fb_get FBL_dof_scatter_far_fb s = dof_scatter_far_fb (fbl s)"
| "fb_get FBL_dof_scatter_near_fb s = dof_scatter_near_fb (fbl s)"
| "fb_get FBL_downsample_fb s = downsample_fb (fbl s)"
| "fb_get FBL_volumetric_fb s = volumetric_fb (fbl s)"
| "fb_get FBL_screen_tracing_fb s = screen_tracing_fb (fbl s)"

fun fb_set :: "fb_slot \<Rightarrow> fb_ptr \<Rightarrow> eevee_state \<Rightarrow> eevee_state" where
  "fb_set FBL_main v s = s\<lparr>fbl := (fbl s)\<lparr>main := v\<rparr>\<rparr>"
| "fb_set FBL_effect_fb v s = s\<lparr>fbl := (fbl s)\<lparr>effect_fb := v\<rparr>\<rparr>"
| "fb_set FBL_double_buffer v s = s\<lparr>fbl := (fbl s)\<lparr>double_buffer := v\<rparr>\<rparr>"
| "fb_set FBL_bloom_blit_fb v s = s\<lparr>fbl := (fbl s)\<lparr>bloom_blit_fb := v\<rparr>\<rparr>"
| "fb_set (FBL_bloom_down_fb i) v s =
     s\<lparr>fbl := (fbl s)\<lparr>bloom_down_fb := (bloom_down_fb (fbl s))(i := v)\<rparr>\<rparr>"
| "fb_set (FBL_bloom_accum_fb i) v s =
     s\<lparr>fbl := (fbl s)\<lparr>bloom_accum_fb := (bloom_accum_fb (fbl s))(i := v)\<rparr>\<rparr>"
| "fb_set FBL_dof_down_fb v s = s\<lparr>fbl := (fbl s)\<lparr>dof_down_fb := v\<rparr>\<rparr>"
| "fb_set FBL_dof_scatter_far_fb v s = s\<lparr>fbl := (fbl s)\<lparr>dof_scatter_far_fb := v\<rparr>\<rparr>"
| "fb_set FBL_dof_scatter_near_fb v s = s\<lparr>fbl := (fbl s)\<lparr>dof_scatter_near_fb := v\<rparr>\<rparr>"
| "fb_set FBL_downsample_fb v s = s\<lparr>fbl := (fbl s)\<lparr>downsample_fb := v\<rparr>\<rparr>"
| "fb_set FBL_volumetric_fb v s = s\<lparr>fbl := (fbl s)\<lparr>volumetric_fb := v\<rparr>\<rparr>"
| "fb_set FBL_screen_tracing_fb v s = s\<lparr>fbl := (fbl s)\<lparr>screen_tracing_fb := v\<rparr>\<rparr>"

definition emit :: "event \<Rightarrow> eevee_state \<Rightarrow> eevee_state" where
  "emit e s = s\<lparr>cmds := cmds s @ [e]\<rparr>"

text \<open>The commands a function issues from a state: its record, started empty.\<close>

definition commands :: "(eevee_state \<Rightarrow> eevee_state) \<Rightarrow> eevee_state \<Rightarrow> event list" where
  "commands f s = cmds (f (s\<lparr>cmds := []\<rparr>))"

subsection \<open>The draw manager\<close>

text \<open>
  Modelled from the spec: \<^verbatim>\<open>DRW_texture_create_2D\<close>, \<^verbatim>\<open>DRW_framebuffer_free\<close> and the
  macros \<^verbatim>\<open>DRW_TEXTURE_FREE_SAFE\<close> and \<^verbatim>\<open>DRW_FRAMEBUFFER_FREE_SAFE\<close> of the draw manager
  are not part of the sources. The spec says that a resource "must be explicitly released"
  and is then "null/freed": the two macros free what a non-null field points to and set the
  field to null. A created texture has a new identity and the size asked for;
  \<open>new_texture w h ts\<close> is the assignment of \<^verbatim>\<open>DRW_texture_create_2D(w, h, ...)\<close> to the
  field \<open>ts\<close>.
\<close>

definition DRW_texture_create_2D :: "int \<Rightarrow> int \<Rightarrow> eevee_state \<Rightarrow> GPUTexture \<times> eevee_state" where
  "DRW_texture_create_2D w h s = (GPUTexture (next_id s) w h, s\<lparr>next_id := Suc (next_id s)\<rparr>)"

definition new_texture :: "int \<Rightarrow> int \<Rightarrow> tex_slot \<Rightarrow> eevee_state \<Rightarrow> eevee_state" where
  "new_texture w h ts s =
     (let (t, s') = DRW_texture_create_2D w h s in tex_set ts (Some t) s')"

definition DRW_framebuffer_free :: "fb_ptr \<Rightarrow> eevee_state \<Rightarrow> eevee_state" where
  "DRW_framebuffer_free fb s = (case fb of None \<Rightarrow> s | Some f \<Rightarrow> emit (Framebuffer_free f) s)"

definition DRW_TEXTURE_FREE_SAFE :: "tex_slot \<Rightarrow> eevee_state \<Rightarrow> eevee_state" where
  "DRW_TEXTURE_FREE_SAFE ts s =
     (case tex_get ts s of None \<Rightarrow> s | Some t \<Rightarrow> tex_set ts None (emit (Texture_free t) s))"

definition DRW_FRAMEBUFFER_FREE_SAFE :: "fb_slot \<Rightarrow> eevee_state \<Rightarrow> eevee_state" where
  "DRW_FRAMEBUFFER_FREE_SAFE fb s =
     (case fb_get fb s of None \<Rightarrow> s | Some f \<Rightarrow> fb_set fb None (emit (Framebuffer_free f) s))"

text \<open>
  Modelled from the spec: \<^verbatim>\<open>DRW_framebuffer_init\<close> is not part of the sources. The spec
  says that framebuffers and textures are "created on first need": the call creates the
  framebuffer when the field is null and, for each of the \<^verbatim>\<open>textures_len\<close> first entries,
  a texture of the given size when the field the entry points to is null. Formats and
  filter flags are not represented.
\<close>

definition new_framebuffer :: "fb_slot \<Rightarrow> eevee_state \<Rightarrow> eevee_state" where
  "new_framebuffer fb s = fb_set fb (Some (next_id s)) (s\<lparr>next_id := Suc (next_id s)\<rparr>)"

definition ensure_textures :: "int \<Rightarrow> int \<Rightarrow> tex_slot list \<Rightarrow> eevee_state \<Rightarrow> eevee_state" where
  "ensure_textures w h tss s =
     fold (\<lambda>ts st. if tex_get ts st = None then new_texture w h ts st else st) tss s"

definition DRW_framebuffer_init ::
  "fb_slot \<Rightarrow> int \<Rightarrow> int \<Rightarrow> tex_slot list \<Rightarrow> int \<Rightarrow> eevee_state \<Rightarrow> eevee_state"
where
  "DRW_framebuffer_init fb width height textures textures_len s =
     (let used = take (nat textures_len) textures;
          s1 = emit (Framebuffer_init fb width height used) s;
          s2 = (if fb_get fb s1 = None then new_framebuffer fb s1 else s1)
      in ensure_textures width height used s2)"

text \<open>
  Modelled from the spec: \<^verbatim>\<open>DRW_framebuffer_recursive_downsample\<close> is not part of the
  sources. The spec says: "given a source framebuffer/texture and a maximum level count,
  repeatedly halve resolution, re-binding the same texture's next mip level as the render
  target and invoking a caller-supplied draw callback, until either the level cap or a
  1\<times>1 size is reached". The two dimensions are \<^verbatim>\<open>int\<close>: halving is the division by 2 of
  C, and nothing else is done to a dimension. \<open>downsample_levels n lvl size\<close> lists the
  levels rendered from a level of the given size when \<open>n\<close> more are allowed, the first of
  them with index \<open>lvl\<close>; none is rendered from a level of size 1\<times>1.
\<close>

fun downsample_levels :: "nat \<Rightarrow> nat \<Rightarrow> int \<times> int \<Rightarrow> (nat \<times> int \<times> int) list" where
  "downsample_levels 0 lvl sz = []"
| "downsample_levels (Suc n) lvl (w, h) =
     (if w = 1 \<and> h = 1 then []
      else (let w' = w sdiv 2; h' = h sdiv 2
            in (lvl, w', h') # downsample_levels n (Suc lvl) (w', h')))"

definition DRW_framebuffer_recursive_downsample ::
  "fb_ptr \<Rightarrow> tex_ptr \<Rightarrow> int \<Rightarrow> callback \<Rightarrow> eevee_state \<Rightarrow> eevee_state"
where
  "DRW_framebuffer_recursive_downsample fb tex num_iter cb s =
     emit (Recursive_downsample fb tex num_iter cb
            (case tex of None \<Rightarrow> []
             | Some t \<Rightarrow> downsample_levels (nat num_iter) 1 (tex_width t, tex_height t))) s"

subsection \<open>\<^verbatim>\<open>EEVEE_effects_init\<close>\<close>

text \<open>
  The function is cut where its comments cut it. The local \<^verbatim>\<open>enabled_effects\<close> is threaded
  through the first three blocks, next to the state. Not represented: the creation of the
  shaders, the matrices and the sample count of the motion blur, the texel sizes, the
  curve and the intensity of the bloom, the lens parameters of the depth of field, the
  ambient occlusion settings, the integration bounds and counts of the volumetrics, and the
  quality, thickness, fade and firefly parameters of the reflections; none of them decides a
  branch or a resource.
\<close>

definition init_motion_blur :: "config \<Rightarrow> 32 word \<times> eevee_state \<Rightarrow> 32 word \<times> eevee_state" where
  "init_motion_blur cfg = (\<lambda>(enabled, s).
     if prop_motion_blur_enable cfg \<and> evil_C_set cfg then
       if camera_view cfg then
         if camera_not_keyed cfg then (enabled OR EFFECT_MOTION_BLUR, s)
         else (enabled, s)
       else (enabled, s)
     else (enabled, s))"

text \<open>The two loops over the bloom steps: \<^verbatim>\<open>texsize\<close> is halved, kept at two or more, and
  a framebuffer of that size is set up for step \<open>i\<close>.\<close>

definition bloom_halve :: "int \<times> int \<Rightarrow> int \<times> int" where
  "bloom_halve texsize = (MAX2 (fst texsize sdiv 2) 2, MAX2 (snd texsize sdiv 2) 2)"

definition bloom_down_step :: "nat \<Rightarrow> (int \<times> int) \<times> eevee_state \<Rightarrow> (int \<times> int) \<times> eevee_state" where
  "bloom_down_step i = (\<lambda>(texsize, s).
     let texsize' = bloom_halve texsize
     in (texsize', DRW_framebuffer_init (FBL_bloom_down_fb i) (fst texsize') (snd texsize')
                     [TXL_bloom_downsample i] 1 s))"

definition bloom_accum_step :: "nat \<Rightarrow> (int \<times> int) \<times> eevee_state \<Rightarrow> (int \<times> int) \<times> eevee_state" where
  "bloom_accum_step i = (\<lambda>(texsize, s).
     let texsize' = bloom_halve texsize
     in (texsize', DRW_framebuffer_init (FBL_bloom_accum_fb i) (fst texsize') (snd texsize')
                     [TXL_bloom_upsample i] 1 s))"

definition init_bloom ::
  "int \<Rightarrow> config \<Rightarrow> 32 word \<times> eevee_state \<Rightarrow> 32 word \<times> eevee_state"
where
  "init_bloom max_bloom_step cfg = (\<lambda>(enabled, s).
     if prop_bloom_enable cfg then
       (let blitsize = (int_of_float (fst (viewport_size cfg)),
                        int_of_float (snd (viewport_size cfg)));
            s1 = DRW_framebuffer_init FBL_bloom_blit_fb (fst blitsize) (snd blitsize)
                   [TXL_bloom_blit] 1 s;
            ct = bloom_iteration_count max_bloom_step (prop_bloom_radius cfg) blitsize;
            s2 = s1\<lparr>effects := (effects s1)\<lparr>bloom_iteration_ct := ct\<rparr>\<rparr>;
            s3 = snd (fold bloom_down_step [0..<nat ct] (blitsize, s2));
            s4 = snd (fold bloom_accum_step [0..<nat (ct - 1)] (blitsize, s3))
        in (enabled OR EFFECT_BLOOM, s4))
     else (enabled, s))"

definition init_dof :: "config \<Rightarrow> 32 word \<times> eevee_state \<Rightarrow> 32 word \<times> eevee_state" where
  "init_dof cfg = (\<lambda>(enabled, s).
     if prop_dof_enable cfg then
       if camera_view cfg then
         (let buffer_size = (int_of_float (fst (viewport_size cfg)) sdiv 2,
                             int_of_float (snd (viewport_size cfg)) sdiv 2);
              dof_down_near_p =
                (if enabled AND EFFECT_BLOOM \<noteq> 0 then TXL_bloom_downsample 0
                 else TXL_dof_down_near);
              fb_reset =
                (if enabled AND EFFECT_BLOOM \<noteq> 0 then
                   (if enabled_effects (effects s) AND EFFECT_BLOOM = 0 then True else False)
                 else if enabled_effects (effects s) AND EFFECT_BLOOM \<noteq> 0 then True
                 else False);
              s1 = (if fb_reset \<and> dof_down_fb (fbl s) \<noteq> None
                    then fb_set FBL_dof_down_fb None (DRW_framebuffer_free (dof_down_fb (fbl s)) s)
                    else s);
              s2 = DRW_framebuffer_init FBL_dof_down_fb (fst buffer_size) (snd buffer_size)
                     [dof_down_near_p, TXL_dof_down_far, TXL_dof_coc] 3 s1;
              s3 = DRW_framebuffer_init FBL_dof_scatter_far_fb (fst buffer_size) (snd buffer_size)
                     [TXL_dof_far_blur] 1 s2;
              s4 = DRW_framebuffer_init FBL_dof_scatter_near_fb (fst buffer_size) (snd buffer_size)
                     [TXL_dof_near_blur] 1 s3
          in (enabled OR EFFECT_DOF, s4))
       else (enabled, s)
     else (enabled, s))"

text \<open>\<^verbatim>\<open>effects->enabled_effects = enabled_effects\<close>, then the ping-pong buffer.\<close>

definition init_ping_pong :: "config \<Rightarrow> 32 word \<times> eevee_state \<Rightarrow> eevee_state" where
  "init_ping_pong cfg = (\<lambda>(enabled, s).
     let s1 = s\<lparr>effects := (effects s)\<lparr>enabled_effects := enabled\<rparr>\<rparr>
     in if enabled_effects (effects s1) \<noteq> 0
        then DRW_framebuffer_init FBL_effect_fb (int_of_float (fst (viewport_size cfg)))
               (int_of_float (snd (viewport_size cfg))) [TXL_color_post] 1 s1
        else s1)"

definition init_minmax :: "config \<Rightarrow> eevee_state \<Rightarrow> eevee_state" where
  "init_minmax cfg s =
     (let w = int_of_float (fst (viewport_size cfg)) sdiv 2;
          h = int_of_float (snd (viewport_size cfg)) sdiv 2;
          s1 = DRW_framebuffer_init FBL_downsample_fb w h [G_minzbuffer] 1 s
      in if maxzbuffer (txl s1) = None
         then new_texture w h TXL_maxzbuffer s1
         else s1)"

definition init_volumetric :: "config \<Rightarrow> eevee_state \<Rightarrow> eevee_state" where
  "init_volumetric cfg s =
     (if prop_volumetric_enable cfg then
        if world_nodes cfg then
          (let s1 = s\<lparr>effects := (effects s)
                       \<lparr>enabled_effects := enabled_effects (effects s) OR EFFECT_VOLUMETRIC\<rparr>\<rparr>;
               last_use_colored_transmit = use_colored_transmit s1;
               s2 = s1\<lparr>use_colored_transmit := prop_volumetric_colored_transmittance cfg\<rparr>;
               s3 = (if last_use_colored_transmit \<noteq> use_colored_transmit s2
                     then (if volumetric_fb (fbl s2) \<noteq> None
                           then fb_set FBL_volumetric_fb None
                                  (DRW_framebuffer_free (volumetric_fb (fbl s2)) s2)
                           else s2)
                     else s2);
               w = int_of_float (fst (viewport_size cfg)) sdiv 2;
               h = int_of_float (snd (viewport_size cfg)) sdiv 2
           in if use_colored_transmit s3 = False
              then DRW_framebuffer_init FBL_volumetric_fb w h [G_volumetric] 1 s3
              else DRW_framebuffer_init FBL_volumetric_fb w h
                     [G_volumetric, G_volumetric_transmit] 2 s3)
        else s
      else s)"

text \<open>The reflections when enabled, up to the comment \<^verbatim>\<open>/* Raytracing output */\<close>: the flags,
  the clamped ray count, the two input textures and their attachment to the main
  framebuffer.\<close>

definition init_ssr_inputs :: "config \<Rightarrow> eevee_state \<Rightarrow> eevee_state" where
  "init_ssr_inputs cfg s =
     (let s1 = s\<lparr>effects := (effects s)
                  \<lparr>enabled_effects := enabled_effects (effects s) OR EFFECT_SSR\<rparr>\<rparr>;
          s2 = s1\<lparr>effects := (effects s1)
                  \<lparr>enabled_effects := enabled_effects (effects s1) OR EFFECT_DOUBLE_BUFFER\<rparr>\<rparr>;
          s3 = s2\<lparr>effects := (effects s2)
                  \<lparr>ssr_ray_count := prop_ssr_ray_count cfg,
                   reflection_trace_full := \<not> prop_ssr_halfres cfg\<rparr>\<rparr>;
          s4 = s3\<lparr>effects := (effects s3)
                  \<lparr>ssr_ray_count := CLAMP (ssr_ray_count (effects s3)) 1 4\<rparr>\<rparr>;
          s5 = (if ssr_normal_input (txl s4) = None
                then new_texture (int_of_float (fst (viewport_size cfg)))
                       (int_of_float (snd (viewport_size cfg))) TXL_ssr_normal_input s4
                else s4);
          s6 = (if ssr_specrough_input (txl s5) = None
                then new_texture (int_of_float (fst (viewport_size cfg)))
                       (int_of_float (snd (viewport_size cfg))) TXL_ssr_specrough_input s5
                else s5);
          s7 = emit (Texture_detach (ssr_normal_input (txl s6))) s6;
          s8 = emit (Texture_detach (ssr_specrough_input (txl s7))) s7;
          s9 = emit (Texture_attach (main (fbl s8)) (ssr_normal_input (txl s8)) 1) s8
      in emit (Texture_attach (main (fbl s9)) (ssr_specrough_input (txl s9)) 2) s9)"

definition init_ssr :: "config \<Rightarrow> eevee_state \<Rightarrow> eevee_state" where
  "init_ssr cfg s =
     (if prop_ssr_enable cfg then
        (let s10 = init_ssr_inputs cfg s;
             divisor = (if reflection_trace_full (effects s10) then 1 else 2);
             tracing_res = (int_of_float (fst (viewport_size cfg)) sdiv divisor,
                            int_of_float (snd (viewport_size cfg)) sdiv divisor)
         in DRW_framebuffer_init FBL_screen_tracing_fb (fst tracing_res) (snd tracing_res)
              [G_ssr_hit_output 0, G_ssr_hit_output 1, G_ssr_hit_output 2, G_ssr_hit_output 3]
              (ssr_ray_count (effects s10)) s10)
      else
        (let s1 = DRW_TEXTURE_FREE_SAFE TXL_ssr_normal_input s;
             s2 = DRW_TEXTURE_FREE_SAFE TXL_ssr_specrough_input s1;
             s3 = DRW_FRAMEBUFFER_FREE_SAFE FBL_screen_tracing_fb s2
         in fold (\<lambda>i st. tex_set (G_ssr_hit_output i) None st) [0..<4] s3))"

definition init_double_buffer :: "config \<Rightarrow> eevee_state \<Rightarrow> eevee_state" where
  "init_double_buffer cfg s =
     (if enabled_effects (effects s) AND EFFECT_DOUBLE_BUFFER \<noteq> 0
      then DRW_framebuffer_init FBL_double_buffer (int_of_float (fst (viewport_size cfg)))
             (int_of_float (snd (viewport_size cfg))) [TXL_color_double_buffer] 1 s
      else DRW_FRAMEBUFFER_FREE_SAFE FBL_double_buffer
             (DRW_TEXTURE_FREE_SAFE TXL_color_double_buffer s))"

definition EEVEE_effects_init :: "int \<Rightarrow> config \<Rightarrow> eevee_state \<Rightarrow> eevee_state" where
  "EEVEE_effects_init max_bloom_step cfg s =
     init_double_buffer cfg
       (init_ssr cfg
         (init_volumetric cfg
           (init_minmax cfg
             (init_ping_pong cfg
               (init_dof cfg
                 (init_bloom max_bloom_step cfg
                   (init_motion_blur cfg (0, s))))))))"

subsection \<open>\<^verbatim>\<open>EEVEE_effects_cache_init\<close>: the hit buffers of the resolve pass\<close>

text \<open>
  Lines 785 to 788: the four uniforms \<^verbatim>\<open>hitBuffer0\<close> to \<^verbatim>\<open>hitBuffer3\<close> of the shading group
  of the pass \<^verbatim>\<open>ssr_resolve\<close>, each with the field it is bound to. The group exists when
  \<^verbatim>\<open>EFFECT_SSR\<close> is enabled.
\<close>

definition ssr_resolve_hit_buffers :: "EEVEE_EffectsInfo \<Rightarrow> (string \<times> tex_slot) list" where
  "ssr_resolve_hit_buffers eff =
     [(''hitBuffer0'', G_ssr_hit_output 0),
      (''hitBuffer1'', if ssr_ray_count eff < 2 then G_ssr_hit_output 0 else G_ssr_hit_output 1),
      (''hitBuffer2'', if ssr_ray_count eff < 3 then G_ssr_hit_output 0 else G_ssr_hit_output 2),
      (''hitBuffer3'', if ssr_ray_count eff < 4 then G_ssr_hit_output 0 else G_ssr_hit_output 3)]"

definition cache_init_ssr_hit_buffers :: "eevee_state \<Rightarrow> (string \<times> tex_slot) list" where
  "cache_init_ssr_hit_buffers s =
     (if enabled_effects (effects s) AND EFFECT_SSR \<noteq> 0
      then ssr_resolve_hit_buffers (effects s) else [])"

subsection \<open>\<^verbatim>\<open>EEVEE_create_minmax_buffer\<close> and \<^verbatim>\<open>EEVEE_downsample_buffer\<close>\<close>


definition EEVEE_downsample_buffer :: "fb_ptr \<Rightarrow> tex_ptr \<Rightarrow> int \<Rightarrow> eevee_state \<Rightarrow> eevee_state" where
  "EEVEE_downsample_buffer fb_src texture_src level s =
     DRW_framebuffer_recursive_downsample fb_src texture_src level simple_downsample_cb
       (s\<lparr>e_color_src := texture_src\<rparr>)"

subsection \<open>\<^verbatim>\<open>EEVEE_effects_do_ssr\<close>\<close>

definition ssr_attach_hit_outputs :: "eevee_state \<Rightarrow> eevee_state" where
  "ssr_attach_hit_outputs s =
     fold (\<lambda>i st. emit (Texture_attach (screen_tracing_fb (fbl st))
                          (ssr_hit_output (g_data st) i) (int i)) st)
       [0..<nat (ssr_ray_count (effects s))] s"

definition ssr_detach_hit_outputs :: "eevee_state \<Rightarrow> eevee_state" where
  "ssr_detach_hit_outputs s =
     fold (\<lambda>i st. emit (Texture_detach (ssr_hit_output (g_data st) i)) st)
       [0..<nat (ssr_ray_count (effects s))] s"

text \<open>The clear colour \<^verbatim>\<open>{0.0f, 0.0f, -1.0f, 0.001f}\<close>: the last component is the binary32
  number nearest to \<open>0.001\<close>.\<close>

definition ssr_trace_or_clear :: "eevee_state \<Rightarrow> eevee_state" where
  "ssr_trace_or_clear s =
     (if valid_double_buffer (g_data s) then emit (Draw_pass PSL_ssr_raytrace) s
      else emit (Framebuffer_clear 0 0 (- 1) (round_float32 (1 / 1000))) s)"

definition ssr_resolve_and_restore :: "eevee_state \<Rightarrow> eevee_state" where
  "ssr_resolve_and_restore s =
     (let s1 = emit (Texture_detach (dtxl_depth s)) s;
          s2 = emit (Texture_detach (ssr_normal_input (txl s1))) s1;
          s3 = emit (Texture_detach (ssr_specrough_input (txl s2))) s2;
          s4 = emit (Framebuffer_bind (main (fbl s3))) s3;
          s5 = emit (Draw_pass PSL_ssr_resolve) s4;
          s6 = emit (Texture_attach (main (fbl s5)) (dtxl_depth s5) 0) s5;
          s7 = emit (Texture_attach (main (fbl s6)) (ssr_normal_input (txl s6)) 1) s6
      in emit (Texture_attach (main (fbl s7)) (ssr_specrough_input (txl s7)) 2) s7)"

definition EEVEE_effects_do_ssr :: "eevee_state \<Rightarrow> eevee_state" where
  "EEVEE_effects_do_ssr s =
     (if enabled_effects (effects s) AND EFFECT_SSR \<noteq> 0 then
        (let s1 = s\<lparr>e_depth_src := dtxl_depth s\<rparr>;
             s2 = ssr_attach_hit_outputs s1;
             s3 = emit (Framebuffer_bind (screen_tracing_fb (fbl s2))) s2;
             s4 = ssr_trace_or_clear s3;
             s5 = ssr_detach_hit_outputs s4;
             s6 = EEVEE_downsample_buffer (downsample_fb (fbl s5))
                    (color_double_buffer (txl s5)) 9 s5
         in ssr_resolve_and_restore s6)
      else s)"

subsection \<open>\<^verbatim>\<open>EEVEE_draw_effects\<close>\<close>

text \<open>
  The macros \<^verbatim>\<open>SWAP_DOUBLE_BUFFERS\<close> and \<^verbatim>\<open>SWAP_BUFFERS\<close> of lines 1108 to 1127. They read
  and write the local \<^verbatim>\<open>swap_double_buffer\<close> of \<^verbatim>\<open>EEVEE_draw_effects\<close>, which is threaded next
  to the state. \<^verbatim>\<open>SWAP(type, a, b)\<close> exchanges its two arguments.
\<close>

definition SWAP_DOUBLE_BUFFERS :: "bool \<times> eevee_state \<Rightarrow> bool \<times> eevee_state" where
  "SWAP_DOUBLE_BUFFERS = (\<lambda>(swap_double_buffer, s).
     if swap_double_buffer then
       (let s1 = s\<lparr>fbl := (fbl s)\<lparr>main := double_buffer (fbl s),
                                  double_buffer := main (fbl s)\<rparr>\<rparr>;
            s2 = s1\<lparr>txl := (txl s1)\<lparr>color := color_double_buffer (txl s1),
                                    color_double_buffer := color (txl s1)\<rparr>\<rparr>
        in (False, emit Swap_double_buffers s2))
     else (swap_double_buffer, s))"

definition SWAP_BUFFERS :: "bool \<times> eevee_state \<Rightarrow> bool \<times> eevee_state" where
  "SWAP_BUFFERS = (\<lambda>(swap_double_buffer, s).
     if source_buffer (effects s) = color (txl s) then
       (let (swap_double_buffer', s1) = SWAP_DOUBLE_BUFFERS (swap_double_buffer, s)
        in (swap_double_buffer',
            s1\<lparr>effects := (effects s1)\<lparr>source_buffer := color_post (txl s1),
                                       target_buffer := main (fbl s1)\<rparr>\<rparr>))
     else
       (let (swap_double_buffer', s1) = SWAP_DOUBLE_BUFFERS (swap_double_buffer, s)
        in (swap_double_buffer',
            s1\<lparr>effects := (effects s1)\<lparr>source_buffer := color (txl s1),
                                       target_buffer := effect_fb (fbl s1)\<rparr>\<rparr>)))"

definition draw_motion_blur :: "bool \<times> eevee_state \<Rightarrow> bool \<times> eevee_state" where
  "draw_motion_blur = (\<lambda>(swap_double_buffer, s).
     if enabled_effects (effects s) AND EFFECT_MOTION_BLUR \<noteq> 0 then
       (let s1 = emit (Framebuffer_bind (target_buffer (effects s))) s;
            s2 = emit (Draw_pass PSL_motion_blur) s1
        in SWAP_BUFFERS (swap_double_buffer, s2))
     else (swap_double_buffer, s))"

text \<open>The depth of field block up to its resolve pass; the block itself ends with
  \<^verbatim>\<open>SWAP_BUFFERS\<close>. The layer selection of the scatter pass is not represented.\<close>

definition draw_dof_passes :: "eevee_state \<Rightarrow> eevee_state" where
  "draw_dof_passes s =
     (let s1 = emit (Framebuffer_bind (dof_down_fb (fbl s))) s;
          s2 = emit (Draw_pass PSL_dof_down) s1;
          s3 = s2\<lparr>effects := (effects s2)\<lparr>unf_source_buffer := dof_down_far (txl s2)\<rparr>\<rparr>;
          s4 = emit (Framebuffer_bind (dof_scatter_far_fb (fbl s3))) s3;
          s5 = emit (Framebuffer_clear 0 0 0 0) s4;
          s6 = emit (Draw_pass PSL_dof_scatter) s5;
          s7 = (if enabled_effects (effects s6) AND EFFECT_BLOOM \<noteq> 0
                then s6\<lparr>effects := (effects s6)
                          \<lparr>unf_source_buffer := bloom_downsample (txl s6) 0\<rparr>\<rparr>
                else s6\<lparr>effects := (effects s6)
                          \<lparr>unf_source_buffer := dof_down_near (txl s6)\<rparr>\<rparr>);
          s8 = emit (Framebuffer_bind (dof_scatter_near_fb (fbl s7))) s7;
          s9 = emit (Framebuffer_clear 0 0 0 0) s8;
          s10 = emit (Draw_pass PSL_dof_scatter) s9;
          s11 = emit (Framebuffer_bind (target_buffer (effects s10))) s10
      in emit (Draw_pass PSL_dof_resolve) s11)"

definition draw_dof :: "bool \<times> eevee_state \<Rightarrow> bool \<times> eevee_state" where
  "draw_dof = (\<lambda>(swap_double_buffer, s).
     if enabled_effects (effects s) AND EFFECT_DOF \<noteq> 0
     then SWAP_BUFFERS (swap_double_buffer, draw_dof_passes s)
     else (swap_double_buffer, s))"

text \<open>The two loops of the bloom block; the local \<^verbatim>\<open>last\<close> is threaded next to the state.
  Then the block up to its resolve pass; the block itself ends with \<^verbatim>\<open>SWAP_BUFFERS\<close>. The
  texel sizes are not represented.\<close>

definition bloom_downsample_step :: "nat \<Rightarrow> tex_ptr \<times> eevee_state \<Rightarrow> tex_ptr \<times> eevee_state" where
  "bloom_downsample_step i = (\<lambda>(last, s).
     let s1 = s\<lparr>effects := (effects s)\<lparr>unf_source_buffer := last\<rparr>\<rparr>;
         s2 = emit (Framebuffer_bind (bloom_down_fb (fbl s1) i)) s1;
         s3 = emit (Draw_pass PSL_bloom_downsample) s2
     in (bloom_downsample (txl s3) i, s3))"

definition bloom_upsample_step :: "nat \<Rightarrow> tex_ptr \<times> eevee_state \<Rightarrow> tex_ptr \<times> eevee_state" where
  "bloom_upsample_step i = (\<lambda>(last, s).
     let s1 = s\<lparr>effects := (effects s)\<lparr>unf_source_buffer := bloom_downsample (txl s) i\<rparr>\<rparr>;
         s2 = s1\<lparr>effects := (effects s1)\<lparr>unf_base_buffer := last\<rparr>\<rparr>;
         s3 = emit (Framebuffer_bind (bloom_accum_fb (fbl s2) i)) s2;
         s4 = emit (Draw_pass PSL_bloom_upsample) s3
     in (bloom_upsample (txl s4) i, s4))"

definition draw_bloom_passes :: "eevee_state \<Rightarrow> eevee_state" where
  "draw_bloom_passes s =
     (let s1 = s\<lparr>effects := (effects s)\<lparr>unf_source_buffer := source_buffer (effects s)\<rparr>\<rparr>;
          s2 = emit (Framebuffer_bind (bloom_blit_fb (fbl s1))) s1;
          s3 = emit (Draw_pass PSL_bloom_blit) s2;
          s4 = s3\<lparr>effects := (effects s3)\<lparr>unf_source_buffer := bloom_blit (txl s3)\<rparr>\<rparr>;
          s5 = emit (Framebuffer_bind (bloom_down_fb (fbl s4) 0)) s4;
          s6 = emit (Draw_pass PSL_bloom_downsample_first) s5;
          (last1, s7) = fold bloom_downsample_step
                          [1..<nat (bloom_iteration_ct (effects s6))]
                          (bloom_downsample (txl s6) 0, s6);
          (last2, s8) = fold bloom_upsample_step
                          (rev [0..<nat (bloom_iteration_ct (effects s7) - 1)])
                          (last1, s7);
          s9 = s8\<lparr>effects := (effects s8)\<lparr>unf_source_buffer := last2\<rparr>\<rparr>;
          s10 = s9\<lparr>effects := (effects s9)\<lparr>unf_base_buffer := source_buffer (effects s9)\<rparr>\<rparr>;
          s11 = emit (Framebuffer_bind (target_buffer (effects s10))) s10
      in emit (Draw_pass PSL_bloom_resolve) s11)"

definition draw_bloom :: "bool \<times> eevee_state \<Rightarrow> bool \<times> eevee_state" where
  "draw_bloom = (\<lambda>(swap_double_buffer, s).
     if enabled_effects (effects s) AND EFFECT_BLOOM \<noteq> 0
     then SWAP_BUFFERS (swap_double_buffer, draw_bloom_passes s)
     else (swap_double_buffer, s))"

text \<open>Lines 1245 to 1273: the default framebuffer is restored, the source buffer goes to
  the display, and in debug mode one more buffer is shown on top.\<close>

definition draw_tonemap :: "eevee_state \<Rightarrow> eevee_state" where
  "draw_tonemap s =
     (let s1 = emit (Texture_attach (dfbl_default_fb s) (dtxl_depth s) 0) s;
          s2 = emit (Framebuffer_bind (dfbl_default_fb s1)) s1
      in emit (Transform_to_display (source_buffer (effects s2))) s2)"

definition draw_debug :: "draw_env \<Rightarrow> eevee_state \<Rightarrow> eevee_state" where
  "draw_debug env s =
     (if debug_value env > 0 \<and> debug_value env \<le> 5 then
        (if debug_value env = 1 then
           (if minzbuffer (g_data s) \<noteq> None
            then emit (Transform_to_display (minzbuffer (g_data s))) s else s)
         else if debug_value env = 2 then
           (if ssr_hit_output (g_data s) 0 \<noteq> None
            then emit (Transform_to_display (ssr_hit_output (g_data s) 0)) s else s)
         else if debug_value env = 3 then
           (if ssr_normal_input (txl s) \<noteq> None
            then emit (Transform_to_display (ssr_normal_input (txl s))) s else s)
         else if debug_value env = 4 then
           (if ssr_specrough_input (txl s) \<noteq> None
            then emit (Transform_to_display (ssr_specrough_input (txl s))) s else s)
         else if debug_value env = 5 then
           (if color_double_buffer (txl s) \<noteq> None
            then emit (Transform_to_display (color_double_buffer (txl s))) s else s)
         else s)
      else s)"

text \<open>Lines 1275 to 1293: the deferred exchange, the request for another frame, and the
  validity of the history. The previous view-projection matrix is not represented.\<close>

definition draw_finish :: "draw_env \<Rightarrow> bool \<times> eevee_state \<Rightarrow> eevee_state" where
  "draw_finish env st =
     (let (swap_double_buffer, s1) = SWAP_DOUBLE_BUFFERS st;
          s2 = (if \<not> valid_double_buffer (g_data s1)
                   \<and> enabled_effects (effects s1) AND EFFECT_DOUBLE_BUFFER \<noteq> 0
                   \<and> is_image_render env = False
                then emit Request_redraw s1 else s1)
      in if is_image_render env
         then s2\<lparr>g_data := (g_data s2)
                   \<lparr>valid_double_buffer := (color_double_buffer (txl s2) \<noteq> None)\<rparr>\<rparr>
         else s2)"

definition draw_begin :: "eevee_state \<Rightarrow> bool \<times> eevee_state" where
  "draw_begin s =
     (let swap_double_buffer = (enabled_effects (effects s) AND EFFECT_DOUBLE_BUFFER \<noteq> 0);
          s1 = s\<lparr>effects := (effects s)\<lparr>source_buffer := color (txl s)\<rparr>\<rparr>;
          s2 = s1\<lparr>effects := (effects s1)\<lparr>target_buffer := effect_fb (fbl s1)\<rparr>\<rparr>
      in (swap_double_buffer, emit (Texture_detach (dtxl_depth s2)) s2))"

definition EEVEE_draw_effects :: "draw_env \<Rightarrow> eevee_state \<Rightarrow> eevee_state" where
  "EEVEE_draw_effects env s =
     (let (swap_double_buffer, s1) = draw_bloom (draw_dof (draw_motion_blur (draw_begin s)))
      in draw_finish env (swap_double_buffer, draw_debug env (draw_tonemap s1)))"

text \<open>What a record of commands holds: the number of exchanges of the main and the
  double-buffer targets, and the textures sent to the display, in order.\<close>

definition exchanges :: "event list \<Rightarrow> nat" where
  "exchanges evs = length (filter (\<lambda>e. e = Swap_double_buffers) evs)"

fun displayed_texture :: "event \<Rightarrow> tex_ptr option" where
  "displayed_texture (Transform_to_display t) = Some t"
| "displayed_texture _ = None"

definition displayed :: "event list \<Rightarrow> tex_ptr list" where
  "displayed evs = List.map_filter displayed_texture evs"

text \<open>\<open>emits P c c'\<close>: the record \<open>c'\<close> extends the record \<open>c\<close> by commands that all
  satisfy \<open>P\<close>.\<close>

definition emits :: "(event \<Rightarrow> bool) \<Rightarrow> event list \<Rightarrow> event list \<Rightarrow> bool" where
  "emits P c c' = (take (length c) c' = c \<and> list_all P (drop (length c) c'))"

text \<open>The framebuffer field a \<open>Framebuffer_init\<close> command is for.\<close>

fun init_target :: "event \<Rightarrow> fb_slot option" where
  "init_target (Framebuffer_init fb w h texs) = Some fb"
| "init_target _ = None"

text \<open>\<open>changes_only T F s s'\<close>: from \<open>s\<close> to \<open>s'\<close> no texture field outside \<open>T\<close> and no
  framebuffer field outside \<open>F\<close> has changed, no identity has been taken back, and the
  commands added to the record set up framebuffers of \<open>F\<close> only.\<close>

definition changes_only ::
  "tex_slot set \<Rightarrow> fb_slot set \<Rightarrow> eevee_state \<Rightarrow> eevee_state \<Rightarrow> bool"
where
  "changes_only T F s s' \<longleftrightarrow>
     (\<forall>ts. ts \<notin> T \<longrightarrow> tex_get ts s' = tex_get ts s) \<and>
     (\<forall>fb. fb \<notin> F \<longrightarrow> fb_get fb s' = fb_get fb s) \<and>
     next_id s \<le> next_id s' \<and>
     emits (\<lambda>e. case init_target e of None \<Rightarrow> True | Some fb \<Rightarrow> fb \<in> F) (cmds s) (cmds s')"

text \<open>The local \<^verbatim>\<open>enabled_effects\<close> after the first three blocks of
  \<^verbatim>\<open>EEVEE_effects_init\<close>, and the field \<^verbatim>\<open>effects->enabled_effects\<close> when it returns, as
  functions of the configuration.\<close>

definition enabled_local :: "config \<Rightarrow> 32 word" where
  "enabled_local cfg =
     (let e1 = (if prop_motion_blur_enable cfg \<and> evil_C_set cfg \<and> camera_view cfg
                   \<and> camera_not_keyed cfg
                then 0 OR EFFECT_MOTION_BLUR else 0);
          e2 = (if prop_bloom_enable cfg then e1 OR EFFECT_BLOOM else e1)
      in if prop_dof_enable cfg \<and> camera_view cfg then e2 OR EFFECT_DOF else e2)"

definition enabled_final :: "config \<Rightarrow> 32 word" where
  "enabled_final cfg =
     (let e1 = (if prop_volumetric_enable cfg \<and> world_nodes cfg
                then enabled_local cfg OR EFFECT_VOLUMETRIC else enabled_local cfg)
      in if prop_ssr_enable cfg then (e1 OR EFFECT_SSR) OR EFFECT_DOUBLE_BUFFER else e1)"

subsection \<open>A viewport and a configuration to evaluate on\<close>

text \<open>A viewport of 1920 by 1080 pixels before its first frame: the main framebuffer, its
  colour texture, the depth texture and the default framebuffer exist, nothing else does.
  And a configuration in which every effect is switched off.\<close>

definition example_state :: eevee_state where
  "example_state =
     \<lparr>txl = \<lparr>color = Some (GPUTexture 1 1920 1080), color_post = None,
             color_double_buffer = None, bloom_blit = None,
             bloom_downsample = (\<lambda>i. None), bloom_upsample = (\<lambda>i. None),
             dof_down_near = None, dof_down_far = None, dof_coc = None,
             dof_near_blur = None, dof_far_blur = None,
             ssr_normal_input = None, ssr_specrough_input = None, maxzbuffer = None\<rparr>,
      fbl = \<lparr>main = Some 0, double_buffer = None, effect_fb = None, bloom_blit_fb = None,
             bloom_down_fb = (\<lambda>i. None), bloom_accum_fb = (\<lambda>i. None),
             dof_down_fb = None, dof_scatter_far_fb = None, dof_scatter_near_fb = None,
             downsample_fb = None, volumetric_fb = None, screen_tracing_fb = None\<rparr>,
      g_data = \<lparr>minzbuffer = None, volumetric = None, volumetric_transmit = None,
                ssr_hit_output = (\<lambda>i. None), valid_double_buffer = False\<rparr>,
      effects = \<lparr>enabled_effects = 0, bloom_iteration_ct = 0, ssr_ray_count = 0,
                 reflection_trace_full = False, source_buffer = None, target_buffer = None,
                 unf_source_buffer = None, unf_base_buffer = None\<rparr>,
      use_colored_transmit = False,
      e_depth_src = None, e_color_src = None, e_depth_src_layer = 0,
      dtxl_depth = Some (GPUTexture 2 1920 1080), dfbl_default_fb = Some 3,
      next_id = 4, cmds = []\<rparr>"

definition example_config :: config where
  "example_config =
     \<lparr>viewport_size = (1920, 1080),
      prop_motion_blur_enable = False, evil_C_set = True, camera_view = True,
      camera_not_keyed = True,
      prop_bloom_enable = False, prop_bloom_radius = 6,
      prop_dof_enable = False,
      prop_volumetric_enable = False, world_nodes = True,
      prop_volumetric_colored_transmittance = False,
      prop_ssr_enable = False, prop_ssr_ray_count = 6, prop_ssr_halfres = False\<rparr>"

subsection \<open>The function \<^verbatim>\<open>EEVEE_effects_init\<close>, block after block\<close>

text \<open>The state (with the local \<^verbatim>\<open>enabled_effects\<close>, as long as it is used) after each block
  of \<^verbatim>\<open>EEVEE_effects_init\<close>, and the fields each block may write.\<close>

definition init_upto_bloom :: "int \<Rightarrow> config \<Rightarrow> eevee_state \<Rightarrow> 32 word \<times> eevee_state" where
  "init_upto_bloom m cfg s = init_bloom m cfg (init_motion_blur cfg (0, s))"

definition init_upto_dof :: "int \<Rightarrow> config \<Rightarrow> eevee_state \<Rightarrow> 32 word \<times> eevee_state" where
  "init_upto_dof m cfg s = init_dof cfg (init_upto_bloom m cfg s)"

definition init_upto_minmax :: "int \<Rightarrow> config \<Rightarrow> eevee_state \<Rightarrow> eevee_state" where
  "init_upto_minmax m cfg s = init_minmax cfg (init_ping_pong cfg (init_upto_dof m cfg s))"

definition init_upto_ssr :: "int \<Rightarrow> config \<Rightarrow> eevee_state \<Rightarrow> eevee_state" where
  "init_upto_ssr m cfg s = init_ssr cfg (init_volumetric cfg (init_upto_minmax m cfg s))"

definition bloom_texs :: "tex_slot set" where
  "bloom_texs = insert TXL_bloom_blit (range TXL_bloom_downsample \<union> range TXL_bloom_upsample)"

definition bloom_fbs :: "fb_slot set" where
  "bloom_fbs = insert FBL_bloom_blit_fb (range FBL_bloom_down_fb \<union> range FBL_bloom_accum_fb)"

definition dof_texs :: "tex_slot set" where
  "dof_texs = {TXL_bloom_downsample 0, TXL_dof_down_near, TXL_dof_down_far, TXL_dof_coc,
               TXL_dof_far_blur, TXL_dof_near_blur}"

definition dof_fbs :: "fb_slot set" where
  "dof_fbs = {FBL_dof_down_fb, FBL_dof_scatter_far_fb, FBL_dof_scatter_near_fb}"

definition ssr_texs :: "tex_slot set" where
  "ssr_texs = insert TXL_ssr_normal_input
                (insert TXL_ssr_specrough_input (range G_ssr_hit_output))"

text \<open>What the exchange of the double buffers is seen through: the number of exchanges
  recorded, the main and the double-buffer framebuffers, and the two colour textures.
  \<open>swap_view\<close> is the effect of \<^verbatim>\<open>SWAP_DOUBLE_BUFFERS\<close> on the flag and on this view.\<close>

definition exchange_view :: "eevee_state \<Rightarrow> nat \<times> fb_ptr \<times> fb_ptr \<times> tex_ptr \<times> tex_ptr" where
  "exchange_view s =
     (exchanges (cmds s), main (fbl s), double_buffer (fbl s),
      color (txl s), color_double_buffer (txl s))"

definition flag_view ::
  "bool \<times> eevee_state \<Rightarrow> bool \<times> nat \<times> fb_ptr \<times> fb_ptr \<times> tex_ptr \<times> tex_ptr"
where
  "flag_view p = (fst p, exchange_view (snd p))"

fun swap_view ::
  "bool \<times> nat \<times> fb_ptr \<times> fb_ptr \<times> tex_ptr \<times> tex_ptr
     \<Rightarrow> bool \<times> nat \<times> fb_ptr \<times> fb_ptr \<times> tex_ptr \<times> tex_ptr"
where
  "swap_view (b, n, m, d, c, cd) = (if b then (False, Suc n, d, m, cd, c) else (b, n, m, d, c, cd))"

text \<open>The same viewport after a frame with reflections: the double buffer and its colour
  texture exist and the flags of the reflections are set.\<close>

definition example_state_ssr :: eevee_state where
  "example_state_ssr =
     example_state
       \<lparr>txl := (txl example_state)\<lparr>color_double_buffer := Some (GPUTexture 5 1920 1080)\<rparr>,
        fbl := (fbl example_state)\<lparr>double_buffer := Some 4\<rparr>,
        effects := (effects example_state)
                     \<lparr>enabled_effects := EFFECT_SSR OR EFFECT_DOUBLE_BUFFER, ssr_ray_count := 1\<rparr>,
        next_id := 6\<rparr>"

text \<open>The same state with a screen tracing framebuffer, two rays and their two hit
  outputs.\<close>

definition example_state_hit :: eevee_state where
  "example_state_hit =
     example_state_ssr
       \<lparr>fbl := (fbl example_state_ssr)\<lparr>screen_tracing_fb := Some 6\<rparr>,
        g_data := (g_data example_state_ssr)
                    \<lparr>ssr_hit_output := (\<lambda>i. if i = 0 then Some (GPUTexture 7 1920 1080)
                                            else if i = 1 then Some (GPUTexture 8 1920 1080)
                                            else None)\<rparr>,
        effects := (effects example_state_ssr)\<lparr>ssr_ray_count := 2\<rparr>,
        next_id := 9\<rparr>"

text \<open>The calls of the recursive downsample driver in a record of commands, each with its
  texture, its level cap, its callback and the levels it rendered; and the mip chain of a
  call: the size of the base level of the texture, then the sizes of the rendered levels.\<close>

fun downsample_call ::
  "event \<Rightarrow> (tex_ptr \<times> int \<times> callback \<times> (nat \<times> int \<times> int) list) option"
where
  "downsample_call (Recursive_downsample fb tex n cb lv) = Some (tex, n, cb, lv)"
| "downsample_call _ = None"

definition downsample_calls ::
  "event list \<Rightarrow> (tex_ptr \<times> int \<times> callback \<times> (nat \<times> int \<times> int) list) list"
where
  "downsample_calls evs = List.map_filter downsample_call evs"


text \<open>The same viewport after a frame with depth of field and without bloom: the
  downsample framebuffer of the depth of field exists and the flag is set.\<close>

definition example_state_dof :: eevee_state where
  "example_state_dof =
     example_state
       \<lparr>fbl := (fbl example_state)\<lparr>dof_down_fb := Some 7\<rparr>,
        effects := (effects example_state)\<lparr>enabled_effects := EFFECT_DOF\<rparr>,
        next_id := 16\<rparr>"

text \<open>The state \<^verbatim>\<open>EEVEE_effects_init\<close> leaves for the first frame of the viewport when bloom
  alone is enabled (with 16 for \<^verbatim>\<open>MAX_BLOOM_STEP\<close>).\<close>

definition example_frame_bloom :: eevee_state where
  "example_frame_bloom =
     EEVEE_effects_init 16 (example_config\<lparr>prop_bloom_enable := True\<rparr>) example_state"

section \<open>Properties\<close>

subsection \<open>Casts and clamps\<close>

lemma CLAMP_mono: "b \<le> c \<Longrightarrow> a \<le> a' \<Longrightarrow> CLAMP a b c \<le> CLAMP a' b c"
  by (simp add: CLAMP_def)

lemma CLAMP_bounds: "b \<le> c \<Longrightarrow> b \<le> CLAMP a b c \<and> CLAMP a b c \<le> c"
  by (simp add: CLAMP_def)

lemma CLAMP_spec_clamp: "b \<le> c \<Longrightarrow> CLAMP a b c = spec_clamp a b c"
  by (simp add: CLAMP_def spec_clamp_def)

lemma int_of_float_in_range:
  "- 2147483649 < x \<Longrightarrow> x < 2147483648
     \<Longrightarrow> int_of_float x = (if 0 \<le> x then \<lfloor>x\<rfloor> else \<lceil>x\<rceil>)"
  by (simp add: int_of_float_def)

lemma int_of_float_mono:
  assumes "- 2147483649 < x" and "x \<le> y" and "y < 2147483648"
  shows "int_of_float x \<le> int_of_float y"
proof -
  from assms have x: "int_of_float x = (if 0 \<le> x then \<lfloor>x\<rfloor> else \<lceil>x\<rceil>)"
    by (intro int_of_float_in_range) linarith+
  from assms have y: "int_of_float y = (if 0 \<le> y then \<lfloor>y\<rfloor> else \<lceil>y\<rceil>)"
    by (intro int_of_float_in_range) linarith+
  consider "0 \<le> x" | "x < 0" "0 \<le> y" | "y < 0" by linarith
  then show ?thesis
  proof cases
    case 1
    with assms(2) show ?thesis unfolding x y by (simp add: floor_mono)
  next
    case 2
    then have "\<lceil>x\<rceil> \<le> 0" "0 \<le> \<lfloor>y\<rfloor>" by (simp_all add: ceiling_le_iff)
    then have "\<lceil>x\<rceil> \<le> \<lfloor>y\<rfloor>" by linarith
    with 2 show ?thesis by (simp add: x y)
  next
    case 3
    with assms(2) show ?thesis unfolding x y by (simp add: ceiling_mono)
  qed
qed

lemma int_of_float_out_of_range: "2147483648 \<le> x \<Longrightarrow> int_of_float x = INT_MIN"
  by (simp add: int_of_float_def)

lemma int_of_float_of_int:
  "- 2147483648 \<le> k \<Longrightarrow> k \<le> 2147483647 \<Longrightarrow> int_of_float (of_int k) = k"
  by (simp add: int_of_float_def)

lemma int_of_float_numeral [simp]:
  "numeral k < (2147483648::real) \<Longrightarrow> int_of_float (numeral k) = numeral k"
  by (simp add: int_of_float_def)

lemma int_of_float_0_1 [simp]: "int_of_float 0 = 0" "int_of_float 1 = 1"
  by (simp_all add: int_of_float_def)

lemma MIN2_min: "MIN2 a b = min a b"
  by (simp add: MIN2_def min_def)

subsection \<open>Rounding to single precision\<close>

lemma round_even_cases:
  "round_even x = \<lfloor>x\<rfloor> \<or> round_even x = \<lfloor>x\<rfloor> + 1"
  by (simp add: round_even_def Let_def)

lemma round_even_of_int [simp]: "round_even (of_int n) = n"
  by (simp add: round_even_def)

lemma round_even_error: "\<bar>of_int (round_even x) - x\<bar> \<le> 1 / 2"
  unfolding round_even_def Let_def by (auto simp: abs_le_iff)

lemma round_even_mono:
  assumes "x \<le> y"
  shows "round_even x \<le> round_even y"
proof (cases "\<lfloor>x\<rfloor> = \<lfloor>y\<rfloor>")
  case True
  from assms True have "x - of_int \<lfloor>x\<rfloor> \<le> y - of_int \<lfloor>y\<rfloor>" by simp
  with True show ?thesis
    unfolding round_even_def Let_def by auto
next
  case False
  with assms have "\<lfloor>x\<rfloor> < \<lfloor>y\<rfloor>" using floor_mono [OF assms] by linarith
  moreover have "round_even x \<le> \<lfloor>x\<rfloor> + 1" using round_even_cases [of x] by auto
  moreover have "\<lfloor>y\<rfloor> \<le> round_even y" using round_even_cases [of y] by auto
  ultimately show ?thesis by linarith
qed

lemma round_even_minus: "round_even (- x) = - round_even x"
proof (cases "x \<in> \<int>")
  case True
  then obtain n where "x = of_int n" by (auto elim: Ints_cases)
  then have "round_even (- x) = round_even (of_int (- n))" by simp
  also have "\<dots> = - n" by (rule round_even_of_int)
  finally show ?thesis using \<open>x = of_int n\<close> by simp
next
  case False
  then have ne: "x \<noteq> of_int \<lfloor>x\<rfloor>"
    by (metis Ints_of_int)
  then have fl: "\<lfloor>- x\<rfloor> = - \<lfloor>x\<rfloor> - 1"
    by (simp add: floor_minus ceiling_altdef)
  from ne have fr: "0 < x - of_int \<lfloor>x\<rfloor>" "x - of_int \<lfloor>x\<rfloor> < 1"
    by linarith+
  show ?thesis
    unfolding round_even_def Let_def fl using fr by (auto simp: field_simps)
qed

lemma floor_log2_bounds:
  assumes "x \<noteq> 0"
  shows "2 powr of_int \<lfloor>log 2 \<bar>x\<bar>\<rfloor> \<le> \<bar>x\<bar>"
    and "\<bar>x\<bar> < 2 powr (of_int \<lfloor>log 2 \<bar>x\<bar>\<rfloor> + 1)"
proof -
  from assms have pos: "0 < \<bar>x\<bar>" by simp
  then have eq: "2 powr log 2 \<bar>x\<bar> = \<bar>x\<bar>" by simp
  have "2 powr of_int \<lfloor>log 2 \<bar>x\<bar>\<rfloor> \<le> 2 powr log 2 \<bar>x\<bar>"
    by (rule powr_mono) simp_all
  with eq show "2 powr of_int \<lfloor>log 2 \<bar>x\<bar>\<rfloor> \<le> \<bar>x\<bar>" by simp
  have "2 powr log 2 \<bar>x\<bar> < 2 powr (of_int \<lfloor>log 2 \<bar>x\<bar>\<rfloor> + 1)"
    by (rule powr_less_mono) simp_all
  with eq show "\<bar>x\<bar> < 2 powr (of_int \<lfloor>log 2 \<bar>x\<bar>\<rfloor> + 1)" by simp
qed

lemma floor_log2_unique:
  assumes "2 powr of_int k \<le> \<bar>x\<bar>" and "\<bar>x\<bar> < 2 powr (of_int k + 1)"
  shows "\<lfloor>log 2 \<bar>x\<bar>\<rfloor> = k"
proof (rule floor_unique)
  have pos: "0 < \<bar>x\<bar>"
    using assms(1) by (rule less_le_trans [rotated]) simp
  from assms(1) pos show "of_int k \<le> log 2 \<bar>x\<bar>"
    by (simp add: le_log_iff)
  from assms(2) pos show "log 2 \<bar>x\<bar> < of_int k + 1"
    by (simp add: log_less_iff)
qed

lemma float32_ulp_pos [simp]: "0 < float32_ulp x"
  by (simp add: float32_ulp_def)

lemma float32_ulp_nonneg [simp]: "0 \<le> float32_ulp x"
  by (simp add: float32_ulp_def)

lemma float32_ulp_nonzero [simp]: "float32_ulp x \<noteq> 0"
  by (simp add: float32_ulp_def)

lemma float32_ulp_minus [simp]: "float32_ulp (- x) = float32_ulp x"
  by (simp add: float32_ulp_def float32_exponent_def)

lemma round_float32_minus: "round_float32 (- x) = - round_float32 x"
  by (simp add: round_float32_def round_even_minus)

lemma round_float32_zero [simp]: "round_float32 0 = 0"
  by (simp add: round_float32_def)

lemma round_float32_nonneg: "0 \<le> x \<Longrightarrow> 0 \<le> round_float32 x"
proof -
  assume "0 \<le> x"
  then have "0 \<le> x / float32_ulp x" by simp
  then have "round_even 0 \<le> round_even (x / float32_ulp x)" by (rule round_even_mono)
  then have "0 \<le> round_even (x / float32_ulp x)"
    using round_even_of_int [of 0] by simp
  then show ?thesis by (simp add: round_float32_def)
qed

lemma float32_ulp_eq:
  "float32_ulp x * 2 ^ 23 = 2 powr of_int (float32_exponent x)"
proof -
  have "(2::real) powr of_int (float32_exponent x)
          = 2 powr ((of_int (float32_exponent x) - 23) + 23)"
    by simp
  also have "\<dots> = 2 powr (of_int (float32_exponent x) - 23) * 2 powr 23"
    by (rule powr_add)
  finally show ?thesis by (simp add: float32_ulp_def)
qed

lemma float32_below_next_binade:
  assumes "x \<noteq> 0"
  shows "\<bar>x\<bar> < 2 * 2 powr of_int (float32_exponent x)"
proof -
  have "\<bar>x\<bar> < 2 powr (of_int \<lfloor>log 2 \<bar>x\<bar>\<rfloor> + 1)"
    using assms by (rule floor_log2_bounds)
  also have "\<dots> \<le> 2 powr (of_int (float32_exponent x) + 1)"
    by (rule powr_mono) (simp_all add: float32_exponent_def)
  also have "\<dots> = 2 * 2 powr of_int (float32_exponent x)"
    by (simp add: powr_add)
  finally show ?thesis .
qed

lemma round_float32_le_next_binade:
  assumes "0 < x"
  shows "round_float32 x \<le> 2 * 2 powr of_int (float32_exponent x)"
proof -
  let ?u = "float32_ulp x"
  from assms float32_below_next_binade [of x]
  have "x < 2 * 2 powr of_int (float32_exponent x)" by simp
  then have "x < 2 ^ 24 * ?u" using float32_ulp_eq [of x] by simp
  then have "x / ?u \<le> of_int (2 ^ 24)" by (simp add: field_simps)
  then have "round_even (x / ?u) \<le> round_even (of_int (2 ^ 24))" by (rule round_even_mono)
  then have "round_even (x / ?u) \<le> 2 ^ 24" by (simp only: round_even_of_int)
  then have "of_int (round_even (x / ?u)) \<le> (2 ^ 24 :: real)"
    by (metis of_int_le_iff of_int_numeral of_int_power)
  then have "of_int (round_even (x / ?u)) * ?u \<le> 2 ^ 24 * ?u"
    by (intro mult_right_mono) simp_all
  also have "2 ^ 24 * ?u = 2 * (?u * 2 ^ 23)" by simp
  also have "\<dots> = 2 * 2 powr of_int (float32_exponent x)"
    by (simp only: float32_ulp_eq)
  finally show ?thesis using assms by (simp add: round_float32_def)
qed

lemma round_float32_ge_binade:
  assumes "0 < x" and "2 powr of_int (float32_exponent x) \<le> x"
  shows "2 powr of_int (float32_exponent x) \<le> round_float32 x"
proof -
  let ?u = "float32_ulp x"
  from assms(2) have "2 ^ 23 * ?u \<le> x" using float32_ulp_eq [of x] by simp
  then have "of_int (2 ^ 23) \<le> x / ?u" by (simp add: field_simps)
  then have "round_even (of_int (2 ^ 23)) \<le> round_even (x / ?u)" by (rule round_even_mono)
  then have "2 ^ 23 \<le> round_even (x / ?u)" by (simp only: round_even_of_int)
  then have "(2 ^ 23 :: real) \<le> of_int (round_even (x / ?u))"
    by (metis of_int_le_iff of_int_numeral of_int_power)
  then have a: "2 ^ 23 * ?u \<le> of_int (round_even (x / ?u)) * ?u"
    by (intro mult_right_mono) simp_all
  have b: "2 ^ 23 * ?u = 2 powr of_int (float32_exponent x)"
    using float32_ulp_eq [of x] by (simp add: mult.commute)
  from a have "2 powr of_int (float32_exponent x) \<le> of_int (round_even (x / ?u)) * ?u"
    unfolding b .
  then show ?thesis using assms(1) by (simp add: round_float32_def)
qed

lemma round_float32_mono_pos:
  assumes "0 < x" and "x \<le> y"
  shows "round_float32 x \<le> round_float32 y"
proof -
  from assms have y: "0 < y" by simp
  from assms have "log 2 \<bar>x\<bar> \<le> log 2 \<bar>y\<bar>" by simp
  then have le: "float32_exponent x \<le> float32_exponent y"
    unfolding float32_exponent_def by (intro max.mono floor_mono) simp_all
  show ?thesis
  proof (cases "float32_exponent x = float32_exponent y")
    case True
    then have u: "float32_ulp y = float32_ulp x" by (simp add: float32_ulp_def)
    from assms(2) have "x / float32_ulp x \<le> y / float32_ulp x"
      by (simp add: divide_right_mono)
    then have "round_even (x / float32_ulp x) \<le> round_even (y / float32_ulp x)"
      by (rule round_even_mono)
    then have "of_int (round_even (x / float32_ulp x)) * float32_ulp x
                 \<le> of_int (round_even (y / float32_ulp x)) * float32_ulp x"
      by (simp add: mult_right_mono)
    with assms(1) y u show ?thesis by (simp add: round_float32_def)
  next
    case False
    with le have lt: "float32_exponent x < float32_exponent y" by simp
    then have normal: "float32_exponent y = \<lfloor>log 2 \<bar>y\<bar>\<rfloor>"
      unfolding float32_exponent_def by (simp add: max_def split: if_splits)
    from y floor_log2_bounds(1) [of y] normal
    have "2 powr of_int (float32_exponent y) \<le> y" by simp
    with y have ge: "2 powr of_int (float32_exponent y) \<le> round_float32 y"
      by (rule round_float32_ge_binade)
    from lt have "float32_exponent x + 1 \<le> float32_exponent y" by simp
    then have "real_of_int (float32_exponent x) + 1 \<le> real_of_int (float32_exponent y)"
      by linarith
    then have "(2::real) powr (of_int (float32_exponent x) + 1)
                 \<le> 2 powr of_int (float32_exponent y)"
      by (rule powr_mono) simp
    then have "2 * (2::real) powr of_int (float32_exponent x)
                 \<le> 2 powr of_int (float32_exponent y)"
      by (simp add: powr_add)
    with round_float32_le_next_binade [OF assms(1)] ge show ?thesis by linarith
  qed
qed

lemma round_float32_mono:
  assumes "x \<le> y"
  shows "round_float32 x \<le> round_float32 y"
proof -
  consider "0 < x" | "x \<le> 0" "0 \<le> y" | "y < 0" by linarith
  then show ?thesis
  proof cases
    case 1
    from 1 assms show ?thesis by (rule round_float32_mono_pos)
  next
    case 2
    from 2(1) have "0 \<le> round_float32 (- x)" by (intro round_float32_nonneg) simp
    then have "round_float32 x \<le> 0" by (simp add: round_float32_minus)
    with round_float32_nonneg [OF 2(2)] show ?thesis by linarith
  next
    case 3
    with assms have "0 < - y" "- y \<le> - x" by simp_all
    then have "round_float32 (- y) \<le> round_float32 (- x)" by (rule round_float32_mono_pos)
    then show ?thesis by (simp add: round_float32_minus)
  qed
qed

lemma round_float32_error: "\<bar>round_float32 x - x\<bar> \<le> float32_ulp x / 2"
proof (cases "x = 0")
  case True
  then show ?thesis by simp
next
  case False
  let ?u = "float32_ulp x"
  have "\<bar>of_int (round_even (x / ?u)) - x / ?u\<bar> \<le> 1 / 2" by (rule round_even_error)
  then have "\<bar>of_int (round_even (x / ?u)) - x / ?u\<bar> * ?u \<le> 1 / 2 * ?u"
    by (simp add: mult_right_mono)
  moreover have "\<bar>of_int (round_even (x / ?u)) - x / ?u\<bar> * ?u
                 = \<bar>of_int (round_even (x / ?u)) * ?u - x\<bar>"
  proof -
    have "\<bar>of_int (round_even (x / ?u)) - x / ?u\<bar> * ?u
            = \<bar>(of_int (round_even (x / ?u)) - x / ?u) * ?u\<bar>"
      by (simp add: abs_mult)
    also have "(of_int (round_even (x / ?u)) - x / ?u) * ?u
                 = of_int (round_even (x / ?u)) * ?u - x"
      by (simp add: left_diff_distrib)
    finally show ?thesis .
  qed
  ultimately show ?thesis using False by (simp add: round_float32_def)
qed

lemma round_float32_error_bound:
  assumes "\<bar>x\<bar> < 2 powr of_int k" and "- 125 \<le> k"
  shows "\<bar>round_float32 x - x\<bar> \<le> 2 powr (of_int k - 25)"
proof (cases "x = 0")
  case True
  then show ?thesis by simp
next
  case False
  then have pos: "0 < \<bar>x\<bar>" by simp
  from assms(1) pos have "log 2 \<bar>x\<bar> < of_int k" by (simp add: log_less_iff)
  then have "\<lfloor>log 2 \<bar>x\<bar>\<rfloor> < k" by (simp add: floor_less_iff)
  with assms(2) have "float32_exponent x \<le> k - 1" by (simp add: float32_exponent_def)
  then have "float32_ulp x \<le> 2 powr (of_int (k - 1) - 23)"
    unfolding float32_ulp_def by (intro powr_mono) simp_all
  then have "float32_ulp x / 2 \<le> 2 powr (of_int k - 24) / 2" by simp
  also have "\<dots> = 2 powr (of_int k - 24 - 1)" by (simp add: powr_diff)
  finally have "float32_ulp x / 2 \<le> 2 powr (of_int k - 25)" by simp
  with round_float32_error [of x] show ?thesis by linarith
qed

lemma round_float32_fixed:
  assumes "x / float32_ulp x = of_int m"
  shows "round_float32 x = x"
proof (cases "x = 0")
  case True
  then show ?thesis by simp
next
  case False
  from assms have "x = of_int m * float32_ulp x" by (simp add: divide_eq_eq)
  with False assms show ?thesis by (simp add: round_float32_def)
qed

lemma round_float32_eq:
  assumes "2 powr of_int e \<le> \<bar>x\<bar>" and "\<bar>x\<bar> < 2 powr (of_int e + 1)" and "- 126 \<le> e"
  shows "round_float32 x
           = of_int (round_even (x / 2 powr (of_int e - 23))) * 2 powr (of_int e - 23)"
proof -
  from assms(1,2) have "\<lfloor>log 2 \<bar>x\<bar>\<rfloor> = e" by (rule floor_log2_unique)
  with assms(3) have "float32_exponent x = e" by (simp add: float32_exponent_def)
  then have u: "float32_ulp x = 2 powr (of_int e - 23)" by (simp add: float32_ulp_def)
  have "(0::real) < 2 powr of_int e" by simp
  with assms(1) have "x \<noteq> 0" by auto
  then show ?thesis by (simp add: round_float32_def u)
qed

lemma round_float32_int_pow:
  assumes "\<bar>m\<bar> < 2 ^ 24"
  shows "round_float32 (of_int m * 2 ^ k) = of_int m * 2 ^ k"
proof (cases "m = 0")
  case True
  then show ?thesis by simp
next
  case False
  let ?x = "real_of_int m * 2 ^ k"
  from False have nz: "?x \<noteq> 0" by simp
  have ax: "\<bar>?x\<bar> = real_of_int \<bar>m\<bar> * 2 ^ k" by (simp add: abs_mult)
  from False have "1 \<le> \<bar>m\<bar>" by simp
  then have "1 \<le> real_of_int \<bar>m\<bar>" by linarith
  then have ge1: "1 \<le> \<bar>?x\<bar>"
    unfolding ax by (metis mult_mono one_le_numeral one_le_power mult_1 zero_le_one
        of_int_0_le_iff abs_ge_zero)
  from assms have "real_of_int \<bar>m\<bar> < 2 ^ 24"
    by (metis of_int_less_iff of_int_numeral of_int_power)
  then have "\<bar>?x\<bar> < 2 ^ 24 * 2 ^ k" unfolding ax by simp
  moreover have "(2::real) powr real (24 + k) = 2 ^ (24 + k)"
    by (rule powr_realpow) simp
  ultimately have lt: "\<bar>?x\<bar> < 2 powr (real (24 + k))"
    by (simp only: power_add)
  let ?e = "\<lfloor>log 2 \<bar>?x\<bar>\<rfloor>"
  from ge1 have "0 \<le> log 2 \<bar>?x\<bar>"
    by (subst zero_le_log_cancel_iff) linarith+
  then have e0: "0 \<le> ?e" by simp
  then have ex: "float32_exponent ?x = ?e" by (simp add: float32_exponent_def)
  from lt nz have "log 2 \<bar>?x\<bar> < real (24 + k)" by (simp add: log_less_iff)
  then have "?e < int (24 + k)" by (simp add: floor_less_iff)
  then have ek: "?e \<le> 23 + int k" by simp
  define j where "j = nat (23 + int k - ?e)"
  from ek have j: "int j = 23 + int k - ?e" by (simp add: j_def)
  define i where "i = nat ?e"
  from e0 have i: "int i = ?e" by (simp add: i_def)
  have u: "float32_ulp ?x * 2 ^ j = 2 ^ k"
  proof -
    have "float32_ulp ?x = 2 powr (real_of_int ?e - 23)"
      by (simp add: float32_ulp_def ex)
    also have "real_of_int ?e - 23 = real k - real j"
      using j by (simp add: algebra_simps)
    finally have "float32_ulp ?x = 2 powr (real k - real j)" .
    then have "float32_ulp ?x = 2 powr real k / 2 powr real j" by (simp add: powr_diff)
    then show ?thesis by (simp add: powr_realpow)
  qed
  have "?x / float32_ulp ?x = of_int (m * 2 ^ j)"
  proof -
    have "?x = real_of_int m * (float32_ulp ?x * 2 ^ j)" by (simp only: u)
    then have "?x = of_int (m * 2 ^ j) * float32_ulp ?x" by (simp add: mult.commute)
    then show ?thesis by (simp add: divide_eq_eq)
  qed
  then show ?thesis by (rule round_float32_fixed)
qed

lemma round_float32_of_int:
  "\<bar>n\<bar> < 2 ^ 24 \<Longrightarrow> round_float32 (of_int n) = of_int n"
  using round_float32_int_pow [of n 0] by simp

subsection \<open>The bloom iteration count\<close>

lemma FLT_MAX_ge: "2 ^ 32 \<le> FLT_MAX"
  by (simp add: FLT_MAX_def)

lemma float32_of_real_finite:
  "\<bar>round_float32 x\<bar> \<le> 2 ^ 32 \<Longrightarrow> float32_of_real x = Some (round_float32 x)"
  using FLT_MAX_ge by (simp add: float32_of_real_def)

lemma log2_ge_ratio:
  assumes "0 < a" and "(2::real) ^ p \<le> a ^ q" and "0 < q"
  shows "real p / real q \<le> log 2 a"
proof -
  have "real p = log 2 (2 ^ p)" by (simp add: log_nat_power)
  also have "\<dots> \<le> log 2 (a ^ q)"
    using assms(1,2) by (subst log_le_cancel_iff) simp_all
  also have "\<dots> = real q * log 2 a" using assms(1) by (simp add: log_nat_power)
  finally show ?thesis using assms(3) by (simp add: field_simps)
qed

lemma log2_le_ratio:
  assumes "0 < a" and "a ^ q \<le> (2::real) ^ p" and "0 < q"
  shows "log 2 a \<le> real p / real q"
proof -
  have "real q * log 2 a = log 2 (a ^ q)" using assms(1) by (simp add: log_nat_power)
  also have "\<dots> \<le> log 2 (2 ^ p)"
    using assms(1,2) by (subst log_le_cancel_iff) simp_all
  also have "\<dots> = real p" by (simp add: log_nat_power)
  finally show ?thesis using assms(3) by (simp add: field_simps)
qed

lemma log2_1080_bounds: "161 / 16 \<le> log 2 1080 \<and> log 2 1080 \<le> 21 / 2"
proof -
  have "real 161 / real 16 \<le> log 2 1080"
    by (rule log2_ge_ratio) simp_all
  moreover have "log 2 1080 \<le> real 21 / real 2"
    by (rule log2_le_ratio) simp_all
  ultimately show ?thesis by simp
qed

lemma bloom_minDim_exact:
  assumes "\<bar>MIN2 (fst blitsize) (snd blitsize)\<bar> < 2 ^ 24"
  shows "bloom_minDim blitsize = real_of_int (MIN2 (fst blitsize) (snd blitsize))"
  unfolding bloom_minDim_def using assms by (rule round_float32_of_int)

lemma bloom_iteration_count_floor:
  fixes radius :: real and blitsize :: "int \<times> int"
  defines "d \<equiv> MIN2 (fst blitsize) (snd blitsize)"
  defines "x \<equiv> radius - 8 + log 2 (real_of_int d)"
  assumes m: "1 \<le> m" and r: "0 \<le> radius" "radius \<le> 16" and d: "1 \<le> d" "d < 65536"
    and lo: "1 / 2 ^ 19 \<le> x - of_int \<lfloor>x\<rfloor>" and hi: "x - of_int \<lfloor>x\<rfloor> \<le> 1 - 1 / 2 ^ 19"
  shows "bloom_iteration_count m radius blitsize = spec_clamp \<lfloor>x\<rfloor> 1 m"
proof -
  define n where "n = \<lfloor>x\<rfloor>"
  let ?L = "log 2 (real_of_int d)"
  let ?a = "round_float32 (radius - 8)"
  let ?z = "?a + ?L"
  let ?y = "round_float32 ?z"
  from d have "\<bar>d\<bar> < 2 ^ 24" by simp
  then have minDim: "bloom_minDim blitsize = real_of_int d"
    unfolding d_def by (rule bloom_minDim_exact)
  from d have dpos: "0 < real_of_int d" by simp
  have L0: "0 \<le> ?L" using d by simp
  have "log 2 ((2::real) ^ 16) = real 16 * log 2 2" by (rule log_nat_power) simp
  then have l16: "log 2 (65536::real) = 16" by simp
  have "real_of_int d < 65536" using d by simp
  then have "?L < log 2 65536" using dpos by simp
  then have L16: "?L < 16" by (simp only: l16)
  have "\<bar>radius - 8\<bar> < 2 powr of_int 4" using r by simp
  then have "\<bar>?a - (radius - 8)\<bar> \<le> 2 powr (of_int 4 - 25)"
    by (rule round_float32_error_bound) simp
  moreover have "(2::real) powr (of_int 4 - 25) = 1 / 2097152"
    by (simp add: powr_minus_divide powr_numeral)
  ultimately have ea: "\<bar>?a - (radius - 8)\<bar> \<le> 1 / 2097152" by (simp only:)
  have zx: "?z - x = ?a - (radius - 8)" by (simp add: x_def)
  from ea have ez: "\<bar>?z - x\<bar> \<le> 1 / 2097152" by (simp only: zx)
  have x24: "\<bar>x\<bar> \<le> 24" using r L0 L16 unfolding x_def by argo
  from ez x24 have "\<bar>?z\<bar> < 32" by argo
  then have "\<bar>?z\<bar> < 2 powr of_int 5" by simp
  then have "\<bar>?y - ?z\<bar> \<le> 2 powr (of_int 5 - 25)"
    by (rule round_float32_error_bound) simp
  moreover have "(2::real) powr (of_int 5 - 25) = 1 / 1048576"
    by (simp add: powr_minus_divide powr_numeral)
  ultimately have ey: "\<bar>?y - ?z\<bar> \<le> 1 / 1048576" by (simp only:)
  from ez ey have exy: "\<bar>?y - x\<bar> < 1 / 524288" by argo
  from lo have lo': "1 / 524288 \<le> x - of_int n" by (simp add: n_def)
  from hi have hi': "x - of_int n \<le> 1 - 1 / 524288" by (simp add: n_def)
  from exy lo' have above: "of_int n < ?y" by argo
  from exy hi' have below: "?y < of_int n + 1" by argo
  from exy x24 have small: "\<bar>?y\<bar> \<le> 25" by argo
  then have "\<bar>?y\<bar> \<le> 2 ^ 32" by simp
  then have "float32_of_real ?z = Some ?y"
    by (rule float32_of_real_finite)
  with minDim dpos have maxIter: "bloom_maxIter radius blitsize = Some ?y"
    by (simp add: bloom_maxIter_def log_def)
  from small have cast: "int_of_float ?y = (if 0 \<le> ?y then \<lfloor>?y\<rfloor> else \<lceil>?y\<rceil>)"
    by (intro int_of_float_in_range) argo+
  have "CLAMP (int_of_float ?y) 1 m = spec_clamp n 1 m"
  proof (cases "0 \<le> ?y")
    case True
    from above below have "\<lfloor>?y\<rfloor> = n" by (intro floor_unique) simp_all
    with True cast m show ?thesis by (simp add: CLAMP_spec_clamp)
  next
    case False
    with above have "of_int n < (0::real)" by linarith
    then have neg: "n < 0" by simp
    from above below have "\<lceil>?y\<rceil> = n + 1" by (intro ceiling_unique) simp_all
    with False cast neg m show ?thesis by (simp add: CLAMP_def spec_clamp_def)
  qed
  with maxIter show ?thesis by (simp add: bloom_iteration_count_def n_def)
qed

lemma bloom_iteration_count_1080p: "8 \<le> m \<Longrightarrow> bloom_iteration_count m 6 (1920, 1080) = 8"
proof -
  assume m: "8 \<le> m"
  let ?x = "(6::real) - 8
              + log 2 (real_of_int (MIN2 (fst (1920::int, 1080::int)) (snd (1920::int, 1080::int))))"
  have x: "?x = log 2 1080 - 2" by (simp add: MIN2_def)
  from log2_1080_bounds have fl: "\<lfloor>?x\<rfloor> = 8"
    unfolding x by (intro floor_unique) simp_all
  have "bloom_iteration_count m 6 (1920, 1080) = spec_clamp \<lfloor>?x\<rfloor> 1 m"
  proof (rule bloom_iteration_count_floor)
    show "1 \<le> m" using m by simp
    show "1 / 2 ^ 19 \<le> ?x - of_int \<lfloor>?x\<rfloor>"
      unfolding fl unfolding x using log2_1080_bounds by simp
    show "?x - of_int \<lfloor>?x\<rfloor> \<le> 1 - 1 / 2 ^ 19"
      unfolding fl unfolding x using log2_1080_bounds by simp
  qed (simp_all add: MIN2_def)
  with fl m show ?thesis by (simp add: spec_clamp_def)
qed

lemma log2_1024: "log 2 (1024::real) = 10"
proof -
  have "log 2 ((2::real) ^ 10) = real 10 * log 2 2" by (rule log_nat_power) simp
  then show ?thesis by simp
qed

lemma round_down_radius: "round_float32 (8388607 / 8388608 - 8) = - 7"
proof -
  let ?a = "(8388607 / 8388608 - 8) :: real"
  have p: "(2::real) powr (of_int 2 - 23) = 1 / 2097152"
    by (simp add: powr_minus_divide powr_numeral)
  have "round_float32 ?a
          = of_int (round_even (?a / 2 powr (of_int 2 - 23))) * 2 powr (of_int 2 - 23)"
    by (rule round_float32_eq) (simp_all add: powr_add)
  also have "?a / 2 powr (of_int 2 - 23) = - (58720257 / 4)"
    unfolding p by simp
  also have "round_even (- (58720257 / 4)) = - 14680064"
    by (simp add: round_even_def Let_def)
  finally show ?thesis unfolding p by simp
qed

lemma bloom_iteration_count_rounded_up:
  "bloom_iteration_count 16 (8388607 / 8388608) (1024, 1024) = 3"
proof -
  have minDim: "bloom_minDim (1024, 1024) = 1024"
    using bloom_minDim_exact [of "(1024, 1024)"] by (simp add: MIN2_def)
  have "ln (1024::real) / ln 2 = 10" using log2_1024 by (simp add: log_def)
  then have z: "round_float32 (8388607 / 8388608 - 8) + ln (1024::real) / ln 2 = 3"
    unfolding round_down_radius by simp
  have three: "round_float32 3 = 3" using round_float32_of_int [of 3] by simp
  have "float32_of_real 3 = Some 3"
    using float32_of_real_finite [of 3] by (simp add: three)
  then have "bloom_maxIter (8388607 / 8388608) (1024, 1024) = Some 3"
    unfolding bloom_maxIter_def minDim z by simp
  then show ?thesis
    by (simp add: bloom_iteration_count_def int_of_float_def CLAMP_def)
qed

lemma floor_formula_rounded_up:
  "\<lfloor>(8388607 / 8388608 :: real) - 8 + log 2 (real_of_int (min 1024 1024))\<rfloor> = 2"
  by (simp add: log2_1024)

lemma round_float32_pow2: "round_float32 (2 ^ k) = 2 ^ k"
  using round_float32_int_pow [of 1 k] by simp

lemma round_float32_neg_pow2: "round_float32 (- (2 ^ k)) = - (2 ^ k)"
  using round_float32_int_pow [of "- 1" k] by simp

lemma bloom_minDim_bounds:
  assumes "0 < MIN2 (fst blitsize) (snd blitsize)" and "MIN2 (fst blitsize) (snd blitsize) < 2 ^ 31"
  shows "1 \<le> bloom_minDim blitsize" and "bloom_minDim blitsize \<le> 2 ^ 31"
proof -
  let ?d = "MIN2 (fst blitsize) (snd blitsize)"
  from assms(1) have "(1::real) \<le> real_of_int ?d" by simp
  then have "round_float32 1 \<le> round_float32 (real_of_int ?d)" by (rule round_float32_mono)
  then show "1 \<le> bloom_minDim blitsize"
    using round_float32_of_int [of 1] by (simp add: bloom_minDim_def)
  from assms(2) have "real_of_int ?d \<le> 2 ^ 31"
    by (metis less_imp_le of_int_le_iff of_int_numeral of_int_power)
  then have "round_float32 (real_of_int ?d) \<le> round_float32 (2 ^ 31)" by (rule round_float32_mono)
  then show "bloom_minDim blitsize \<le> 2 ^ 31"
    by (simp only: round_float32_pow2 bloom_minDim_def)
qed

lemma bloom_maxIter_in_range:
  assumes r: "- (2 ^ 30) \<le> radius" "radius \<le> 2 ^ 30"
    and d: "0 < MIN2 (fst blitsize) (snd blitsize)" "MIN2 (fst blitsize) (snd blitsize) < 2 ^ 31"
  shows "bloom_maxIter radius blitsize
           = Some (round_float32 (round_float32 (radius - 8) + log 2 (bloom_minDim blitsize)))"
    and "- (2 ^ 31) \<le> round_float32 (round_float32 (radius - 8) + log 2 (bloom_minDim blitsize))"
    and "round_float32 (round_float32 (radius - 8) + log 2 (bloom_minDim blitsize)) \<le> 2 ^ 31 - 128"
proof -
  let ?D = "bloom_minDim blitsize"
  let ?a = "round_float32 (radius - 8)"
  let ?z = "?a + log 2 ?D"
  note D = bloom_minDim_bounds [OF d]
  from D(1) have L0: "0 \<le> log 2 ?D" by simp
  have "log 2 ((2::real) ^ 31) = real 31 * log 2 2" by (rule log_nat_power) simp
  then have l31: "log 2 ((2::real) ^ 31) = 31" by simp
  from D have "log 2 ?D \<le> log 2 (2 ^ 31)" by (subst log_le_cancel_iff) simp_all
  then have L31: "log 2 ?D \<le> 31" by (simp only: l31)
  from r(1) have "- (2 ^ 31) \<le> radius - 8" by simp
  then have "round_float32 (- (2 ^ 31)) \<le> ?a" by (rule round_float32_mono)
  then have a_lo: "- (2 ^ 31) \<le> ?a" by (simp only: round_float32_neg_pow2)
  from r(2) have "radius - 8 \<le> 2 ^ 30" by simp
  then have "?a \<le> round_float32 (2 ^ 30)" by (rule round_float32_mono)
  then have a_hi: "?a \<le> 2 ^ 30" by (simp only: round_float32_pow2)
  from a_lo L0 have "- (2 ^ 31) \<le> ?z" by simp
  then have "round_float32 (- (2 ^ 31)) \<le> round_float32 ?z" by (rule round_float32_mono)
  then show lo: "- (2 ^ 31) \<le> round_float32 ?z" by (simp only: round_float32_neg_pow2)
  have fx: "round_float32 (real_of_int 16777215 * 2 ^ 7) = real_of_int 16777215 * 2 ^ 7"
    by (rule round_float32_int_pow) simp
  from a_hi L31 have "?z \<le> real_of_int 16777215 * 2 ^ 7" by simp
  then have "round_float32 ?z \<le> round_float32 (real_of_int 16777215 * 2 ^ 7)"
    by (rule round_float32_mono)
  then have "round_float32 ?z \<le> real_of_int 16777215 * 2 ^ 7" unfolding fx .
  then show hi: "round_float32 ?z \<le> 2 ^ 31 - 128" by simp
  from lo hi have "\<bar>round_float32 ?z\<bar> \<le> 2 ^ 32" by simp
  then have "float32_of_real ?z = Some (round_float32 ?z)" by (rule float32_of_real_finite)
  with D(1) show "bloom_maxIter radius blitsize = Some (round_float32 ?z)"
    by (simp add: bloom_maxIter_def log_def)
qed

lemma bloom_iteration_count_mono:
  assumes m: "1 \<le> m"
    and r: "- (2 ^ 30) \<le> radius" "radius \<le> radius'" "radius' \<le> 2 ^ 30"
    and d: "0 < MIN2 (fst blitsize) (snd blitsize)"
      "MIN2 (fst blitsize) (snd blitsize) \<le> MIN2 (fst blitsize') (snd blitsize')"
      "MIN2 (fst blitsize') (snd blitsize') < 2 ^ 31"
  shows "bloom_iteration_count m radius blitsize \<le> bloom_iteration_count m radius' blitsize'"
proof -
  let ?y = "round_float32 (round_float32 (radius - 8) + log 2 (bloom_minDim blitsize))"
  let ?y' = "round_float32 (round_float32 (radius' - 8) + log 2 (bloom_minDim blitsize'))"
  from r d have range: "radius \<le> 2 ^ 30" "- (2 ^ 30) \<le> radius'"
    "MIN2 (fst blitsize) (snd blitsize) < 2 ^ 31" "0 < MIN2 (fst blitsize') (snd blitsize')"
    by simp_all
  note y = bloom_maxIter_in_range [OF r(1) range(1) d(1) range(3)]
  note y' = bloom_maxIter_in_range [OF range(2) r(3) range(4) d(3)]
  from r(2) have "round_float32 (radius - 8) \<le> round_float32 (radius' - 8)"
    by (intro round_float32_mono) simp
  moreover have "log 2 (bloom_minDim blitsize) \<le> log 2 (bloom_minDim blitsize')"
  proof -
    from d(2) have "bloom_minDim blitsize \<le> bloom_minDim blitsize'"
      unfolding bloom_minDim_def by (intro round_float32_mono) simp
    moreover from bloom_minDim_bounds(1) [OF d(1) range(3)] have "0 < bloom_minDim blitsize"
      by simp
    ultimately show ?thesis by simp
  qed
  ultimately have "round_float32 (radius - 8) + log 2 (bloom_minDim blitsize)
                     \<le> round_float32 (radius' - 8) + log 2 (bloom_minDim blitsize')"
    by (rule add_mono)
  then have le: "?y \<le> ?y'" by (rule round_float32_mono)
  from y(2) have "- 2147483649 < ?y" by simp
  moreover note le
  moreover from y'(3) have "?y' < 2147483648" by simp
  ultimately have "int_of_float ?y \<le> int_of_float ?y'" by (rule int_of_float_mono)
  with m show ?thesis
    unfolding bloom_iteration_count_def y(1) y'(1) by (simp add: CLAMP_mono)
qed

lemma bloom_iteration_count_bounds:
  "1 \<le> m \<Longrightarrow> 1 \<le> bloom_iteration_count m radius blitsize
                 \<and> bloom_iteration_count m radius blitsize \<le> m"
  unfolding bloom_iteration_count_def by (rule CLAMP_bounds)

lemma bloom_iteration_count_radius_100: "bloom_iteration_count 16 100 (1920, 1080) = 16"
proof -
  let ?y = "round_float32 (round_float32 (100 - 8) + log 2 (bloom_minDim (1920, 1080)))"
  have y: "bloom_maxIter 100 (1920, 1080) = Some ?y" "?y \<le> 2 ^ 31 - 128"
    by (rule bloom_maxIter_in_range; simp add: MIN2_def)+
  have minDim: "bloom_minDim (1920, 1080) = 1080"
    using bloom_minDim_exact [of "(1920, 1080)"] by (simp add: MIN2_def)
  have a: "round_float32 92 = 92" using round_float32_of_int [of 92] by simp
  from log2_1080_bounds have "(102::real) \<le> 92 + log 2 1080" by simp
  then have "round_float32 102 \<le> round_float32 (92 + log 2 1080)" by (rule round_float32_mono)
  moreover have "round_float32 102 = 102" using round_float32_of_int [of 102] by simp
  ultimately have ge: "102 \<le> ?y" by (simp add: minDim a)
  with y(2) have "int_of_float ?y = \<lfloor>?y\<rfloor>" by (simp add: int_of_float_def)
  moreover from ge have "102 \<le> \<lfloor>?y\<rfloor>" by (simp add: le_floor_iff)
  ultimately show ?thesis
    by (simp add: bloom_iteration_count_def y(1) CLAMP_def)
qed

lemma bloom_iteration_count_radius_3e9:
  "bloom_iteration_count 16 3000000000 (1920, 1080) = 1"
proof -
  let ?z = "round_float32 (3000000000 - 8) + ln (bloom_minDim (1920, 1080)) / ln 2"
  have minDim: "bloom_minDim (1920, 1080) = 1080"
    using bloom_minDim_exact [of "(1920, 1080)"] by (simp add: MIN2_def)
  have "(2::real) ^ 31 \<le> 3000000000 - 8" by simp
  then have "round_float32 (2 ^ 31) \<le> round_float32 (3000000000 - 8)" by (rule round_float32_mono)
  then have a: "2 ^ 31 \<le> round_float32 (3000000000 - 8)" by (simp only: round_float32_pow2)
  have "0 \<le> log 2 (1080::real)" by simp
  then have L: "0 \<le> ln (1080::real) / ln 2" by (simp only: log_def)
  from a L have "2 ^ 31 \<le> ?z" unfolding minDim by linarith
  then have "round_float32 (2 ^ 31) \<le> round_float32 ?z" by (rule round_float32_mono)
  then have "2 ^ 31 \<le> round_float32 ?z" by (simp only: round_float32_pow2)
  then have "(case float32_of_real ?z of None \<Rightarrow> INT_MIN | Some x \<Rightarrow> int_of_float x) = INT_MIN"
    by (simp add: float32_of_real_def Let_def int_of_float_out_of_range)
  then show ?thesis
    by (simp add: bloom_iteration_count_def bloom_maxIter_def minDim INT_MIN_def CLAMP_def)
qed

lemma round_float32_milli: "round_float32 (1 / 1000) = 8589935 / 8589934592"
proof -
  have p: "(2::real) powr (of_int (- 10) - 23) = 1 / 8589934592"
    by (simp add: powr_minus_divide powr_numeral)
  have lo: "(2::real) powr of_int (- 10) = 1 / 1024"
    by (simp add: powr_minus_divide powr_numeral)
  have hi: "(2::real) powr (of_int (- 10) + 1) = 1 / 512"
    by (simp add: powr_minus_divide powr_numeral)
  have "round_float32 (1 / 1000)
          = of_int (round_even ((1 / 1000) / 2 powr (of_int (- 10) - 23)))
            * 2 powr (of_int (- 10) - 23)"
  proof (rule round_float32_eq)
    show "(2::real) powr of_int (- 10) \<le> \<bar>1 / 1000\<bar>" unfolding lo by simp
    show "\<bar>1 / 1000 :: real\<bar> < 2 powr (of_int (- 10) + 1)" unfolding hi by simp
    show "- 126 \<le> (- 10 :: int)" by simp
  qed
  also have "(1 / 1000) / (2::real) powr (of_int (- 10) - 23) = 1073741824 / 125"
    unfolding p by simp
  also have "round_even (1073741824 / 125) = 8589935"
    by (simp add: round_even_def Let_def)
  finally show ?thesis unfolding p by simp
qed

subsection \<open>The record of commands and the fields\<close>

lemma emit_simps [simp]:
  "cmds (emit e s) = cmds s @ [e]"
  "txl (emit e s) = txl s"
  "fbl (emit e s) = fbl s"
  "g_data (emit e s) = g_data s"
  "effects (emit e s) = effects s"
  "use_colored_transmit (emit e s) = use_colored_transmit s"
  "e_depth_src (emit e s) = e_depth_src s"
  "e_color_src (emit e s) = e_color_src s"
  "e_depth_src_layer (emit e s) = e_depth_src_layer s"
  "dtxl_depth (emit e s) = dtxl_depth s"
  "dfbl_default_fb (emit e s) = dfbl_default_fb s"
  "next_id (emit e s) = next_id s"
  by (simp_all add: emit_def)

lemma tex_get_emit [simp]: "tex_get ts (emit e s) = tex_get ts s"
  by (cases ts) simp_all

lemma fb_get_emit [simp]: "fb_get fb (emit e s) = fb_get fb s"
  by (cases fb) simp_all

lemma tex_set_simps [simp]:
  "cmds (tex_set ts v s) = cmds s"
  "fbl (tex_set ts v s) = fbl s"
  "effects (tex_set ts v s) = effects s"
  "use_colored_transmit (tex_set ts v s) = use_colored_transmit s"
  "dtxl_depth (tex_set ts v s) = dtxl_depth s"
  "dfbl_default_fb (tex_set ts v s) = dfbl_default_fb s"
  "next_id (tex_set ts v s) = next_id s"
  "valid_double_buffer (g_data (tex_set ts v s)) = valid_double_buffer (g_data s)"
  by (cases ts; simp)+

lemma tex_get_tex_set [simp]:
  "tex_get ts' (tex_set ts v s) = (if ts' = ts then v else tex_get ts' s)"
  by (cases ts; cases ts'; simp)

lemma fb_get_tex_set [simp]: "fb_get fb (tex_set ts v s) = fb_get fb s"
  by (cases fb) simp_all

lemma fb_set_simps [simp]:
  "cmds (fb_set fb v s) = cmds s"
  "txl (fb_set fb v s) = txl s"
  "g_data (fb_set fb v s) = g_data s"
  "effects (fb_set fb v s) = effects s"
  "use_colored_transmit (fb_set fb v s) = use_colored_transmit s"
  "dtxl_depth (fb_set fb v s) = dtxl_depth s"
  "dfbl_default_fb (fb_set fb v s) = dfbl_default_fb s"
  "next_id (fb_set fb v s) = next_id s"
  by (cases fb; simp)+

lemma fb_get_fb_set [simp]:
  "fb_get fb' (fb_set fb v s) = (if fb' = fb then v else fb_get fb' s)"
  by (cases fb; cases fb'; simp)

lemma tex_get_fb_set [simp]: "tex_get ts (fb_set fb v s) = tex_get ts s"
  by (cases ts) simp_all

lemma fb_get_next_id_update [simp]: "fb_get fb (s\<lparr>next_id := n\<rparr>) = fb_get fb s"
  by (cases fb) simp_all

lemma tex_get_next_id_update [simp]: "tex_get ts (s\<lparr>next_id := n\<rparr>) = tex_get ts s"
  by (cases ts) simp_all

lemma new_framebuffer_simps [simp]:
  "cmds (new_framebuffer fb s) = cmds s"
  "txl (new_framebuffer fb s) = txl s"
  "g_data (new_framebuffer fb s) = g_data s"
  "effects (new_framebuffer fb s) = effects s"
  "use_colored_transmit (new_framebuffer fb s) = use_colored_transmit s"
  "dtxl_depth (new_framebuffer fb s) = dtxl_depth s"
  "dfbl_default_fb (new_framebuffer fb s) = dfbl_default_fb s"
  "next_id (new_framebuffer fb s) = Suc (next_id s)"
  "tex_get ts (new_framebuffer fb s) = tex_get ts s"
  "fb_get fb' (new_framebuffer fb s) = (if fb' = fb then Some (next_id s) else fb_get fb' s)"
  by (simp_all add: new_framebuffer_def)

lemma new_texture_simps [simp]:
  "cmds (new_texture w h ts s) = cmds s"
  "fbl (new_texture w h ts s) = fbl s"
  "effects (new_texture w h ts s) = effects s"
  "use_colored_transmit (new_texture w h ts s) = use_colored_transmit s"
  "dtxl_depth (new_texture w h ts s) = dtxl_depth s"
  "dfbl_default_fb (new_texture w h ts s) = dfbl_default_fb s"
  "next_id (new_texture w h ts s) = Suc (next_id s)"
  "valid_double_buffer (g_data (new_texture w h ts s)) = valid_double_buffer (g_data s)"
  "fb_get fb (new_texture w h ts s) = fb_get fb s"
  "tex_get ts' (new_texture w h ts s) =
     (if ts' = ts then Some (GPUTexture (next_id s) w h) else tex_get ts' s)"
  by (simp_all add: new_texture_def DRW_texture_create_2D_def)

lemma ensure_textures_Nil [simp]: "ensure_textures w h [] s = s"
  by (simp add: ensure_textures_def)

lemma ensure_textures_Cons_None [simp]:
  "tex_get ts s = None \<Longrightarrow>
     ensure_textures w h (ts # tss) s = ensure_textures w h tss (new_texture w h ts s)"
  by (simp add: ensure_textures_def)

lemma ensure_textures_Cons_Some [simp]:
  "tex_get ts s \<noteq> None \<Longrightarrow> ensure_textures w h (ts # tss) s = ensure_textures w h tss s"
  by (auto simp add: ensure_textures_def)

lemma ensure_textures_frame:
  "cmds (ensure_textures w h tss s) = cmds s
   \<and> fbl (ensure_textures w h tss s) = fbl s
   \<and> effects (ensure_textures w h tss s) = effects s
   \<and> use_colored_transmit (ensure_textures w h tss s) = use_colored_transmit s
   \<and> dtxl_depth (ensure_textures w h tss s) = dtxl_depth s
   \<and> dfbl_default_fb (ensure_textures w h tss s) = dfbl_default_fb s
   \<and> valid_double_buffer (g_data (ensure_textures w h tss s)) = valid_double_buffer (g_data s)
   \<and> next_id s \<le> next_id (ensure_textures w h tss s)"
proof (induction tss arbitrary: s)
  case Nil
  show ?case by simp
next
  case (Cons ts tss)
  show ?case
  proof (cases "tex_get ts s = None")
    case True
    with Cons [of "new_texture w h ts s"] show ?thesis by simp
  next
    case False
    with Cons [of s] show ?thesis by simp
  qed
qed

lemma ensure_textures_fb_get [simp]: "fb_get fb (ensure_textures w h tss s) = fb_get fb s"
  by (cases fb) (simp_all add: ensure_textures_frame)

lemma ensure_textures_other:
  "ts' \<notin> set tss \<Longrightarrow> tex_get ts' (ensure_textures w h tss s) = tex_get ts' s"
proof (induction tss arbitrary: s)
  case Nil
  show ?case by simp
next
  case (Cons ts tss)
  then show ?case by (cases "tex_get ts s = None") simp_all
qed

lemma ensure_textures_kept:
  "tex_get ts' s = Some t \<Longrightarrow> tex_get ts' (ensure_textures w h tss s) = Some t"
proof (induction tss arbitrary: s)
  case Nil
  then show ?case by simp
next
  case (Cons ts tss)
  show ?case
  proof (cases "tex_get ts s = None")
    case True
    with Cons.prems have "ts' \<noteq> ts" by auto
    with Cons.prems have "tex_get ts' (new_texture w h ts s) = Some t" by simp
    from Cons.IH [OF this] True show ?thesis by simp
  next
    case False
    with Cons.IH [OF Cons.prems] show ?thesis by simp
  qed
qed

lemma ensure_textures_created:
  "ts' \<in> set tss \<Longrightarrow> tex_get ts' s = None
     \<Longrightarrow> \<exists>k\<ge>next_id s. tex_get ts' (ensure_textures w h tss s) = Some (GPUTexture k w h)"
proof (induction tss arbitrary: s)
  case Nil
  then show ?case by simp
next
  case (Cons ts tss)
  show ?case
  proof (cases "ts' = ts")
    case True
    with Cons.prems have "tex_get ts' (new_texture w h ts s) = Some (GPUTexture (next_id s) w h)"
      by simp
    then have "tex_get ts' (ensure_textures w h tss (new_texture w h ts s))
                 = Some (GPUTexture (next_id s) w h)"
      by (rule ensure_textures_kept)
    with True Cons.prems show ?thesis by auto
  next
    case False
    with Cons.prems have mem: "ts' \<in> set tss" by simp
    show ?thesis
    proof (cases "tex_get ts s = None")
      case True
      from False Cons.prems have "tex_get ts' (new_texture w h ts s) = None" by simp
      from Cons.IH [OF mem this] obtain k where
        "Suc (next_id s) \<le> k"
        "tex_get ts' (ensure_textures w h tss (new_texture w h ts s)) = Some (GPUTexture k w h)"
        by auto
      with True show ?thesis by (auto intro: Suc_leD)
    next
      case False
      with Cons.IH [OF mem Cons.prems(2)] show ?thesis by simp
    qed
  qed
qed

lemma ensure_textures_present:
  "ts' \<in> set tss \<Longrightarrow> tex_get ts' (ensure_textures w h tss s) \<noteq> None"
proof (cases "tex_get ts' s")
  case None
  assume "ts' \<in> set tss"
  from ensure_textures_created [OF this None] show ?thesis by auto
next
  case (Some t)
  then show ?thesis by (simp add: ensure_textures_kept)
qed

subsection \<open>Records of commands\<close>

lemma emits_iff: "emits P c c' \<longleftrightarrow> (\<exists>evs. c' = c @ evs \<and> list_all P evs)"
proof
  assume "emits P c c'"
  then have "c' = c @ drop (length c) c'" and "list_all P (drop (length c) c')"
    unfolding emits_def by (metis append_take_drop_id, blast)
  then show "\<exists>evs. c' = c @ evs \<and> list_all P evs" by blast
next
  assume "\<exists>evs. c' = c @ evs \<and> list_all P evs"
  then show "emits P c c'" by (auto simp: emits_def)
qed

lemma emits_refl [simp]: "emits P c c"
  by (simp add: emits_def)

lemma emits_append [simp]: "emits P c (c @ evs) \<longleftrightarrow> list_all P evs"
  by (simp add: emits_def)

lemma emits_trans: "emits P a b \<Longrightarrow> emits P b c \<Longrightarrow> emits P a c"
  by (auto simp: emits_iff)

lemma emits_snoc: "emits P a b \<Longrightarrow> P e \<Longrightarrow> emits P a (b @ [e])"
  by (auto simp: emits_iff)

lemma emits_mono: "emits P a b \<Longrightarrow> (\<And>e. P e \<Longrightarrow> Q e) \<Longrightarrow> emits Q a b"
  by (auto simp: emits_iff list_all_iff)

lemma emits_filter: "emits P a b \<Longrightarrow> (\<And>e. P e \<Longrightarrow> \<not> Q e) \<Longrightarrow> filter Q b = filter Q a"
  by (auto simp: emits_iff list_all_iff)

lemma emits_map_filter:
  "emits P a b \<Longrightarrow> (\<And>e. P e \<Longrightarrow> f e = None) \<Longrightarrow> List.map_filter f b = List.map_filter f a"
  by (auto simp: emits_iff list_all_iff map_filter_def)

lemma emits_subset: "emits P a b \<Longrightarrow> set a \<subseteq> set b"
  by (auto simp: emits_iff)

lemma emits_new: "emits P a b \<Longrightarrow> e \<in> set b \<Longrightarrow> e \<in> set a \<or> P e"
  by (auto simp: emits_iff list_all_iff)

subsection \<open>The draw manager\<close>

lemma DRW_framebuffer_init_simps [simp]:
  "cmds (DRW_framebuffer_init fb w h texs n s)
     = cmds s @ [Framebuffer_init fb w h (take (nat n) texs)]"
  "effects (DRW_framebuffer_init fb w h texs n s) = effects s"
  "use_colored_transmit (DRW_framebuffer_init fb w h texs n s) = use_colored_transmit s"
  "dtxl_depth (DRW_framebuffer_init fb w h texs n s) = dtxl_depth s"
  "dfbl_default_fb (DRW_framebuffer_init fb w h texs n s) = dfbl_default_fb s"
  "valid_double_buffer (g_data (DRW_framebuffer_init fb w h texs n s))
     = valid_double_buffer (g_data s)"
  by (simp_all add: DRW_framebuffer_init_def Let_def ensure_textures_frame)

lemma DRW_framebuffer_init_fb_get:
  "fb_get fb' (DRW_framebuffer_init fb w h texs n s) =
     (if fb' = fb then (case fb_get fb s of None \<Rightarrow> Some (next_id s) | Some f \<Rightarrow> Some f)
      else fb_get fb' s)"
  by (auto simp: DRW_framebuffer_init_def Let_def)

lemma DRW_framebuffer_init_fb_other [simp]:
  "fb' \<noteq> fb \<Longrightarrow> fb_get fb' (DRW_framebuffer_init fb w h texs n s) = fb_get fb' s"
  by (simp add: DRW_framebuffer_init_fb_get)

lemma DRW_framebuffer_init_next_id: "next_id s \<le> next_id (DRW_framebuffer_init fb w h texs n s)"
proof -
  let ?s2 = "if fb_get fb (emit (Framebuffer_init fb w h (take (nat n) texs)) s) = None
             then new_framebuffer fb (emit (Framebuffer_init fb w h (take (nat n) texs)) s)
             else emit (Framebuffer_init fb w h (take (nat n) texs)) s"
  have "next_id s \<le> next_id ?s2" by simp
  also have "\<dots> \<le> next_id (ensure_textures w h (take (nat n) texs) ?s2)"
    by (simp add: ensure_textures_frame)
  finally show ?thesis by (simp add: DRW_framebuffer_init_def Let_def)
qed

lemma DRW_framebuffer_init_tex_other [simp]:
  "ts \<notin> set (take (nat n) texs)
     \<Longrightarrow> tex_get ts (DRW_framebuffer_init fb w h texs n s) = tex_get ts s"
  by (simp add: DRW_framebuffer_init_def Let_def ensure_textures_other)



lemma DRW_framebuffer_init_tex_present:
  "ts \<in> set (take (nat n) texs) \<Longrightarrow> tex_get ts (DRW_framebuffer_init fb w h texs n s) \<noteq> None"
  by (simp add: DRW_framebuffer_init_def Let_def ensure_textures_present)

lemma DRW_framebuffer_free_simps [simp]:
  "DRW_framebuffer_free None s = s"
  "DRW_framebuffer_free (Some f) s = emit (Framebuffer_free f) s"
  by (simp_all add: DRW_framebuffer_free_def)

lemma DRW_TEXTURE_FREE_SAFE_simps [simp]:
  "cmds (DRW_TEXTURE_FREE_SAFE ts s)
     = cmds s @ (case tex_get ts s of None \<Rightarrow> [] | Some t \<Rightarrow> [Texture_free t])"
  "fbl (DRW_TEXTURE_FREE_SAFE ts s) = fbl s"
  "effects (DRW_TEXTURE_FREE_SAFE ts s) = effects s"
  "use_colored_transmit (DRW_TEXTURE_FREE_SAFE ts s) = use_colored_transmit s"
  "next_id (DRW_TEXTURE_FREE_SAFE ts s) = next_id s"
  "fb_get fb (DRW_TEXTURE_FREE_SAFE ts s) = fb_get fb s"
  "tex_get ts' (DRW_TEXTURE_FREE_SAFE ts s) = (if ts' = ts then None else tex_get ts' s)"
  by (simp_all add: DRW_TEXTURE_FREE_SAFE_def split: option.split)

lemma DRW_FRAMEBUFFER_FREE_SAFE_simps [simp]:
  "cmds (DRW_FRAMEBUFFER_FREE_SAFE fb s)
     = cmds s @ (case fb_get fb s of None \<Rightarrow> [] | Some f \<Rightarrow> [Framebuffer_free f])"
  "txl (DRW_FRAMEBUFFER_FREE_SAFE fb s) = txl s"
  "g_data (DRW_FRAMEBUFFER_FREE_SAFE fb s) = g_data s"
  "effects (DRW_FRAMEBUFFER_FREE_SAFE fb s) = effects s"
  "use_colored_transmit (DRW_FRAMEBUFFER_FREE_SAFE fb s) = use_colored_transmit s"
  "next_id (DRW_FRAMEBUFFER_FREE_SAFE fb s) = next_id s"
  "tex_get ts (DRW_FRAMEBUFFER_FREE_SAFE fb s) = tex_get ts s"
  "fb_get fb' (DRW_FRAMEBUFFER_FREE_SAFE fb s) = (if fb' = fb then None else fb_get fb' s)"
  by (simp_all add: DRW_FRAMEBUFFER_FREE_SAFE_def split: option.split)

lemma DRW_framebuffer_recursive_downsample_simps [simp]:
  "cmds (DRW_framebuffer_recursive_downsample fb tex n cb s)
     = cmds s @ [Recursive_downsample fb tex n cb
                   (case tex of None \<Rightarrow> []
                    | Some t \<Rightarrow> downsample_levels (nat n) 1 (tex_width t, tex_height t))]"
  "txl (DRW_framebuffer_recursive_downsample fb tex n cb s) = txl s"
  "fbl (DRW_framebuffer_recursive_downsample fb tex n cb s) = fbl s"
  "g_data (DRW_framebuffer_recursive_downsample fb tex n cb s) = g_data s"
  "effects (DRW_framebuffer_recursive_downsample fb tex n cb s) = effects s"
  "dtxl_depth (DRW_framebuffer_recursive_downsample fb tex n cb s) = dtxl_depth s"
  "dfbl_default_fb (DRW_framebuffer_recursive_downsample fb tex n cb s) = dfbl_default_fb s"
  by (simp_all add: DRW_framebuffer_recursive_downsample_def)

subsection \<open>What a step may change\<close>

lemma changes_only_refl [simp]: "changes_only T F s s"
  by (simp add: changes_only_def)

lemma changes_only_weaken:
  "changes_only T F s s' \<Longrightarrow> T \<subseteq> T' \<Longrightarrow> F \<subseteq> F' \<Longrightarrow> changes_only T' F' s s'"
  unfolding changes_only_def
  by (auto elim!: emits_mono split: option.splits)

lemma changes_only_trans:
  assumes "changes_only T F s s'" and "changes_only T F s' s''"
  shows "changes_only T F s s''"
  using assms unfolding changes_only_def
  by (auto intro: emits_trans order_trans)

lemma changes_only_trans':
  assumes "changes_only T1 F1 s s'" and "changes_only T2 F2 s' s''"
  shows "changes_only (T1 \<union> T2) (F1 \<union> F2) s s''"
proof (rule changes_only_trans)
  show "changes_only (T1 \<union> T2) (F1 \<union> F2) s s'"
    using assms(1) by (rule changes_only_weaken) auto
  show "changes_only (T1 \<union> T2) (F1 \<union> F2) s' s''"
    using assms(2) by (rule changes_only_weaken) auto
qed

lemma changes_only_tex: "changes_only T F s s' \<Longrightarrow> ts \<notin> T \<Longrightarrow> tex_get ts s' = tex_get ts s"
  by (simp add: changes_only_def)

lemma changes_only_fb: "changes_only T F s s' \<Longrightarrow> fb \<notin> F \<Longrightarrow> fb_get fb s' = fb_get fb s"
  by (simp add: changes_only_def)

lemma changes_only_next_id: "changes_only T F s s' \<Longrightarrow> next_id s \<le> next_id s'"
  by (simp add: changes_only_def)

lemma changes_only_cmds: "changes_only T F s s' \<Longrightarrow> set (cmds s) \<subseteq> set (cmds s')"
  by (auto simp: changes_only_def dest: emits_subset)

lemma changes_only_inits:
  assumes "changes_only T F s s'" and "fb \<notin> F"
  shows "filter (\<lambda>e. init_target e = Some fb) (cmds s')
           = filter (\<lambda>e. init_target e = Some fb) (cmds s)"
proof (rule emits_filter)
  from assms(1)
  show "emits (\<lambda>e. case init_target e of None \<Rightarrow> True | Some fb \<Rightarrow> fb \<in> F) (cmds s) (cmds s')"
    by (simp add: changes_only_def)
  fix e
  assume "case init_target e of None \<Rightarrow> True | Some fb \<Rightarrow> fb \<in> F"
  with assms(2) show "\<not> init_target e = Some fb" by (auto split: option.splits)
qed

lemma changes_only_emit [simp]:
  "init_target e = None \<Longrightarrow> changes_only T F s (emit e s)"
  by (simp add: changes_only_def)

lemma changes_only_DRW_framebuffer_init:
  "changes_only (set (take (nat n) texs)) {fb} s (DRW_framebuffer_init fb w h texs n s)"
  by (simp add: changes_only_def DRW_framebuffer_init_next_id)

lemma tex_get_effects_update [simp]: "tex_get ts (s\<lparr>effects := x\<rparr>) = tex_get ts s"
  by (cases ts) simp_all

lemma fb_get_effects_update [simp]: "fb_get fb (s\<lparr>effects := x\<rparr>) = fb_get fb s"
  by (cases fb) simp_all

lemma tex_get_use_colored_transmit_update [simp]:
  "tex_get ts (s\<lparr>use_colored_transmit := x\<rparr>) = tex_get ts s"
  by (cases ts) simp_all

lemma fb_get_use_colored_transmit_update [simp]:
  "fb_get fb (s\<lparr>use_colored_transmit := x\<rparr>) = fb_get fb s"
  by (cases fb) simp_all

lemma DRW_framebuffer_free_frame [simp]:
  "cmds (DRW_framebuffer_free fb s)
     = cmds s @ (case fb of None \<Rightarrow> [] | Some f \<Rightarrow> [Framebuffer_free f])"
  "txl (DRW_framebuffer_free fb s) = txl s"
  "fbl (DRW_framebuffer_free fb s) = fbl s"
  "g_data (DRW_framebuffer_free fb s) = g_data s"
  "effects (DRW_framebuffer_free fb s) = effects s"
  "use_colored_transmit (DRW_framebuffer_free fb s) = use_colored_transmit s"
  "next_id (DRW_framebuffer_free fb s) = next_id s"
  "tex_get ts (DRW_framebuffer_free fb s) = tex_get ts s"
  "fb_get fb' (DRW_framebuffer_free fb s) = fb_get fb' s"
  by (cases fb; simp)+

text \<open>
  From here on a field is read and written through its name only: the equations of
  \<open>tex_get\<close>, \<open>fb_get\<close>, \<open>tex_set\<close> and \<open>fb_set\<close> are used on request, in either direction.
\<close>

declare tex_get.simps [simp del] fb_get.simps [simp del]
declare tex_set.simps [simp del] fb_set.simps [simp del]

lemmas slot_fold = tex_get.simps [symmetric] fb_get.simps [symmetric]

lemmas slot_unfold = tex_get.simps fb_get.simps tex_set.simps fb_set.simps

lemma changes_only_then_init:
  "changes_only T F s t \<Longrightarrow> set (take (nat n) texs) \<subseteq> T \<Longrightarrow> fb \<in> F
     \<Longrightarrow> changes_only T F s (DRW_framebuffer_init fb w h texs n t)"
  by (erule changes_only_trans)
     (rule changes_only_weaken [OF changes_only_DRW_framebuffer_init], auto)

lemma changes_only_then_emit:
  "changes_only T F s t \<Longrightarrow> init_target e = None \<Longrightarrow> changes_only T F s (emit e t)"
  by (erule changes_only_trans) simp

lemma changes_only_then_fb_set:
  "changes_only T F s t \<Longrightarrow> fb \<in> F \<Longrightarrow> changes_only T F s (fb_set fb v t)"
  by (erule changes_only_trans) (auto simp: changes_only_def)

lemma changes_only_then_tex_set:
  "changes_only T F s t \<Longrightarrow> ts \<in> T \<Longrightarrow> changes_only T F s (tex_set ts v t)"
  by (erule changes_only_trans) (auto simp: changes_only_def)

lemma changes_only_then_new_texture:
  "changes_only T F s t \<Longrightarrow> ts \<in> T \<Longrightarrow> changes_only T F s (new_texture w h ts t)"
  by (erule changes_only_trans) (auto simp: changes_only_def)

lemma changes_only_then_tex_free:
  "changes_only T F s t \<Longrightarrow> ts \<in> T \<Longrightarrow> changes_only T F s (DRW_TEXTURE_FREE_SAFE ts t)"
  by (erule changes_only_trans) (auto simp: changes_only_def split: option.splits)

lemma changes_only_then_fb_free:
  "changes_only T F s t \<Longrightarrow> fb \<in> F \<Longrightarrow> changes_only T F s (DRW_FRAMEBUFFER_FREE_SAFE fb t)"
  by (erule changes_only_trans) (auto simp: changes_only_def split: option.splits)

lemma changes_only_then_framebuffer_free:
  "changes_only T F s t \<Longrightarrow> changes_only T F s (DRW_framebuffer_free fb t)"
  by (erule changes_only_trans) (auto simp: changes_only_def split: option.splits)

lemma changes_only_then_effects:
  "changes_only T F s t \<Longrightarrow> changes_only T F s (t\<lparr>effects := x\<rparr>)"
  by (erule changes_only_trans) (simp add: changes_only_def)

lemma changes_only_then_use_colored_transmit:
  "changes_only T F s t \<Longrightarrow> changes_only T F s (t\<lparr>use_colored_transmit := x\<rparr>)"
  by (erule changes_only_trans) (simp add: changes_only_def)

lemmas changes_only_then =
  changes_only_then_init changes_only_then_emit changes_only_then_fb_set
  changes_only_then_tex_set changes_only_then_new_texture changes_only_then_tex_free
  changes_only_then_fb_free changes_only_then_framebuffer_free changes_only_then_effects
  changes_only_then_use_colored_transmit

subsection \<open>The blocks of \<^verbatim>\<open>EEVEE_effects_init\<close>\<close>

lemma init_motion_blur_eq:
  "init_motion_blur cfg (enabled, s) =
     (if prop_motion_blur_enable cfg \<and> evil_C_set cfg \<and> camera_view cfg \<and> camera_not_keyed cfg
      then enabled OR EFFECT_MOTION_BLUR else enabled, s)"
  by (simp add: init_motion_blur_def)

lemma bloom_down_loop:
  "changes_only (TXL_bloom_downsample ` set xs) (FBL_bloom_down_fb ` set xs) s
     (snd (fold bloom_down_step xs (sz, s)))
   \<and> effects (snd (fold bloom_down_step xs (sz, s))) = effects s
   \<and> use_colored_transmit (snd (fold bloom_down_step xs (sz, s))) = use_colored_transmit s"
proof (induction xs arbitrary: sz s)
  case Nil
  show ?case by simp
next
  case (Cons x xs)
  let ?s1 = "DRW_framebuffer_init (FBL_bloom_down_fb x) (fst (bloom_halve sz))
               (snd (bloom_halve sz)) [TXL_bloom_downsample x] 1 s"
  have step: "bloom_down_step x (sz, s) = (bloom_halve sz, ?s1)"
    by (simp add: bloom_down_step_def Let_def)
  have "changes_only (set (take (nat 1) [TXL_bloom_downsample x])) {FBL_bloom_down_fb x} s ?s1"
    by (rule changes_only_DRW_framebuffer_init)
  then have c1: "changes_only (TXL_bloom_downsample ` set (x # xs))
                   (FBL_bloom_down_fb ` set (x # xs)) s ?s1"
    by (rule changes_only_weaken) auto
  from Cons [where sz = "bloom_halve sz" and s = ?s1]
  have c2: "changes_only (TXL_bloom_downsample ` set (x # xs))
              (FBL_bloom_down_fb ` set (x # xs)) ?s1
              (snd (fold bloom_down_step xs (bloom_halve sz, ?s1)))"
    by (auto elim: changes_only_weaken)
  from changes_only_trans [OF c1 c2] Cons [where sz = "bloom_halve sz" and s = ?s1] step
  show ?case by simp
qed

lemma bloom_accum_loop:
  "changes_only (TXL_bloom_upsample ` set xs) (FBL_bloom_accum_fb ` set xs) s
     (snd (fold bloom_accum_step xs (sz, s)))
   \<and> effects (snd (fold bloom_accum_step xs (sz, s))) = effects s
   \<and> use_colored_transmit (snd (fold bloom_accum_step xs (sz, s))) = use_colored_transmit s"
proof (induction xs arbitrary: sz s)
  case Nil
  show ?case by simp
next
  case (Cons x xs)
  let ?s1 = "DRW_framebuffer_init (FBL_bloom_accum_fb x) (fst (bloom_halve sz))
               (snd (bloom_halve sz)) [TXL_bloom_upsample x] 1 s"
  have step: "bloom_accum_step x (sz, s) = (bloom_halve sz, ?s1)"
    by (simp add: bloom_accum_step_def Let_def)
  have "changes_only (set (take (nat 1) [TXL_bloom_upsample x])) {FBL_bloom_accum_fb x} s ?s1"
    by (rule changes_only_DRW_framebuffer_init)
  then have c1: "changes_only (TXL_bloom_upsample ` set (x # xs))
                   (FBL_bloom_accum_fb ` set (x # xs)) s ?s1"
    by (rule changes_only_weaken) auto
  from Cons [where sz = "bloom_halve sz" and s = ?s1]
  have c2: "changes_only (TXL_bloom_upsample ` set (x # xs))
              (FBL_bloom_accum_fb ` set (x # xs)) ?s1
              (snd (fold bloom_accum_step xs (bloom_halve sz, ?s1)))"
    by (auto elim: changes_only_weaken)
  from changes_only_trans [OF c1 c2] Cons [where sz = "bloom_halve sz" and s = ?s1] step
  show ?case by simp
qed

text \<open>The bloom block.\<close>

lemma init_bloom_fst:
  "fst (init_bloom m cfg (enabled, s)) =
     (if prop_bloom_enable cfg then enabled OR EFFECT_BLOOM else enabled)"
  by (simp add: init_bloom_def Let_def)

lemma init_bloom_effects:
  "effects (snd (init_bloom m cfg (enabled, s))) =
     (if prop_bloom_enable cfg
      then (effects s)\<lparr>bloom_iteration_ct :=
              bloom_iteration_count m (prop_bloom_radius cfg)
                (int_of_float (fst (viewport_size cfg)), int_of_float (snd (viewport_size cfg)))\<rparr>
      else effects s)"
  by (simp add: init_bloom_def Let_def bloom_down_loop bloom_accum_loop)

lemma init_bloom_use_colored_transmit:
  "use_colored_transmit (snd (init_bloom m cfg (enabled, s))) = use_colored_transmit s"
  by (simp add: init_bloom_def Let_def bloom_down_loop bloom_accum_loop)

lemma init_bloom_frame:
  "changes_only (insert TXL_bloom_blit (range TXL_bloom_downsample \<union> range TXL_bloom_upsample))
     (insert FBL_bloom_blit_fb (range FBL_bloom_down_fb \<union> range FBL_bloom_accum_fb))
     s (snd (init_bloom m cfg (enabled, s)))"
  (is "changes_only ?T ?F _ _")
proof (cases "prop_bloom_enable cfg")
  case False
  then show ?thesis by (simp add: init_bloom_def)
next
  case True
  define blitsize where
    "blitsize = (int_of_float (fst (viewport_size cfg)), int_of_float (snd (viewport_size cfg)))"
  define ct where "ct = bloom_iteration_count m (prop_bloom_radius cfg) blitsize"
  define s1 where "s1 = DRW_framebuffer_init FBL_bloom_blit_fb (fst blitsize) (snd blitsize)
                          [TXL_bloom_blit] 1 s"
  define s2 where "s2 = s1\<lparr>effects := (effects s1)\<lparr>bloom_iteration_ct := ct\<rparr>\<rparr>"
  define s3 where "s3 = snd (fold bloom_down_step [0..<nat ct] (blitsize, s2))"
  define s4 where "s4 = snd (fold bloom_accum_step [0..<nat (ct - 1)] (blitsize, s3))"
  have c2: "changes_only ?T ?F s s2"
    unfolding s2_def s1_def by (intro changes_only_then changes_only_refl) auto
  have "changes_only (TXL_bloom_downsample ` set [0..<nat ct])
          (FBL_bloom_down_fb ` set [0..<nat ct]) s2 s3"
    unfolding s3_def using bloom_down_loop by blast
  then have c3: "changes_only ?T ?F s2 s3" by (rule changes_only_weaken) auto
  have "changes_only (TXL_bloom_upsample ` set [0..<nat (ct - 1)])
          (FBL_bloom_accum_fb ` set [0..<nat (ct - 1)]) s3 s4"
    unfolding s4_def using bloom_accum_loop by blast
  then have c4: "changes_only ?T ?F s3 s4" by (rule changes_only_weaken) auto
  have "snd (init_bloom m cfg (enabled, s)) = s4"
    using True
    by (simp add: init_bloom_def Let_def s4_def s3_def s2_def s1_def ct_def blitsize_def)
  with changes_only_trans [OF changes_only_trans [OF c2 c3] c4] show ?thesis by simp
qed

text \<open>The depth of field block.\<close>

lemma init_dof_fst:
  "fst (init_dof cfg (enabled, s)) =
     (if prop_dof_enable cfg \<and> camera_view cfg then enabled OR EFFECT_DOF else enabled)"
  by (simp add: init_dof_def Let_def)

lemma init_dof_effects: "effects (snd (init_dof cfg (enabled, s))) = effects s"
  by (simp add: init_dof_def Let_def)

lemma init_dof_use_colored_transmit:
  "use_colored_transmit (snd (init_dof cfg (enabled, s))) = use_colored_transmit s"
  by (simp add: init_dof_def Let_def)

lemma init_dof_frame:
  "changes_only
     {TXL_bloom_downsample 0, TXL_dof_down_near, TXL_dof_down_far, TXL_dof_coc,
      TXL_dof_far_blur, TXL_dof_near_blur}
     {FBL_dof_down_fb, FBL_dof_scatter_far_fb, FBL_dof_scatter_near_fb}
     s (snd (init_dof cfg (enabled, s)))"
  by (auto simp: init_dof_def Let_def slot_fold intro!: changes_only_then)

text \<open>The ping-pong buffer, the pyramids, the volumetrics, the reflections and the double
  buffer.\<close>

lemma init_ping_pong_effects:
  "effects (init_ping_pong cfg (enabled, s)) = (effects s)\<lparr>enabled_effects := enabled\<rparr>"
  by (simp add: init_ping_pong_def Let_def)

lemma init_ping_pong_use_colored_transmit:
  "use_colored_transmit (init_ping_pong cfg (enabled, s)) = use_colored_transmit s"
  by (simp add: init_ping_pong_def Let_def)

lemma init_ping_pong_frame:
  "changes_only {TXL_color_post} {FBL_effect_fb} s (init_ping_pong cfg (enabled, s))"
  by (auto simp: init_ping_pong_def Let_def slot_fold intro!: changes_only_then)

lemma init_minmax_effects: "effects (init_minmax cfg s) = effects s"
  by (simp add: init_minmax_def Let_def)

lemma init_minmax_frame:
  "changes_only {G_minzbuffer, TXL_maxzbuffer} {FBL_downsample_fb} s (init_minmax cfg s)"
  by (auto simp: init_minmax_def Let_def slot_fold intro!: changes_only_then)

lemma init_volumetric_effects:
  "effects (init_volumetric cfg s) =
     (if prop_volumetric_enable cfg \<and> world_nodes cfg
      then (effects s)\<lparr>enabled_effects := enabled_effects (effects s) OR EFFECT_VOLUMETRIC\<rparr>
      else effects s)"
  by (simp add: init_volumetric_def Let_def)

lemma init_volumetric_frame:
  "changes_only {G_volumetric, G_volumetric_transmit} {FBL_volumetric_fb} s
     (init_volumetric cfg s)"
  by (auto simp: init_volumetric_def Let_def slot_fold intro!: changes_only_then)

lemma clear_hit_outputs:
  "changes_only (G_ssr_hit_output ` set xs) {} s
     (fold (\<lambda>i st. tex_set (G_ssr_hit_output i) None st) xs s)
   \<and> effects (fold (\<lambda>i st. tex_set (G_ssr_hit_output i) None st) xs s) = effects s"
proof (induction xs arbitrary: s)
  case Nil
  show ?case by simp
next
  case (Cons x xs)
  have "changes_only (G_ssr_hit_output ` set (x # xs)) {} s (tex_set (G_ssr_hit_output x) None s)"
    by (intro changes_only_then changes_only_refl) simp
  moreover from Cons [of "tex_set (G_ssr_hit_output x) None s"]
  have "changes_only (G_ssr_hit_output ` set (x # xs)) {} (tex_set (G_ssr_hit_output x) None s)
          (fold (\<lambda>i st. tex_set (G_ssr_hit_output i) None st) xs
             (tex_set (G_ssr_hit_output x) None s))"
    by (auto elim: changes_only_weaken)
  ultimately show ?case
    using Cons [of "tex_set (G_ssr_hit_output x) None s"]
    by (auto intro: changes_only_trans)
qed

lemma init_ssr_frame:
  "changes_only
     (insert TXL_ssr_normal_input (insert TXL_ssr_specrough_input (range G_ssr_hit_output)))
     {FBL_screen_tracing_fb} s (init_ssr cfg s)"
  (is "changes_only ?T ?F _ _")
proof (cases "prop_ssr_enable cfg")
  case True
  have "set (take n [G_ssr_hit_output 0, G_ssr_hit_output 1, G_ssr_hit_output 2,
                     G_ssr_hit_output 3]) \<subseteq> ?T" for n
    by (auto dest!: in_set_takeD)
  with True show ?thesis
    by (auto simp: init_ssr_def init_ssr_inputs_def Let_def slot_fold
        simp del: take_Cons_numeral intro!: changes_only_then)
next
  case False
  let ?s3 = "DRW_FRAMEBUFFER_FREE_SAFE FBL_screen_tracing_fb
               (DRW_TEXTURE_FREE_SAFE TXL_ssr_specrough_input
                 (DRW_TEXTURE_FREE_SAFE TXL_ssr_normal_input s))"
  have "changes_only ?T ?F s ?s3"
    by (intro changes_only_then changes_only_refl) auto
  moreover have "changes_only ?T ?F ?s3
                   (fold (\<lambda>i st. tex_set (G_ssr_hit_output i) None st) [0..<4] ?s3)"
    using clear_hit_outputs [of "[0..<4]" ?s3] by (auto elim: changes_only_weaken)
  ultimately show ?thesis
    using False by (auto simp: init_ssr_def Let_def intro: changes_only_trans)
qed

lemma init_double_buffer_effects: "effects (init_double_buffer cfg s) = effects s"
  by (simp add: init_double_buffer_def)

lemma init_double_buffer_frame:
  "changes_only {TXL_color_double_buffer} {FBL_double_buffer} s (init_double_buffer cfg s)"
  by (auto simp: init_double_buffer_def slot_fold intro!: changes_only_then)

text \<open>The blocks, applied to a pair that is not written as one.\<close>

lemma init_motion_blur_snd [simp]: "snd (init_motion_blur cfg p) = snd p"
  by (cases p) (simp add: init_motion_blur_eq)

lemma init_motion_blur_fst:
  "fst (init_motion_blur cfg p) =
     (if prop_motion_blur_enable cfg \<and> evil_C_set cfg \<and> camera_view cfg \<and> camera_not_keyed cfg
      then fst p OR EFFECT_MOTION_BLUR else fst p)"
  by (cases p) (simp add: init_motion_blur_eq)

lemma init_bloom_fst':
  "fst (init_bloom m cfg p) = (if prop_bloom_enable cfg then fst p OR EFFECT_BLOOM else fst p)"
  by (cases p) (simp add: init_bloom_fst)

lemma init_bloom_effects':
  "effects (snd (init_bloom m cfg p)) =
     (if prop_bloom_enable cfg
      then (effects (snd p))\<lparr>bloom_iteration_ct :=
              bloom_iteration_count m (prop_bloom_radius cfg)
                (int_of_float (fst (viewport_size cfg)), int_of_float (snd (viewport_size cfg)))\<rparr>
      else effects (snd p))"
  by (cases p) (simp add: init_bloom_effects)

lemma init_bloom_frame':
  "changes_only (insert TXL_bloom_blit (range TXL_bloom_downsample \<union> range TXL_bloom_upsample))
     (insert FBL_bloom_blit_fb (range FBL_bloom_down_fb \<union> range FBL_bloom_accum_fb))
     (snd p) (snd (init_bloom m cfg p))"
  by (cases p) (simp add: init_bloom_frame)

lemma init_dof_fst':
  "fst (init_dof cfg p) =
     (if prop_dof_enable cfg \<and> camera_view cfg then fst p OR EFFECT_DOF else fst p)"
  by (cases p) (simp add: init_dof_fst)

lemma init_dof_effects' [simp]: "effects (snd (init_dof cfg p)) = effects (snd p)"
  by (cases p) (simp add: init_dof_effects)

lemma init_dof_frame':
  "changes_only
     {TXL_bloom_downsample 0, TXL_dof_down_near, TXL_dof_down_far, TXL_dof_coc,
      TXL_dof_far_blur, TXL_dof_near_blur}
     {FBL_dof_down_fb, FBL_dof_scatter_far_fb, FBL_dof_scatter_near_fb}
     (snd p) (snd (init_dof cfg p))"
  by (cases p) (simp add: init_dof_frame)

lemma init_ping_pong_effects' [simp]:
  "effects (init_ping_pong cfg p) = (effects (snd p))\<lparr>enabled_effects := fst p\<rparr>"
  by (cases p) (simp add: init_ping_pong_effects)

lemma init_ping_pong_frame':
  "changes_only {TXL_color_post} {FBL_effect_fb} (snd p) (init_ping_pong cfg p)"
  by (cases p) (simp add: init_ping_pong_frame)

text \<open>The reflections block.\<close>

lemma init_ssr_effects:
  "effects (init_ssr cfg s) =
     (if prop_ssr_enable cfg
      then (effects s)\<lparr>enabled_effects :=
                          (enabled_effects (effects s) OR EFFECT_SSR) OR EFFECT_DOUBLE_BUFFER,
                        ssr_ray_count := CLAMP (prop_ssr_ray_count cfg) 1 4,
                        reflection_trace_full := \<not> prop_ssr_halfres cfg\<rparr>
      else effects s)"
  by (simp add: init_ssr_def init_ssr_inputs_def Let_def clear_hit_outputs)

lemma init_local_enabled:
  "fst (init_dof cfg (init_bloom m cfg (init_motion_blur cfg (0, s)))) = enabled_local cfg"
  by (simp add: init_dof_fst' init_bloom_fst' init_motion_blur_fst enabled_local_def Let_def)

lemma EEVEE_effects_init_enabled:
  "enabled_effects (effects (EEVEE_effects_init m cfg s)) = enabled_final cfg"
  by (simp add: EEVEE_effects_init_def init_double_buffer_effects init_ssr_effects
      init_volumetric_effects init_minmax_effects init_local_enabled enabled_final_def Let_def)

lemma EEVEE_effects_init_bloom_iteration_ct:
  "prop_bloom_enable cfg \<Longrightarrow>
     bloom_iteration_ct (effects (EEVEE_effects_init m cfg s)) =
       bloom_iteration_count m (prop_bloom_radius cfg)
         (int_of_float (fst (viewport_size cfg)), int_of_float (snd (viewport_size cfg)))"
  by (simp add: EEVEE_effects_init_def init_double_buffer_effects init_ssr_effects
      init_volumetric_effects init_minmax_effects init_bloom_effects')

lemma EEVEE_effects_init_ssr_ray_count:
  "prop_ssr_enable cfg \<Longrightarrow>
     ssr_ray_count (effects (EEVEE_effects_init m cfg s)) = CLAMP (prop_ssr_ray_count cfg) 1 4"
  by (simp add: EEVEE_effects_init_def init_double_buffer_effects init_ssr_effects)

lemma word_or_and_eq_0: "(x OR y) AND b = 0 \<longleftrightarrow> x AND b = 0 \<and> y AND b = (0::32 word)"
  by (simp add: bit.conj_disj_distrib2 or_eq_0_iff)

lemma enabled_final_bloom:
  "enabled_final cfg AND EFFECT_BLOOM \<noteq> 0 \<longleftrightarrow> prop_bloom_enable cfg"
  by (simp add: enabled_final_def enabled_local_def Let_def word_or_and_eq_0
      EFFECT_MOTION_BLUR_def EFFECT_BLOOM_def EFFECT_DOF_def EFFECT_VOLUMETRIC_def
      EFFECT_SSR_def EFFECT_DOUBLE_BUFFER_def)

lemma enabled_final_dof:
  "enabled_final cfg AND EFFECT_DOF \<noteq> 0 \<longleftrightarrow> prop_dof_enable cfg \<and> camera_view cfg"
  by (simp add: enabled_final_def enabled_local_def Let_def word_or_and_eq_0
      EFFECT_MOTION_BLUR_def EFFECT_BLOOM_def EFFECT_DOF_def EFFECT_VOLUMETRIC_def
      EFFECT_SSR_def EFFECT_DOUBLE_BUFFER_def)

lemma enabled_final_ssr:
  "enabled_final cfg AND EFFECT_SSR \<noteq> 0 \<longleftrightarrow> prop_ssr_enable cfg"
  by (simp add: enabled_final_def enabled_local_def Let_def word_or_and_eq_0
      EFFECT_MOTION_BLUR_def EFFECT_BLOOM_def EFFECT_DOF_def EFFECT_VOLUMETRIC_def
      EFFECT_SSR_def EFFECT_DOUBLE_BUFFER_def)

lemma enabled_final_double_buffer:
  "enabled_final cfg AND EFFECT_DOUBLE_BUFFER \<noteq> 0 \<longleftrightarrow> prop_ssr_enable cfg"
  by (simp add: enabled_final_def enabled_local_def Let_def word_or_and_eq_0
      EFFECT_MOTION_BLUR_def EFFECT_BLOOM_def EFFECT_DOF_def EFFECT_VOLUMETRIC_def
      EFFECT_SSR_def EFFECT_DOUBLE_BUFFER_def)

lemma enabled_local_bloom:
  "enabled_local cfg AND EFFECT_BLOOM \<noteq> 0 \<longleftrightarrow> prop_bloom_enable cfg"
  by (simp add: enabled_local_def Let_def word_or_and_eq_0
      EFFECT_MOTION_BLUR_def EFFECT_BLOOM_def EFFECT_DOF_def)

subsection \<open>\<^verbatim>\<open>EEVEE_effects_init\<close>, block after block\<close>

lemma EEVEE_effects_init_upto:
  "EEVEE_effects_init m cfg s = init_double_buffer cfg (init_upto_ssr m cfg s)"
  by (simp add: EEVEE_effects_init_def init_upto_ssr_def init_upto_minmax_def init_upto_dof_def
      init_upto_bloom_def)

lemma init_upto_bloom_frame:
  "changes_only bloom_texs bloom_fbs s (snd (init_upto_bloom m cfg s))"
  using init_bloom_frame' [where m = m and cfg = cfg and p = "init_motion_blur cfg (0, s)"]
  by (simp add: init_upto_bloom_def bloom_texs_def bloom_fbs_def)

lemma init_upto_dof_frame:
  "changes_only (bloom_texs \<union> dof_texs) (bloom_fbs \<union> dof_fbs) s (snd (init_upto_dof m cfg s))"
  unfolding init_upto_dof_def dof_texs_def dof_fbs_def
  by (rule changes_only_trans' [OF init_upto_bloom_frame init_dof_frame'])

lemma init_upto_minmax_frame:
  "changes_only (bloom_texs \<union> dof_texs \<union> {TXL_color_post} \<union> {G_minzbuffer, TXL_maxzbuffer})
     (bloom_fbs \<union> dof_fbs \<union> {FBL_effect_fb} \<union> {FBL_downsample_fb})
     s (init_upto_minmax m cfg s)"
  unfolding init_upto_minmax_def
  by (rule changes_only_trans'
        [OF changes_only_trans' [OF init_upto_dof_frame init_ping_pong_frame'] init_minmax_frame])

lemma init_before_ssr_frame:
  "changes_only
     (bloom_texs \<union> dof_texs \<union> {TXL_color_post} \<union> {G_minzbuffer, TXL_maxzbuffer}
        \<union> {G_volumetric, G_volumetric_transmit})
     (bloom_fbs \<union> dof_fbs \<union> {FBL_effect_fb} \<union> {FBL_downsample_fb} \<union> {FBL_volumetric_fb})
     s (init_volumetric cfg (init_upto_minmax m cfg s))"
  by (rule changes_only_trans' [OF init_upto_minmax_frame init_volumetric_frame])

lemma init_after_minmax_frame:
  "changes_only ({G_volumetric, G_volumetric_transmit} \<union> ssr_texs \<union> {TXL_color_double_buffer})
     ({FBL_volumetric_fb} \<union> {FBL_screen_tracing_fb} \<union> {FBL_double_buffer})
     (init_upto_minmax m cfg s) (EEVEE_effects_init m cfg s)"
  unfolding EEVEE_effects_init_upto init_upto_ssr_def ssr_texs_def
  by (rule changes_only_trans'
        [OF changes_only_trans' [OF init_volumetric_frame init_ssr_frame]
            init_double_buffer_frame])

lemma init_after_dof_frame:
  "changes_only
     ({TXL_color_post} \<union> {G_minzbuffer, TXL_maxzbuffer}
        \<union> ({G_volumetric, G_volumetric_transmit} \<union> ssr_texs \<union> {TXL_color_double_buffer}))
     ({FBL_effect_fb} \<union> {FBL_downsample_fb}
        \<union> ({FBL_volumetric_fb} \<union> {FBL_screen_tracing_fb} \<union> {FBL_double_buffer}))
     (snd (init_upto_dof m cfg s)) (EEVEE_effects_init m cfg s)"
proof -
  have "changes_only ({TXL_color_post} \<union> {G_minzbuffer, TXL_maxzbuffer})
          ({FBL_effect_fb} \<union> {FBL_downsample_fb})
          (snd (init_upto_dof m cfg s)) (init_upto_minmax m cfg s)"
    unfolding init_upto_minmax_def
    by (rule changes_only_trans' [OF init_ping_pong_frame' init_minmax_frame])
  from changes_only_trans' [OF this init_after_minmax_frame] show ?thesis .
qed

subsection \<open>The hit buffers of the reflections\<close>

lemma hit_outputs_map:
  "[G_ssr_hit_output 0, G_ssr_hit_output 1, G_ssr_hit_output 2, G_ssr_hit_output 3]
     = map G_ssr_hit_output [0..<4]"
  by (simp add: upt_rec)

lemma hit_outputs_take:
  "set (take k [G_ssr_hit_output 0, G_ssr_hit_output 1, G_ssr_hit_output 2, G_ssr_hit_output 3])
     = G_ssr_hit_output ` {i. i < k \<and> i < 4}"
proof -
  have "take k [0..<4] = [0..<min k 4]"
    by (cases "k \<le> 4") (simp_all add: min_def)
  then show ?thesis
    unfolding hit_outputs_map take_map by auto
qed

lemma hit_outputs_take_length:
  "length (take k [G_ssr_hit_output 0, G_ssr_hit_output 1, G_ssr_hit_output 2,
                   G_ssr_hit_output 3]) = min k 4"
  by simp

lemma init_ssr_inputs_simps:
  "effects (init_ssr_inputs cfg t) =
     (effects t)\<lparr>enabled_effects :=
                     (enabled_effects (effects t) OR EFFECT_SSR) OR EFFECT_DOUBLE_BUFFER,
                   ssr_ray_count := CLAMP (prop_ssr_ray_count cfg) 1 4,
                   reflection_trace_full := \<not> prop_ssr_halfres cfg\<rparr>"
  "tex_get (G_ssr_hit_output i) (init_ssr_inputs cfg t) = tex_get (G_ssr_hit_output i) t"
  "filter (\<lambda>e. init_target e = Some fb) (cmds (init_ssr_inputs cfg t))
     = filter (\<lambda>e. init_target e = Some fb) (cmds t)"
  by (simp_all add: init_ssr_inputs_def Let_def)

lemma init_ssr_inits:
  assumes "prop_ssr_enable cfg"
  shows "\<exists>w h. filter (\<lambda>e. init_target e = Some FBL_screen_tracing_fb) (cmds (init_ssr cfg t))
           = filter (\<lambda>e. init_target e = Some FBL_screen_tracing_fb) (cmds t)
             @ [Framebuffer_init FBL_screen_tracing_fb w h
                  (take (nat (CLAMP (prop_ssr_ray_count cfg) 1 4))
                     [G_ssr_hit_output 0, G_ssr_hit_output 1, G_ssr_hit_output 2,
                      G_ssr_hit_output 3])]"
  using assms
  by (simp add: init_ssr_def Let_def init_ssr_inputs_simps del: take_Cons_numeral)

lemma init_ssr_hit_outputs:
  assumes "prop_ssr_enable cfg"
  shows "int i < CLAMP (prop_ssr_ray_count cfg) 1 4
           \<Longrightarrow> tex_get (G_ssr_hit_output i) (init_ssr cfg t) \<noteq> None"
    and "CLAMP (prop_ssr_ray_count cfg) 1 4 \<le> int i
           \<Longrightarrow> tex_get (G_ssr_hit_output i) (init_ssr cfg t) = tex_get (G_ssr_hit_output i) t"
proof -
  let ?n = "CLAMP (prop_ssr_ray_count cfg) 1 4"
  let ?hits = "[G_ssr_hit_output 0, G_ssr_hit_output 1, G_ssr_hit_output 2, G_ssr_hit_output 3]"
  have bounds: "1 \<le> ?n \<and> ?n \<le> 4" by (rule CLAMP_bounds) simp
  obtain w h where form:
    "init_ssr cfg t = DRW_framebuffer_init FBL_screen_tracing_fb w h ?hits ?n
                        (init_ssr_inputs cfg t)"
    using assms by (simp add: init_ssr_def Let_def init_ssr_inputs_simps)
  {
    assume "int i < ?n"
    with bounds have "i < nat ?n \<and> i < 4" by linarith
    then have "G_ssr_hit_output i \<in> set (take (nat ?n) ?hits)"
      unfolding hit_outputs_take by blast
    then show "tex_get (G_ssr_hit_output i) (init_ssr cfg t) \<noteq> None"
      unfolding form by (rule DRW_framebuffer_init_tex_present)
  }
  {
    assume "?n \<le> int i"
    then have "\<not> i < nat ?n" by linarith
    then have "G_ssr_hit_output i \<notin> set (take (nat ?n) ?hits)"
      unfolding hit_outputs_take by blast
    then have "tex_get (G_ssr_hit_output i) (init_ssr cfg t)
                 = tex_get (G_ssr_hit_output i) (init_ssr_inputs cfg t)"
      unfolding form by (rule DRW_framebuffer_init_tex_other)
    then show "tex_get (G_ssr_hit_output i) (init_ssr cfg t) = tex_get (G_ssr_hit_output i) t"
      by (simp add: init_ssr_inputs_simps)
  }
qed

lemma EEVEE_effects_init_hit_outputs:
  assumes "prop_ssr_enable cfg"
  shows "int i < CLAMP (prop_ssr_ray_count cfg) 1 4
           \<Longrightarrow> tex_get (G_ssr_hit_output i) (EEVEE_effects_init m cfg s) \<noteq> None"
    and "CLAMP (prop_ssr_ray_count cfg) 1 4 \<le> int i
           \<Longrightarrow> tex_get (G_ssr_hit_output i) (EEVEE_effects_init m cfg s)
               = tex_get (G_ssr_hit_output i) s"
proof -
  let ?t = "init_volumetric cfg (init_upto_minmax m cfg s)"
  have db: "tex_get (G_ssr_hit_output i) (EEVEE_effects_init m cfg s)
              = tex_get (G_ssr_hit_output i) (init_ssr cfg ?t)"
    unfolding EEVEE_effects_init_upto init_upto_ssr_def
    by (rule changes_only_tex [OF init_double_buffer_frame]) simp
  have pre: "tex_get (G_ssr_hit_output i) ?t = tex_get (G_ssr_hit_output i) s"
    by (rule changes_only_tex [OF init_before_ssr_frame])
       (auto simp: bloom_texs_def dof_texs_def)
  {
    assume "int i < CLAMP (prop_ssr_ray_count cfg) 1 4"
    from init_ssr_hit_outputs(1) [OF assms this] db
    show "tex_get (G_ssr_hit_output i) (EEVEE_effects_init m cfg s) \<noteq> None" by simp
  }
  {
    assume "CLAMP (prop_ssr_ray_count cfg) 1 4 \<le> int i"
    from init_ssr_hit_outputs(2) [OF assms this] db pre
    show "tex_get (G_ssr_hit_output i) (EEVEE_effects_init m cfg s)
            = tex_get (G_ssr_hit_output i) s" by simp
  }
qed

lemma EEVEE_effects_init_tracing_inits:
  assumes "prop_ssr_enable cfg"
  shows "\<exists>w h. filter (\<lambda>e. init_target e = Some FBL_screen_tracing_fb)
                  (commands (EEVEE_effects_init m cfg) s)
           = [Framebuffer_init FBL_screen_tracing_fb w h
                (take (nat (CLAMP (prop_ssr_ray_count cfg) 1 4))
                   [G_ssr_hit_output 0, G_ssr_hit_output 1, G_ssr_hit_output 2,
                    G_ssr_hit_output 3])]"
proof -
  let ?P = "\<lambda>e. init_target e = Some FBL_screen_tracing_fb"
  let ?s0 = "s\<lparr>cmds := []\<rparr>"
  let ?t = "init_volumetric cfg (init_upto_minmax m cfg ?s0)"
  have "filter ?P (cmds ?t) = filter ?P (cmds ?s0)"
    by (rule changes_only_inits [OF init_before_ssr_frame])
       (auto simp: bloom_fbs_def dof_fbs_def)
  then have pre: "filter ?P (cmds ?t) = []" by simp
  have post: "filter ?P (cmds (EEVEE_effects_init m cfg ?s0)) = filter ?P (cmds (init_ssr cfg ?t))"
    unfolding EEVEE_effects_init_upto init_upto_ssr_def
    by (rule changes_only_inits [OF init_double_buffer_frame]) simp
  from init_ssr_inits [OF assms, of ?t] pre post show ?thesis
    by (simp add: commands_def)
qed

subsection \<open>The exchange of the double buffers\<close>

lemma exchanges_simps [simp]:
  "exchanges [] = 0"
  "exchanges (evs @ evs') = exchanges evs + exchanges evs'"
  "exchanges [e] = (if e = Swap_double_buffers then 1 else 0)"
  by (simp_all add: exchanges_def)

lemma exchange_view_emit [simp]:
  "e \<noteq> Swap_double_buffers \<Longrightarrow> exchange_view (emit e s) = exchange_view s"
  by (simp add: exchange_view_def)

lemma exchange_view_effects [simp]: "exchange_view (s\<lparr>effects := x\<rparr>) = exchange_view s"
  by (simp add: exchange_view_def)

lemma exchange_view_g_data [simp]: "exchange_view (s\<lparr>g_data := x\<rparr>) = exchange_view s"
  by (simp add: exchange_view_def)

lemma swap_view_idem [simp]: "swap_view (swap_view v) = swap_view v"
  by (cases v) simp

lemma SWAP_DOUBLE_BUFFERS_view: "flag_view (SWAP_DOUBLE_BUFFERS p) = swap_view (flag_view p)"
  by (cases p) (simp add: SWAP_DOUBLE_BUFFERS_def flag_view_def exchange_view_def Let_def)

lemma SWAP_BUFFERS_view: "flag_view (SWAP_BUFFERS p) = swap_view (flag_view p)"
proof (cases p)
  case (Pair b s)
  obtain b' s' where sw: "SWAP_DOUBLE_BUFFERS (b, s) = (b', s')" by (cases "SWAP_DOUBLE_BUFFERS (b, s)")
  with SWAP_DOUBLE_BUFFERS_view [of "(b, s)"]
  have "(b', exchange_view s') = swap_view (b, exchange_view s)"
    by (simp add: flag_view_def)
  with Pair sw show ?thesis
    by (simp add: SWAP_BUFFERS_def flag_view_def)
qed

lemma SWAP_BUFFERS_effects_frame:
  "enabled_effects (effects (snd (SWAP_BUFFERS p))) = enabled_effects (effects (snd p))
   \<and> bloom_iteration_ct (effects (snd (SWAP_BUFFERS p))) = bloom_iteration_ct (effects (snd p))"
  by (cases p) (simp add: SWAP_BUFFERS_def SWAP_DOUBLE_BUFFERS_def Let_def)

lemma bloom_downsample_loop_view:
  "exchange_view (snd (fold bloom_downsample_step xs (l, s))) = exchange_view s
   \<and> enabled_effects (effects (snd (fold bloom_downsample_step xs (l, s))))
       = enabled_effects (effects s)
   \<and> bloom_iteration_ct (effects (snd (fold bloom_downsample_step xs (l, s))))
       = bloom_iteration_ct (effects s)
   \<and> source_buffer (effects (snd (fold bloom_downsample_step xs (l, s))))
       = source_buffer (effects s)
   \<and> target_buffer (effects (snd (fold bloom_downsample_step xs (l, s))))
       = target_buffer (effects s)"
proof (induction xs arbitrary: l s)
  case Nil
  show ?case by simp
next
  case (Cons x xs)
  obtain l' s' where step: "bloom_downsample_step x (l, s) = (l', s')"
    by (cases "bloom_downsample_step x (l, s)")
  then have "exchange_view s' = exchange_view s"
    and "enabled_effects (effects s') = enabled_effects (effects s)"
    and "bloom_iteration_ct (effects s') = bloom_iteration_ct (effects s)"
    and "source_buffer (effects s') = source_buffer (effects s)"
    and "target_buffer (effects s') = target_buffer (effects s)"
    by (auto simp: bloom_downsample_step_def Let_def)
  with Cons [where l = l' and s = s'] step show ?case by simp
qed

lemma bloom_upsample_loop_view:
  "exchange_view (snd (fold bloom_upsample_step xs (l, s))) = exchange_view s
   \<and> enabled_effects (effects (snd (fold bloom_upsample_step xs (l, s))))
       = enabled_effects (effects s)
   \<and> bloom_iteration_ct (effects (snd (fold bloom_upsample_step xs (l, s))))
       = bloom_iteration_ct (effects s)
   \<and> source_buffer (effects (snd (fold bloom_upsample_step xs (l, s))))
       = source_buffer (effects s)
   \<and> target_buffer (effects (snd (fold bloom_upsample_step xs (l, s))))
       = target_buffer (effects s)"
proof (induction xs arbitrary: l s)
  case Nil
  show ?case by simp
next
  case (Cons x xs)
  obtain l' s' where step: "bloom_upsample_step x (l, s) = (l', s')"
    by (cases "bloom_upsample_step x (l, s)")
  then have "exchange_view s' = exchange_view s"
    and "enabled_effects (effects s') = enabled_effects (effects s)"
    and "bloom_iteration_ct (effects s') = bloom_iteration_ct (effects s)"
    and "source_buffer (effects s') = source_buffer (effects s)"
    and "target_buffer (effects s') = target_buffer (effects s)"
    by (auto simp: bloom_upsample_step_def Let_def)
  with Cons [where l = l' and s = s'] step show ?case by simp
qed

lemma bloom_downsample_loop_view':
  "exchange_view (snd (fold bloom_downsample_step xs p)) = exchange_view (snd p)
   \<and> enabled_effects (effects (snd (fold bloom_downsample_step xs p)))
       = enabled_effects (effects (snd p))
   \<and> bloom_iteration_ct (effects (snd (fold bloom_downsample_step xs p)))
       = bloom_iteration_ct (effects (snd p))
   \<and> source_buffer (effects (snd (fold bloom_downsample_step xs p)))
       = source_buffer (effects (snd p))
   \<and> target_buffer (effects (snd (fold bloom_downsample_step xs p)))
       = target_buffer (effects (snd p))"
  using bloom_downsample_loop_view [of xs "fst p" "snd p"] by simp

lemma bloom_upsample_loop_view':
  "exchange_view (snd (fold bloom_upsample_step xs p)) = exchange_view (snd p)
   \<and> enabled_effects (effects (snd (fold bloom_upsample_step xs p)))
       = enabled_effects (effects (snd p))
   \<and> bloom_iteration_ct (effects (snd (fold bloom_upsample_step xs p)))
       = bloom_iteration_ct (effects (snd p))
   \<and> source_buffer (effects (snd (fold bloom_upsample_step xs p)))
       = source_buffer (effects (snd p))
   \<and> target_buffer (effects (snd (fold bloom_upsample_step xs p)))
       = target_buffer (effects (snd p))"
  using bloom_upsample_loop_view [of xs "fst p" "snd p"] by simp

lemma draw_bloom_passes_view:
  "exchange_view (draw_bloom_passes s) = exchange_view s
   \<and> source_buffer (effects (draw_bloom_passes s)) = source_buffer (effects s)
   \<and> enabled_effects (effects (draw_bloom_passes s)) = enabled_effects (effects s)"
  by (simp add: draw_bloom_passes_def Let_def split_beta bloom_downsample_loop_view'
      bloom_upsample_loop_view')

lemma draw_dof_passes_view:
  "exchange_view (draw_dof_passes s) = exchange_view s
   \<and> source_buffer (effects (draw_dof_passes s)) = source_buffer (effects s)
   \<and> enabled_effects (effects (draw_dof_passes s)) = enabled_effects (effects s)"
  by (simp add: draw_dof_passes_def Let_def)

text \<open>Each of the three effect blocks leaves the view alone or does what the macro does.\<close>

lemma draw_motion_blur_view:
  "flag_view (draw_motion_blur p) = flag_view p
   \<or> flag_view (draw_motion_blur p) = swap_view (flag_view p)"
proof (cases p)
  case (Pair b s)
  show ?thesis
  proof (cases "enabled_effects (effects s) AND EFFECT_MOTION_BLUR \<noteq> 0")
    case False
    with Pair show ?thesis by (simp add: draw_motion_blur_def)
  next
    case True
    let ?s2 = "emit (Draw_pass PSL_motion_blur) (emit (Framebuffer_bind (target_buffer (effects s))) s)"
    have "flag_view (b, ?s2) = flag_view (b, s)" by (simp add: flag_view_def)
    with SWAP_BUFFERS_view [of "(b, ?s2)"] Pair True show ?thesis
      by (simp add: draw_motion_blur_def Let_def)
  qed
qed

lemma draw_dof_view:
  "flag_view (draw_dof p) = flag_view p \<or> flag_view (draw_dof p) = swap_view (flag_view p)"
proof (cases p)
  case (Pair b s)
  show ?thesis
  proof (cases "enabled_effects (effects s) AND EFFECT_DOF \<noteq> 0")
    case False
    with Pair show ?thesis by (simp add: draw_dof_def)
  next
    case True
    have "flag_view (b, draw_dof_passes s) = flag_view (b, s)"
      by (simp add: flag_view_def draw_dof_passes_view)
    with SWAP_BUFFERS_view [of "(b, draw_dof_passes s)"] Pair True show ?thesis
      by (simp add: draw_dof_def)
  qed
qed

lemma draw_bloom_view:
  "flag_view (draw_bloom p) = flag_view p \<or> flag_view (draw_bloom p) = swap_view (flag_view p)"
proof (cases p)
  case (Pair b s)
  show ?thesis
  proof (cases "enabled_effects (effects s) AND EFFECT_BLOOM \<noteq> 0")
    case False
    with Pair show ?thesis by (simp add: draw_bloom_def)
  next
    case True
    have "flag_view (b, draw_bloom_passes s) = flag_view (b, s)"
      by (simp add: flag_view_def draw_bloom_passes_view)
    with SWAP_BUFFERS_view [of "(b, draw_bloom_passes s)"] Pair True show ?thesis
      by (simp add: draw_bloom_def)
  qed
qed

lemma draw_tonemap_view [simp]: "exchange_view (draw_tonemap s) = exchange_view s"
  by (simp add: draw_tonemap_def Let_def)

lemma draw_debug_view [simp]: "exchange_view (draw_debug env s) = exchange_view s"
  by (simp add: draw_debug_def)

lemma draw_finish_view:
  "exchange_view (draw_finish env p) = snd (swap_view (flag_view p))"
proof -
  obtain b' s' where sw: "SWAP_DOUBLE_BUFFERS p = (b', s')" by (cases "SWAP_DOUBLE_BUFFERS p")
  with SWAP_DOUBLE_BUFFERS_view [of p] have "swap_view (flag_view p) = (b', exchange_view s')"
    by (simp add: flag_view_def)
  with sw show ?thesis by (simp add: draw_finish_def Let_def)
qed

lemma EEVEE_draw_effects_view:
  "exchange_view (EEVEE_draw_effects env s)
     = snd (swap_view (enabled_effects (effects s) AND EFFECT_DOUBLE_BUFFER \<noteq> 0,
                         exchange_view s))"
proof -
  let ?p0 = "draw_begin s"
  let ?p1 = "draw_motion_blur ?p0"
  let ?p2 = "draw_dof ?p1"
  let ?p3 = "draw_bloom ?p2"
  let ?v = "(enabled_effects (effects s) AND EFFECT_DOUBLE_BUFFER \<noteq> 0, exchange_view s)"
  have v0: "flag_view ?p0 = ?v"
    by (simp add: draw_begin_def Let_def flag_view_def)
  have "flag_view ?p3 = ?v \<or> flag_view ?p3 = swap_view ?v"
    using draw_motion_blur_view [of ?p0] draw_dof_view [of ?p1] draw_bloom_view [of ?p2] v0
    by auto
  then have fin: "swap_view (flag_view ?p3) = swap_view ?v" by auto
  obtain b3 s3 where p3: "?p3 = (b3, s3)" by (cases ?p3)
  then have "flag_view (b3, draw_debug env (draw_tonemap s3)) = flag_view ?p3"
    by (simp add: flag_view_def)
  with fin p3 draw_finish_view [of env "(b3, draw_debug env (draw_tonemap s3))"]
  show ?thesis by (simp add: EEVEE_draw_effects_def)
qed

subsection \<open>The frame without post-process\<close>

lemma displayed_simps [simp]:
  "displayed [] = []"
  "displayed (evs @ evs') = displayed evs @ displayed evs'"
  "displayed (e # evs) = (case displayed_texture e of None \<Rightarrow> displayed evs
                          | Some t \<Rightarrow> t # displayed evs)"
  by (simp_all add: displayed_def map_filter_def split: option.split)

lemma draw_debug_effects: "effects (draw_debug env s) = effects s"
  by (simp add: draw_debug_def)

lemma draw_debug_emits:
  "emits (\<lambda>e. \<exists>t. e = Transform_to_display t) (cmds s) (cmds (draw_debug env s))"
  by (simp add: draw_debug_def)

lemma draw_debug_off:
  assumes "\<not> (0 < debug_value env \<and> debug_value env \<le> 5)"
  shows "draw_debug env s = s"
  unfolding draw_debug_def using assms by (simp only: if_False)

lemma draw_finish_effects: "effects (draw_finish env p) = effects (snd p)"
  by (cases p) (simp add: draw_finish_def SWAP_DOUBLE_BUFFERS_def Let_def)

lemma draw_finish_emits:
  "emits (\<lambda>e. e = Swap_double_buffers \<or> e = Request_redraw) (cmds (snd p))
     (cmds (draw_finish env p))"
  by (cases p) (simp add: draw_finish_def SWAP_DOUBLE_BUFFERS_def Let_def)

lemma draw_effects_disabled:
  assumes "enabled_effects (effects s) AND EFFECT_MOTION_BLUR = 0"
    and "enabled_effects (effects s) AND EFFECT_DOF = 0"
    and "enabled_effects (effects s) AND EFFECT_BLOOM = 0"
  shows "draw_bloom (draw_dof (draw_motion_blur (draw_begin s))) = draw_begin s"
  using assms
  by (simp add: draw_begin_def Let_def draw_motion_blur_def draw_dof_def draw_bloom_def)

subsection \<open>The reflection pass\<close>

lemma fold_emit:
  assumes "\<And>st c i. F (st\<lparr>cmds := c\<rparr>) i = F st i"
  shows "fold (\<lambda>i st. emit (F st i) st) xs s = s\<lparr>cmds := cmds s @ map (F s) xs\<rparr>"
proof (induction xs arbitrary: s)
  case Nil
  show ?case by simp
next
  case (Cons x xs)
  have "fold (\<lambda>i st. emit (F st i) st) (x # xs) s
          = fold (\<lambda>i st. emit (F st i) st) xs (emit (F s x) s)"
    by simp
  also have "\<dots> = (emit (F s x) s)\<lparr>cmds := cmds (emit (F s x) s) @ map (F (emit (F s x) s)) xs\<rparr>"
    by (rule Cons)
  also have "\<dots> = s\<lparr>cmds := cmds s @ map (F s) (x # xs)\<rparr>"
    by (simp add: emit_def assms)
  finally show ?case .
qed

lemma ssr_attach_hit_outputs_eq:
  "ssr_attach_hit_outputs s =
     s\<lparr>cmds := cmds s @ map (\<lambda>i. Texture_attach (screen_tracing_fb (fbl s))
                                   (ssr_hit_output (g_data s) i) (int i))
                           [0..<nat (ssr_ray_count (effects s))]\<rparr>"
  unfolding ssr_attach_hit_outputs_def
  by (rule fold_emit [where F = "\<lambda>st i. Texture_attach (screen_tracing_fb (fbl st))
                                        (ssr_hit_output (g_data st) i) (int i)"]) simp

lemma ssr_detach_hit_outputs_eq:
  "ssr_detach_hit_outputs s =
     s\<lparr>cmds := cmds s @ map (\<lambda>i. Texture_detach (ssr_hit_output (g_data s) i))
                           [0..<nat (ssr_ray_count (effects s))]\<rparr>"
  unfolding ssr_detach_hit_outputs_def
  by (rule fold_emit [where F = "\<lambda>st i. Texture_detach (ssr_hit_output (g_data st) i)"]) simp

lemma EEVEE_effects_do_ssr_commands:
  assumes "enabled_effects (effects s) AND EFFECT_SSR \<noteq> 0"
  shows "commands EEVEE_effects_do_ssr s =
           map (\<lambda>i. Texture_attach (screen_tracing_fb (fbl s)) (ssr_hit_output (g_data s) i) (int i))
             [0..<nat (ssr_ray_count (effects s))]
           @ [Framebuffer_bind (screen_tracing_fb (fbl s)),
              if valid_double_buffer (g_data s) then Draw_pass PSL_ssr_raytrace
              else Framebuffer_clear 0 0 (- 1) (round_float32 (1 / 1000))]
           @ map (\<lambda>i. Texture_detach (ssr_hit_output (g_data s) i))
               [0..<nat (ssr_ray_count (effects s))]
           @ [Recursive_downsample (downsample_fb (fbl s)) (color_double_buffer (txl s)) 9
                simple_downsample_cb
                (case color_double_buffer (txl s) of None \<Rightarrow> []
                 | Some t \<Rightarrow> downsample_levels (nat 9) 1 (tex_width t, tex_height t)),
              Texture_detach (dtxl_depth s),
              Texture_detach (ssr_normal_input (txl s)),
              Texture_detach (ssr_specrough_input (txl s)),
              Framebuffer_bind (main (fbl s)),
              Draw_pass PSL_ssr_resolve,
              Texture_attach (main (fbl s)) (dtxl_depth s) 0,
              Texture_attach (main (fbl s)) (ssr_normal_input (txl s)) 1,
              Texture_attach (main (fbl s)) (ssr_specrough_input (txl s)) 2]"
  using assms
  by (simp add: commands_def EEVEE_effects_do_ssr_def Let_def ssr_attach_hit_outputs_eq
      ssr_detach_hit_outputs_eq ssr_trace_or_clear_def EEVEE_downsample_buffer_def
      ssr_resolve_and_restore_def)

subsection \<open>The depth pyramids\<close>




lemma downsample_calls_simps [simp]:
  "downsample_calls [] = []"
  "downsample_calls (evs @ evs') = downsample_calls evs @ downsample_calls evs'"
  "downsample_calls (e # evs) = (case downsample_call e of None \<Rightarrow> downsample_calls evs
                                 | Some c \<Rightarrow> c # downsample_calls evs)"
  by (simp_all add: downsample_calls_def map_filter_def split: option.split)











subsection \<open>The depth of field and the first bloom buffer\<close>

lemma init_upto_bloom_facts:
  "fst (init_upto_bloom m cfg s) AND EFFECT_BLOOM \<noteq> 0 \<longleftrightarrow> prop_bloom_enable cfg"
  "enabled_effects (effects (snd (init_upto_bloom m cfg s))) = enabled_effects (effects s)"
  by (simp_all add: init_upto_bloom_def init_bloom_fst' init_bloom_effects' init_motion_blur_fst
      word_or_and_eq_0 EFFECT_BLOOM_def EFFECT_MOTION_BLUR_def)

lemma init_dof_down_fb:
  assumes "prop_dof_enable cfg" and "camera_view cfg"
  shows "\<exists>w h. filter (\<lambda>e. init_target e = Some FBL_dof_down_fb) (cmds (snd (init_dof cfg (en, t))))
           = filter (\<lambda>e. init_target e = Some FBL_dof_down_fb) (cmds t)
             @ [Framebuffer_init FBL_dof_down_fb w h
                  [if en AND EFFECT_BLOOM \<noteq> 0 then TXL_bloom_downsample 0
                   else TXL_dof_down_near,
                   TXL_dof_down_far, TXL_dof_coc]]"
    and "(en AND EFFECT_BLOOM \<noteq> 0) \<noteq> (enabled_effects (effects t) AND EFFECT_BLOOM \<noteq> 0)
           \<Longrightarrow> fb_get FBL_dof_down_fb t = Some f
           \<Longrightarrow> Framebuffer_free f \<in> set (cmds (snd (init_dof cfg (en, t))))"
    and "(en AND EFFECT_BLOOM \<noteq> 0) \<noteq> (enabled_effects (effects t) AND EFFECT_BLOOM \<noteq> 0)
           \<Longrightarrow> fb_get FBL_dof_down_fb (snd (init_dof cfg (en, t))) = Some (next_id t)"
  using assms
  by (auto simp: init_dof_def Let_def slot_fold DRW_framebuffer_init_fb_get
      split: option.splits)

lemma draw_dof_passes_unf_source_buffer:
  "unf_source_buffer (effects (draw_dof_passes t)) =
     (if enabled_effects (effects t) AND EFFECT_BLOOM \<noteq> 0 then bloom_downsample (txl t) 0
      else dof_down_near (txl t))"
  by (simp add: draw_dof_passes_def Let_def)

lemma SWAP_BUFFERS_unf_source_buffer [simp]:
  "unf_source_buffer (effects (snd (SWAP_BUFFERS p))) = unf_source_buffer (effects (snd p))"
  by (cases p) (simp add: SWAP_BUFFERS_def SWAP_DOUBLE_BUFFERS_def Let_def)

lemma draw_before_dof_frame:
  "enabled_effects (effects (snd (draw_motion_blur (draw_begin t)))) = enabled_effects (effects t)"
  "bloom_downsample (txl (snd (draw_motion_blur (draw_begin t)))) = bloom_downsample (txl t)"
  "dof_down_near (txl (snd (draw_motion_blur (draw_begin t)))) = dof_down_near (txl t)"
  by (simp_all add: draw_begin_def draw_motion_blur_def SWAP_BUFFERS_def SWAP_DOUBLE_BUFFERS_def
      Let_def)

lemma draw_dof_unf_source_buffer:
  assumes "enabled_effects (effects t) AND EFFECT_DOF \<noteq> 0"
  shows "unf_source_buffer (effects (snd (draw_dof (draw_motion_blur (draw_begin t))))) =
           (if enabled_effects (effects t) AND EFFECT_BLOOM \<noteq> 0 then bloom_downsample (txl t) 0
            else dof_down_near (txl t))"
proof -
  obtain b u where p: "draw_motion_blur (draw_begin t) = (b, u)"
    by (cases "draw_motion_blur (draw_begin t)")
  with draw_before_dof_frame [of t]
  have "enabled_effects (effects u) = enabled_effects (effects t)"
    and "bloom_downsample (txl u) = bloom_downsample (txl t)"
    and "dof_down_near (txl u) = dof_down_near (txl t)"
    by simp_all
  with assms p show ?thesis
    by (simp add: draw_dof_def draw_dof_passes_unf_source_buffer)
qed

lemma EEVEE_effects_init_dof_down_fb:
  assumes "prop_dof_enable cfg" and "camera_view cfg"
  shows "\<exists>w h. filter (\<lambda>e. init_target e = Some FBL_dof_down_fb)
                  (commands (EEVEE_effects_init m cfg) s)
           = [Framebuffer_init FBL_dof_down_fb w h
                [if prop_bloom_enable cfg then TXL_bloom_downsample 0 else TXL_dof_down_near,
                 TXL_dof_down_far, TXL_dof_coc]]"
proof -
  let ?P = "\<lambda>e. init_target e = Some FBL_dof_down_fb"
  let ?s0 = "s\<lparr>cmds := []\<rparr>"
  let ?p = "init_upto_bloom m cfg ?s0"
  have "filter ?P (cmds (snd ?p)) = filter ?P (cmds ?s0)"
    by (rule changes_only_inits [OF init_upto_bloom_frame]) (auto simp: bloom_fbs_def)
  then have pre: "filter ?P (cmds (snd ?p)) = []" by simp
  have post: "filter ?P (cmds (EEVEE_effects_init m cfg ?s0))
                = filter ?P (cmds (snd (init_upto_dof m cfg ?s0)))"
    by (rule changes_only_inits [OF init_after_dof_frame]) simp
  from init_dof_down_fb(1) [OF assms, of "fst ?p" "snd ?p"] obtain w h where
    "filter ?P (cmds (snd (init_upto_dof m cfg ?s0)))
       = filter ?P (cmds (snd ?p))
         @ [Framebuffer_init FBL_dof_down_fb w h
              [if fst ?p AND EFFECT_BLOOM \<noteq> 0 then TXL_bloom_downsample 0
               else TXL_dof_down_near, TXL_dof_down_far, TXL_dof_coc]]"
    by (auto simp: init_upto_dof_def)
  with pre post init_upto_bloom_facts(1) [of m cfg ?s0] show ?thesis
    by (simp add: commands_def)
qed

lemma EEVEE_effects_init_dof_rebuilt:
  assumes "prop_dof_enable cfg" and "camera_view cfg"
    and "prop_bloom_enable cfg \<noteq> (enabled_effects (effects s) AND EFFECT_BLOOM \<noteq> 0)"
  shows "dof_down_fb (fbl s) = Some f
           \<Longrightarrow> Framebuffer_free f \<in> set (commands (EEVEE_effects_init m cfg) s)"
    and "\<exists>f'. dof_down_fb (fbl (EEVEE_effects_init m cfg s)) = Some f' \<and> next_id s \<le> f'"
proof -
  have differs: "(fst (init_upto_bloom m cfg u) AND EFFECT_BLOOM \<noteq> 0)
                   \<noteq> (enabled_effects (effects (snd (init_upto_bloom m cfg u))) AND EFFECT_BLOOM \<noteq> 0)"
    if "enabled_effects (effects u) = enabled_effects (effects s)" for u
    using assms(3) that by (simp add: init_upto_bloom_facts)
  have keep: "fb_get FBL_dof_down_fb (snd (init_upto_bloom m cfg u)) = fb_get FBL_dof_down_fb u"
    for u
    by (rule changes_only_fb [OF init_upto_bloom_frame]) (auto simp: bloom_fbs_def)
  have after: "fb_get FBL_dof_down_fb (EEVEE_effects_init m cfg u)
                 = fb_get FBL_dof_down_fb (snd (init_upto_dof m cfg u))" for u
    by (rule changes_only_fb [OF init_after_dof_frame]) simp
  {
    assume old: "dof_down_fb (fbl s) = Some f"
    let ?s0 = "s\<lparr>cmds := []\<rparr>"
    let ?p = "init_upto_bloom m cfg ?s0"
    from old keep [of ?s0] have "fb_get FBL_dof_down_fb (snd ?p) = Some f"
      by (simp add: slot_unfold)
    from init_dof_down_fb(2) [OF assms(1,2) differs [of ?s0] this]
    have "Framebuffer_free f \<in> set (cmds (snd (init_upto_dof m cfg ?s0)))"
      by (simp add: init_upto_dof_def)
    with changes_only_cmds [OF init_after_dof_frame [of m cfg ?s0]]
    show "Framebuffer_free f \<in> set (commands (EEVEE_effects_init m cfg) s)"
      by (auto simp: commands_def)
  }
  let ?p = "init_upto_bloom m cfg s"
  from init_dof_down_fb(3) [OF assms(1,2) differs [of s]]
  have "fb_get FBL_dof_down_fb (snd (init_upto_dof m cfg s)) = Some (next_id (snd ?p))"
    by (simp add: init_upto_dof_def)
  with after [of s] changes_only_next_id [OF init_upto_bloom_frame [of s m cfg]]
  show "\<exists>f'. dof_down_fb (fbl (EEVEE_effects_init m cfg s)) = Some f' \<and> next_id s \<le> f'"
    by (simp add: slot_unfold)
qed

subsection \<open>What \<^verbatim>\<open>EEVEE_effects_init\<close> releases\<close>

text \<open>The two branches commented \<^verbatim>\<open>/* Cleanup to release memory */\<close>: without the
  reflections, their textures, their framebuffer and the double buffer are null when the
  function returns.\<close>

lemma init_ssr_released:
  assumes "\<not> prop_ssr_enable cfg"
  shows "tex_get TXL_ssr_normal_input (init_ssr cfg s) = None"
    and "tex_get TXL_ssr_specrough_input (init_ssr cfg s) = None"
    and "fb_get FBL_screen_tracing_fb (init_ssr cfg s) = None"
proof -
  let ?s3 = "DRW_FRAMEBUFFER_FREE_SAFE FBL_screen_tracing_fb
               (DRW_TEXTURE_FREE_SAFE TXL_ssr_specrough_input
                 (DRW_TEXTURE_FREE_SAFE TXL_ssr_normal_input s))"
  from assms have eq: "init_ssr cfg s
      = fold (\<lambda>i st. tex_set (G_ssr_hit_output i) None st) [0..<4] ?s3"
    by (simp add: init_ssr_def Let_def)
  from clear_hit_outputs [of "[0..<4]" ?s3]
  have frame: "changes_only (G_ssr_hit_output ` set [0..<4]) {} ?s3 (init_ssr cfg s)"
    unfolding eq by blast
  have "tex_get TXL_ssr_normal_input (init_ssr cfg s) = tex_get TXL_ssr_normal_input ?s3"
    by (rule changes_only_tex [OF frame]) auto
  then show "tex_get TXL_ssr_normal_input (init_ssr cfg s) = None" by simp
  have "tex_get TXL_ssr_specrough_input (init_ssr cfg s) = tex_get TXL_ssr_specrough_input ?s3"
    by (rule changes_only_tex [OF frame]) auto
  then show "tex_get TXL_ssr_specrough_input (init_ssr cfg s) = None" by simp
  have "fb_get FBL_screen_tracing_fb (init_ssr cfg s) = fb_get FBL_screen_tracing_fb ?s3"
    by (rule changes_only_fb [OF frame]) auto
  then show "fb_get FBL_screen_tracing_fb (init_ssr cfg s) = None" by simp
qed

lemma EEVEE_effects_init_ssr_released:
  assumes "\<not> prop_ssr_enable cfg"
  shows "ssr_normal_input (txl (EEVEE_effects_init m cfg s)) = None"
    and "ssr_specrough_input (txl (EEVEE_effects_init m cfg s)) = None"
    and "screen_tracing_fb (fbl (EEVEE_effects_init m cfg s)) = None"
    and "color_double_buffer (txl (EEVEE_effects_init m cfg s)) = None"
    and "double_buffer (fbl (EEVEE_effects_init m cfg s)) = None"
proof -
  let ?t = "init_upto_ssr m cfg s"
  have frame: "changes_only {TXL_color_double_buffer} {FBL_double_buffer} ?t
                 (EEVEE_effects_init m cfg s)"
    unfolding EEVEE_effects_init_upto by (rule init_double_buffer_frame)
  have "tex_get TXL_ssr_normal_input (EEVEE_effects_init m cfg s) = tex_get TXL_ssr_normal_input ?t"
    by (rule changes_only_tex [OF frame]) simp
  with init_ssr_released(1) [OF assms]
  show "ssr_normal_input (txl (EEVEE_effects_init m cfg s)) = None"
    by (simp add: init_upto_ssr_def slot_unfold)
  have "tex_get TXL_ssr_specrough_input (EEVEE_effects_init m cfg s)
          = tex_get TXL_ssr_specrough_input ?t"
    by (rule changes_only_tex [OF frame]) simp
  with init_ssr_released(2) [OF assms]
  show "ssr_specrough_input (txl (EEVEE_effects_init m cfg s)) = None"
    by (simp add: init_upto_ssr_def slot_unfold)
  have "fb_get FBL_screen_tracing_fb (EEVEE_effects_init m cfg s)
          = fb_get FBL_screen_tracing_fb ?t"
    by (rule changes_only_fb [OF frame]) simp
  with init_ssr_released(3) [OF assms]
  show "screen_tracing_fb (fbl (EEVEE_effects_init m cfg s)) = None"
    by (simp add: init_upto_ssr_def slot_unfold)
  have "enabled_effects (effects ?t) = enabled_final cfg"
    using EEVEE_effects_init_enabled [of m cfg s]
    by (simp add: EEVEE_effects_init_upto init_double_buffer_effects)
  with assms have off: "enabled_effects (effects ?t) AND EFFECT_DOUBLE_BUFFER = 0"
    using enabled_final_double_buffer [of cfg] by simp
  have "tex_get TXL_color_double_buffer (EEVEE_effects_init m cfg s) = None"
    "fb_get FBL_double_buffer (EEVEE_effects_init m cfg s) = None"
    using off by (simp_all add: EEVEE_effects_init_upto init_double_buffer_def)
  then show "color_double_buffer (txl (EEVEE_effects_init m cfg s)) = None"
    "double_buffer (fbl (EEVEE_effects_init m cfg s)) = None"
    by (simp_all add: slot_unfold)
qed

text \<open>The bloom block has no such branch: without bloom, the function leaves the blit
  texture and the blit framebuffer of the bloom as they were.\<close>

lemma init_after_bloom_frame:
  "changes_only
     (dof_texs \<union> ({TXL_color_post} \<union> {G_minzbuffer, TXL_maxzbuffer}
        \<union> ({G_volumetric, G_volumetric_transmit} \<union> ssr_texs \<union> {TXL_color_double_buffer})))
     (dof_fbs \<union> ({FBL_effect_fb} \<union> {FBL_downsample_fb}
        \<union> ({FBL_volumetric_fb} \<union> {FBL_screen_tracing_fb} \<union> {FBL_double_buffer})))
     (snd (init_upto_bloom m cfg s)) (EEVEE_effects_init m cfg s)"
proof -
  have "changes_only dof_texs dof_fbs (snd (init_upto_bloom m cfg s)) (snd (init_upto_dof m cfg s))"
    unfolding init_upto_dof_def dof_texs_def dof_fbs_def by (rule init_dof_frame')
  from changes_only_trans' [OF this init_after_dof_frame] show ?thesis .
qed

lemma init_without_bloom_frame:
  assumes "\<not> prop_bloom_enable cfg"
  shows "changes_only
     (dof_texs \<union> ({TXL_color_post} \<union> {G_minzbuffer, TXL_maxzbuffer}
        \<union> ({G_volumetric, G_volumetric_transmit} \<union> ssr_texs \<union> {TXL_color_double_buffer})))
     (dof_fbs \<union> ({FBL_effect_fb} \<union> {FBL_downsample_fb}
        \<union> ({FBL_volumetric_fb} \<union> {FBL_screen_tracing_fb} \<union> {FBL_double_buffer})))
     s (EEVEE_effects_init m cfg s)"
proof -
  from assms have same: "snd (init_upto_bloom m cfg s) = s"
    by (simp add: init_upto_bloom_def init_bloom_def split_beta)
  from init_after_bloom_frame [of m cfg s] same show ?thesis by simp
qed

lemma EEVEE_effects_init_bloom_kept:
  assumes "\<not> prop_bloom_enable cfg"
  shows "bloom_blit (txl (EEVEE_effects_init m cfg s)) = bloom_blit (txl s)"
    and "bloom_blit_fb (fbl (EEVEE_effects_init m cfg s)) = bloom_blit_fb (fbl s)"
proof -
  have "tex_get TXL_bloom_blit (EEVEE_effects_init m cfg s) = tex_get TXL_bloom_blit s"
    by (rule changes_only_tex [OF init_without_bloom_frame [OF assms]])
      (auto simp: dof_texs_def ssr_texs_def)
  then show "bloom_blit (txl (EEVEE_effects_init m cfg s)) = bloom_blit (txl s)"
    by (simp add: slot_unfold)
  have "fb_get FBL_bloom_blit_fb (EEVEE_effects_init m cfg s) = fb_get FBL_bloom_blit_fb s"
    by (rule changes_only_fb [OF init_without_bloom_frame [OF assms]])
      (auto simp: dof_fbs_def)
  then show "bloom_blit_fb (fbl (EEVEE_effects_init m cfg s)) = bloom_blit_fb (fbl s)"
    by (simp add: slot_unfold)
qed

text \<open>With bloom, the blit framebuffer and the blit texture are created when they are
  null, in this order.\<close>

lemma init_bloom_blit:
  assumes "prop_bloom_enable cfg"
    and "tex_get TXL_bloom_blit s = None" and "fb_get FBL_bloom_blit_fb s = None"
  shows "tex_get TXL_bloom_blit (snd (init_bloom m cfg (en, s)))
           = Some (GPUTexture (Suc (next_id s)) (int_of_float (fst (viewport_size cfg)))
                     (int_of_float (snd (viewport_size cfg))))"
    and "fb_get FBL_bloom_blit_fb (snd (init_bloom m cfg (en, s))) = Some (next_id s)"
proof -
  let ?w = "int_of_float (fst (viewport_size cfg))"
  let ?h = "int_of_float (snd (viewport_size cfg))"
  let ?ct = "bloom_iteration_count m (prop_bloom_radius cfg) (?w, ?h)"
  let ?s1 = "DRW_framebuffer_init FBL_bloom_blit_fb ?w ?h [TXL_bloom_blit] 1 s"
  let ?s2 = "?s1\<lparr>effects := (effects ?s1)\<lparr>bloom_iteration_ct := ?ct\<rparr>\<rparr>"
  let ?s3 = "snd (fold bloom_down_step [0..<nat ?ct] ((?w, ?h), ?s2))"
  let ?s4 = "snd (fold bloom_accum_step [0..<nat (?ct - 1)] ((?w, ?h), ?s3))"
  from assms(1) have eq: "snd (init_bloom m cfg (en, s)) = ?s4"
    by (simp add: init_bloom_def Let_def)
  from assms(2,3) have t1: "tex_get TXL_bloom_blit ?s1 = Some (GPUTexture (Suc (next_id s)) ?w ?h)"
    and f1: "fb_get FBL_bloom_blit_fb ?s1 = Some (next_id s)"
    by (simp_all add: DRW_framebuffer_init_def Let_def)
  have t2: "tex_get TXL_bloom_blit ?s2 = tex_get TXL_bloom_blit ?s1"
    and f2: "fb_get FBL_bloom_blit_fb ?s2 = fb_get FBL_bloom_blit_fb ?s1"
    by (simp_all add: slot_unfold)
  from bloom_down_loop [of "[0..<nat ?ct]" ?s2 "(?w, ?h)"]
  have c3: "changes_only (TXL_bloom_downsample ` set [0..<nat ?ct])
              (FBL_bloom_down_fb ` set [0..<nat ?ct]) ?s2 ?s3"
    by blast
  from bloom_accum_loop [of "[0..<nat (?ct - 1)]" ?s3 "(?w, ?h)"]
  have c4: "changes_only (TXL_bloom_upsample ` set [0..<nat (?ct - 1)])
              (FBL_bloom_accum_fb ` set [0..<nat (?ct - 1)]) ?s3 ?s4"
    by blast
  have "tex_get TXL_bloom_blit ?s4 = tex_get TXL_bloom_blit ?s3"
    by (rule changes_only_tex [OF c4]) auto
  also have "\<dots> = tex_get TXL_bloom_blit ?s2"
    by (rule changes_only_tex [OF c3]) auto
  finally show "tex_get TXL_bloom_blit (snd (init_bloom m cfg (en, s)))
           = Some (GPUTexture (Suc (next_id s)) ?w ?h)"
    using t1 t2 eq by simp
  have "fb_get FBL_bloom_blit_fb ?s4 = fb_get FBL_bloom_blit_fb ?s3"
    by (rule changes_only_fb [OF c4]) auto
  also have "\<dots> = fb_get FBL_bloom_blit_fb ?s2"
    by (rule changes_only_fb [OF c3]) auto
  finally show "fb_get FBL_bloom_blit_fb (snd (init_bloom m cfg (en, s))) = Some (next_id s)"
    using f1 f2 eq by simp
qed

lemma EEVEE_effects_init_bloom_blit:
  assumes "prop_bloom_enable cfg"
    and "bloom_blit (txl s) = None" and "bloom_blit_fb (fbl s) = None"
  shows "bloom_blit (txl (EEVEE_effects_init m cfg s))
           = Some (GPUTexture (Suc (next_id s)) (int_of_float (fst (viewport_size cfg)))
                     (int_of_float (snd (viewport_size cfg))))"
    and "bloom_blit_fb (fbl (EEVEE_effects_init m cfg s)) = Some (next_id s)"
proof -
  from assms(2,3) have none: "tex_get TXL_bloom_blit s = None" "fb_get FBL_bloom_blit_fb s = None"
    by (simp_all add: slot_unfold)
  obtain en where mb: "init_motion_blur cfg (0, s) = (en, s)"
    by (simp add: init_motion_blur_eq)
  have "tex_get TXL_bloom_blit (EEVEE_effects_init m cfg s)
          = tex_get TXL_bloom_blit (snd (init_upto_bloom m cfg s))"
    by (rule changes_only_tex [OF init_after_bloom_frame]) (auto simp: dof_texs_def ssr_texs_def)
  with init_bloom_blit(1) [OF assms(1) none, of m en]
  show "bloom_blit (txl (EEVEE_effects_init m cfg s))
           = Some (GPUTexture (Suc (next_id s)) (int_of_float (fst (viewport_size cfg)))
                     (int_of_float (snd (viewport_size cfg))))"
    by (simp add: init_upto_bloom_def mb slot_unfold)
  have "fb_get FBL_bloom_blit_fb (EEVEE_effects_init m cfg s)
          = fb_get FBL_bloom_blit_fb (snd (init_upto_bloom m cfg s))"
    by (rule changes_only_fb [OF init_after_bloom_frame]) (auto simp: dof_fbs_def)
  with init_bloom_blit(2) [OF assms(1) none, of m en]
  show "bloom_blit_fb (fbl (EEVEE_effects_init m cfg s)) = Some (next_id s)"
    by (simp add: init_upto_bloom_def mb slot_unfold)
qed

text \<open>The commands of \<^verbatim>\<open>EEVEE_effects_init\<close> when every option is off: the framebuffer of
  the depth pyramids is set up, and what is freed is what the reflections and the double
  buffer had.\<close>

lemma clear_hit_outputs_cmds:
  "cmds (fold (\<lambda>i st. tex_set (G_ssr_hit_output i) None st) xs s) = cmds s"
  by (induction xs arbitrary: s) simp_all

lemma EEVEE_effects_init_all_off_cmds:
  assumes "\<not> prop_motion_blur_enable cfg" and "\<not> prop_bloom_enable cfg"
    and "\<not> prop_dof_enable cfg" and "\<not> prop_volumetric_enable cfg"
    and "\<not> prop_ssr_enable cfg"
  shows "cmds (EEVEE_effects_init m cfg s) =
     cmds s
     @ [Framebuffer_init FBL_downsample_fb (int_of_float (fst (viewport_size cfg)) sdiv 2)
          (int_of_float (snd (viewport_size cfg)) sdiv 2) [G_minzbuffer]]
     @ (case ssr_normal_input (txl s) of None \<Rightarrow> [] | Some t \<Rightarrow> [Texture_free t])
     @ (case ssr_specrough_input (txl s) of None \<Rightarrow> [] | Some t \<Rightarrow> [Texture_free t])
     @ (case screen_tracing_fb (fbl s) of None \<Rightarrow> [] | Some f \<Rightarrow> [Framebuffer_free f])
     @ (case color_double_buffer (txl s) of None \<Rightarrow> [] | Some t \<Rightarrow> [Texture_free t])
     @ (case double_buffer (fbl s) of None \<Rightarrow> [] | Some f \<Rightarrow> [Framebuffer_free f])"
proof -
  let ?w = "int_of_float (fst (viewport_size cfg)) sdiv 2"
  let ?h = "int_of_float (snd (viewport_size cfg)) sdiv 2"
  let ?x = "init_volumetric cfg (init_upto_minmax m cfg s)"
  let ?y = "init_upto_ssr m cfg s"
  from assms(1-3) have dof: "init_upto_dof m cfg s = (0, s)"
    by (simp add: init_upto_dof_def init_upto_bloom_def init_dof_def init_bloom_def
        init_motion_blur_eq)
  have x: "?x = init_minmax cfg (s\<lparr>effects := (effects s)\<lparr>enabled_effects := 0\<rparr>\<rparr>)"
    using assms(4) by (simp add: init_upto_minmax_def dof init_ping_pong_def init_volumetric_def)
  have cx: "cmds ?x = cmds s @ [Framebuffer_init FBL_downsample_fb ?w ?h [G_minzbuffer]]"
    unfolding x by (simp add: init_minmax_def Let_def)
  have tx: "tex_get ts ?x = tex_get ts s" if "ts \<in> ssr_texs \<union> {TXL_color_double_buffer}" for ts
    using that
    by (intro changes_only_tex [OF init_before_ssr_frame])
      (auto simp: bloom_texs_def dof_texs_def ssr_texs_def)
  have fx: "fb_get fb ?x = fb_get fb s" if "fb \<in> {FBL_screen_tracing_fb, FBL_double_buffer}" for fb
    using that
    by (intro changes_only_fb [OF init_before_ssr_frame])
      (auto simp: bloom_fbs_def dof_fbs_def)
  let ?s3 = "DRW_FRAMEBUFFER_FREE_SAFE FBL_screen_tracing_fb
               (DRW_TEXTURE_FREE_SAFE TXL_ssr_specrough_input
                 (DRW_TEXTURE_FREE_SAFE TXL_ssr_normal_input ?x))"
  from assms(5) have y: "?y = fold (\<lambda>i st. tex_set (G_ssr_hit_output i) None st) [0..<4] ?s3"
    by (simp add: init_upto_ssr_def init_ssr_def Let_def)
  have cy: "cmds ?y = cmds ?x
     @ (case tex_get TXL_ssr_normal_input s of None \<Rightarrow> [] | Some t \<Rightarrow> [Texture_free t])
     @ (case tex_get TXL_ssr_specrough_input s of None \<Rightarrow> [] | Some t \<Rightarrow> [Texture_free t])
     @ (case fb_get FBL_screen_tracing_fb s of None \<Rightarrow> [] | Some f \<Rightarrow> [Framebuffer_free f])"
    unfolding y clear_hit_outputs_cmds by (simp add: tx fx ssr_texs_def)
  have ty: "tex_get TXL_color_double_buffer ?y = tex_get TXL_color_double_buffer s"
  proof -
    have "tex_get TXL_color_double_buffer ?y = tex_get TXL_color_double_buffer ?x"
      unfolding init_upto_ssr_def by (rule changes_only_tex [OF init_ssr_frame]) auto
    then show ?thesis by (simp add: tx)
  qed
  have fy: "fb_get FBL_double_buffer ?y = fb_get FBL_double_buffer s"
  proof -
    have "fb_get FBL_double_buffer ?y = fb_get FBL_double_buffer ?x"
      unfolding init_upto_ssr_def by (rule changes_only_fb [OF init_ssr_frame]) auto
    then show ?thesis by (simp add: fx)
  qed
  have "enabled_effects (effects ?y) = enabled_final cfg"
    using EEVEE_effects_init_enabled [of m cfg s]
    by (simp add: EEVEE_effects_init_upto init_double_buffer_effects)
  with assms(5) have off: "enabled_effects (effects ?y) AND EFFECT_DOUBLE_BUFFER = 0"
    using enabled_final_double_buffer [of cfg] by simp
  have "cmds (EEVEE_effects_init m cfg s) = cmds ?y
     @ (case tex_get TXL_color_double_buffer s of None \<Rightarrow> [] | Some t \<Rightarrow> [Texture_free t])
     @ (case fb_get FBL_double_buffer s of None \<Rightarrow> [] | Some f \<Rightarrow> [Framebuffer_free f])"
    using off by (simp add: EEVEE_effects_init_upto init_double_buffer_def ty fy)
  then show ?thesis by (simp add: cy cx slot_unfold)
qed

section \<open>The claims\<close>

subsection \<open>The bloom iteration count\<close>

text \<open>
  Claim C5, as amended. When bloom is enabled, the radius lies between 0 and 16, both sides
  of the viewport lie between 1 and 65536, and \<open>x = radius - 8 + log\<^sub>2 (min (width, height))\<close>
  is at a distance of \<open>1 / 2 ^ 19\<close> at least from the integers, the iteration count that
  \<^verbatim>\<open>EEVEE_effects_init\<close> leaves in \<^verbatim>\<open>effects->bloom_iteration_ct\<close> is the floor of \<open>x\<close>
  clamped to \<open>[1, MAX_BLOOM_STEP]\<close>; for a viewport of 1920 by 1080 and a radius of 6 it is
  8 when \<^verbatim>\<open>MAX_BLOOM_STEP\<close> is at least 8. Nearer to an integer, the rounding of
  \<^verbatim>\<open>radius - 8.0f\<close> and of \<^verbatim>\<open>maxIter\<close> to single precision decides on which side of it the
  count falls. \<^verbatim>\<open>MAX_BLOOM_STEP\<close> is a parameter, taken to be at least 1.
\<close>

theorem bloom_iteration_ct_formula:
  assumes "prop_bloom_enable cfg" and "1 \<le> max_bloom_step"
  shows "(let x = prop_bloom_radius cfg - 8
                    + log 2 (real_of_int (min (int_of_float (fst (viewport_size cfg)))
                                              (int_of_float (snd (viewport_size cfg)))))
          in 0 \<le> prop_bloom_radius cfg \<and> prop_bloom_radius cfg \<le> 16
             \<and> 1 \<le> fst (viewport_size cfg) \<and> fst (viewport_size cfg) < 65536
             \<and> 1 \<le> snd (viewport_size cfg) \<and> snd (viewport_size cfg) < 65536
             \<and> 1 / 2 ^ 19 \<le> x - of_int \<lfloor>x\<rfloor> \<and> x - of_int \<lfloor>x\<rfloor> \<le> 1 - 1 / 2 ^ 19
             \<longrightarrow> bloom_iteration_ct (effects (EEVEE_effects_init max_bloom_step cfg s))
                 = spec_clamp \<lfloor>x\<rfloor> 1 max_bloom_step)
         \<and> (viewport_size cfg = (1920, 1080) \<and> prop_bloom_radius cfg = 6 \<and> 8 \<le> max_bloom_step
              \<longrightarrow> bloom_iteration_ct (effects (EEVEE_effects_init max_bloom_step cfg s)) = 8)"
proof -
  let ?ct = "bloom_iteration_ct (effects (EEVEE_effects_init max_bloom_step cfg s))"
  let ?w = "int_of_float (fst (viewport_size cfg))"
  let ?h = "int_of_float (snd (viewport_size cfg))"
  let ?x = "prop_bloom_radius cfg - 8 + log 2 (real_of_int (min ?w ?h))"
  have ct: "?ct = bloom_iteration_count max_bloom_step (prop_bloom_radius cfg) (?w, ?h)"
    using assms(1) by (simp add: EEVEE_effects_init_bloom_iteration_ct)
  have general: "?ct = spec_clamp \<lfloor>?x\<rfloor> 1 max_bloom_step"
    if r: "0 \<le> prop_bloom_radius cfg" "prop_bloom_radius cfg \<le> 16"
      and w: "1 \<le> fst (viewport_size cfg)" "fst (viewport_size cfg) < 65536"
      and h: "1 \<le> snd (viewport_size cfg)" "snd (viewport_size cfg) < 65536"
      and frac: "1 / 2 ^ 19 \<le> ?x - of_int \<lfloor>?x\<rfloor>" "?x - of_int \<lfloor>?x\<rfloor> \<le> 1 - 1 / 2 ^ 19"
  proof -
    from w have cw: "?w = \<lfloor>fst (viewport_size cfg)\<rfloor>" by (simp add: int_of_float_def)
    from h have ch: "?h = \<lfloor>snd (viewport_size cfg)\<rfloor>" by (simp add: int_of_float_def)
    from w have bw: "1 \<le> ?w" "?w < 65536" unfolding cw by (simp_all add: le_floor_iff floor_less_iff)
    from h have bh: "1 \<le> ?h" "?h < 65536" unfolding ch by (simp_all add: le_floor_iff floor_less_iff)
    have d: "MIN2 (fst (?w, ?h)) (snd (?w, ?h)) = min ?w ?h" by (simp add: MIN2_min)
    have "bloom_iteration_count max_bloom_step (prop_bloom_radius cfg) (?w, ?h)
            = spec_clamp
                \<lfloor>prop_bloom_radius cfg - 8
                   + log 2 (real_of_int (MIN2 (fst (?w, ?h)) (snd (?w, ?h))))\<rfloor>
                1 max_bloom_step"
    proof (rule bloom_iteration_count_floor)
      show "1 \<le> max_bloom_step" by (rule assms(2))
      show "0 \<le> prop_bloom_radius cfg" "prop_bloom_radius cfg \<le> 16" by (rule r)+
      show "1 \<le> MIN2 (fst (?w, ?h)) (snd (?w, ?h))" unfolding d using bw bh by simp
      show "MIN2 (fst (?w, ?h)) (snd (?w, ?h)) < 65536" unfolding d using bw bh by simp
      show "1 / 2 ^ 19
              \<le> prop_bloom_radius cfg - 8
                   + log 2 (real_of_int (MIN2 (fst (?w, ?h)) (snd (?w, ?h))))
                 - of_int \<lfloor>prop_bloom_radius cfg - 8
                            + log 2 (real_of_int (MIN2 (fst (?w, ?h)) (snd (?w, ?h))))\<rfloor>"
        unfolding d by (rule frac(1))
      show "prop_bloom_radius cfg - 8
              + log 2 (real_of_int (MIN2 (fst (?w, ?h)) (snd (?w, ?h))))
            - of_int \<lfloor>prop_bloom_radius cfg - 8
                       + log 2 (real_of_int (MIN2 (fst (?w, ?h)) (snd (?w, ?h))))\<rfloor>
              \<le> 1 - 1 / 2 ^ 19"
        unfolding d by (rule frac(2))
    qed
    then show ?thesis unfolding ct d .
  qed
  have particular: "?ct = 8"
    if "viewport_size cfg = (1920, 1080)" "prop_bloom_radius cfg = 6" "8 \<le> max_bloom_step"
    using that bloom_iteration_count_1080p [of max_bloom_step] by (simp add: ct)
  from general particular show ?thesis unfolding Let_def by blast
qed

theorem bloom_iteration_ct_formula_witness:
  "prop_bloom_enable (example_config\<lparr>prop_bloom_enable := True\<rparr>) \<and> (1::int) \<le> 16
   \<and> 0 \<le> prop_bloom_radius (example_config\<lparr>prop_bloom_enable := True\<rparr>)
   \<and> prop_bloom_radius (example_config\<lparr>prop_bloom_enable := True\<rparr>) \<le> 16
   \<and> 1 \<le> fst (viewport_size (example_config\<lparr>prop_bloom_enable := True\<rparr>))
   \<and> fst (viewport_size (example_config\<lparr>prop_bloom_enable := True\<rparr>)) < 65536
   \<and> 1 \<le> snd (viewport_size (example_config\<lparr>prop_bloom_enable := True\<rparr>))
   \<and> snd (viewport_size (example_config\<lparr>prop_bloom_enable := True\<rparr>)) < 65536
   \<and> 1 / 2 ^ 19 \<le> (6 - 8 + log 2 1080) - real_of_int \<lfloor>(6::real) - 8 + log 2 1080\<rfloor>
   \<and> (6 - 8 + log 2 1080) - real_of_int \<lfloor>(6::real) - 8 + log 2 1080\<rfloor> \<le> 1 - 1 / 2 ^ 19
   \<and> bloom_iteration_ct
        (effects (EEVEE_effects_init 16 (example_config\<lparr>prop_bloom_enable := True\<rparr>)
                    example_state))
       = spec_clamp \<lfloor>(6::real) - 8 + log 2 1080\<rfloor> 1 16
   \<and> viewport_size (example_config\<lparr>prop_bloom_enable := True\<rparr>) = (1920, 1080)
   \<and> prop_bloom_radius (example_config\<lparr>prop_bloom_enable := True\<rparr>) = 6 \<and> (8::int) \<le> 16
   \<and> bloom_iteration_ct
        (effects (EEVEE_effects_init 16 (example_config\<lparr>prop_bloom_enable := True\<rparr>)
                    example_state)) = 8"
proof -
  let ?cfg = "example_config\<lparr>prop_bloom_enable := True\<rparr>"
  let ?ct = "bloom_iteration_ct (effects (EEVEE_effects_init 16 ?cfg example_state))"
  have en: "prop_bloom_enable ?cfg" and one: "(1::int) \<le> 16" by simp_all
  have x: "prop_bloom_radius ?cfg - 8
             + log 2 (real_of_int (min (int_of_float (fst (viewport_size ?cfg)))
                                       (int_of_float (snd (viewport_size ?cfg)))))
           = 6 - 8 + log 2 1080"
    by (simp add: example_config_def)
  have range: "0 \<le> prop_bloom_radius ?cfg" "prop_bloom_radius ?cfg \<le> 16"
    "1 \<le> fst (viewport_size ?cfg)" "fst (viewport_size ?cfg) < 65536"
    "1 \<le> snd (viewport_size ?cfg)" "snd (viewport_size ?cfg) < 65536"
    by (simp_all add: example_config_def)
  have fl: "\<lfloor>(6::real) - 8 + log 2 1080\<rfloor> = 8"
    using log2_1080_bounds by (intro floor_unique) simp_all
  have frac: "1 / 2 ^ 19 \<le> (6 - 8 + log 2 1080) - real_of_int \<lfloor>(6::real) - 8 + log 2 1080\<rfloor>"
    "(6 - 8 + log 2 1080) - real_of_int \<lfloor>(6::real) - 8 + log 2 1080\<rfloor> \<le> 1 - 1 / 2 ^ 19"
    unfolding fl using log2_1080_bounds by simp_all
  have inst: "viewport_size ?cfg = (1920, 1080)" "prop_bloom_radius ?cfg = 6" "(8::int) \<le> 16"
    by (simp_all add: example_config_def)
  note claim = bloom_iteration_ct_formula [OF en one, of example_state]
  have general: "?ct = spec_clamp \<lfloor>(6::real) - 8 + log 2 1080\<rfloor> 1 16"
    by (rule mp [OF claim [THEN conjunct1, unfolded Let_def x]])
      (intro conjI range frac)
  have particular: "?ct = 8"
    by (rule mp [OF claim [THEN conjunct2]]) (intro conjI inst)
  show ?thesis
    by (intro conjI en one range frac general inst particular)
qed

text \<open>
  Claim C5 as it is stated fails for a viewport of 1024 by 1024 and the radius
  \<^verbatim>\<open>0.9999999f\<close>, which is \<open>1 - 1 / 2 ^ 23\<close>: the difference \<^verbatim>\<open>radius - 8.0f\<close> is rounded to
  \<open>-7\<close>, \<^verbatim>\<open>maxIter\<close> is 3 and so is the count, and the floor of
  \<open>radius - 8 + log\<^sub>2 1024\<close> is 2.
\<close>

theorem bloom_iteration_ct_rounding_counterexample:
  "bloom_iteration_ct
     (effects (EEVEE_effects_init 16
                 (example_config\<lparr>viewport_size := (1024, 1024), prop_bloom_enable := True,
                                  prop_bloom_radius := 8388607 / 8388608\<rparr>)
                 example_state)) = 3
   \<and> spec_clamp
        \<lfloor>8388607 / 8388608 - 8
           + log 2 (real_of_int (min (int_of_float 1024) (int_of_float 1024)))\<rfloor> 1 16 = 2"
proof -
  let ?cfg = "example_config\<lparr>viewport_size := (1024, 1024), prop_bloom_enable := True,
                              prop_bloom_radius := 8388607 / 8388608\<rparr>"
  have "prop_bloom_enable ?cfg" by simp
  then have "bloom_iteration_ct (effects (EEVEE_effects_init 16 ?cfg example_state))
               = bloom_iteration_count 16 (8388607 / 8388608) (1024, 1024)"
    by (simp add: EEVEE_effects_init_bloom_iteration_ct)
  then have "bloom_iteration_ct (effects (EEVEE_effects_init 16 ?cfg example_state)) = 3"
    by (simp only: bloom_iteration_count_rounded_up)
  moreover have "spec_clamp
        \<lfloor>8388607 / 8388608 - 8
           + log 2 (real_of_int (min (int_of_float 1024) (int_of_float 1024)))\<rfloor> 1 16 = 2"
    by (simp add: log2_1024 spec_clamp_def)
  ultimately show ?thesis by (rule conjI)
qed

text \<open>
  Claim C6, as amended. For radii between \<open>- 2 ^ 30\<close> and \<open>2 ^ 30\<close> and positive minor
  dimensions, the bloom iteration count never decreases when the radius grows or when
  \<open>log\<^sub>2\<close> of the minor dimension of the image grows; and for every input it lies between
  \<open>1\<close> and \<^verbatim>\<open>MAX_BLOOM_STEP\<close>. The constant \<^verbatim>\<open>MAX_BLOOM_STEP\<close> is a parameter, taken to be at
  least \<open>1\<close>; a minor dimension is an \<^verbatim>\<open>int\<close>, below \<open>2 ^ 31\<close>.
\<close>

theorem bloom_iteration_count_mono_bounded:
  assumes "1 \<le> max_bloom_step"
  shows "(- (2 ^ 30) \<le> radius \<and> radius \<le> radius' \<and> radius' \<le> 2 ^ 30
          \<and> 0 < MIN2 (fst blitsize) (snd blitsize) \<and> 0 < MIN2 (fst blitsize') (snd blitsize')
          \<and> MIN2 (fst blitsize') (snd blitsize') < 2 ^ 31
          \<and> log 2 (real_of_int (MIN2 (fst blitsize) (snd blitsize)))
              \<le> log 2 (real_of_int (MIN2 (fst blitsize') (snd blitsize')))
            \<longrightarrow> bloom_iteration_count max_bloom_step radius blitsize
                \<le> bloom_iteration_count max_bloom_step radius' blitsize')
         \<and> 1 \<le> bloom_iteration_count max_bloom_step radius blitsize
         \<and> bloom_iteration_count max_bloom_step radius blitsize \<le> max_bloom_step"
proof -
  have mono: "bloom_iteration_count max_bloom_step radius blitsize
                \<le> bloom_iteration_count max_bloom_step radius' blitsize'"
    if r: "- (2 ^ 30) \<le> radius" "radius \<le> radius'" "radius' \<le> 2 ^ 30"
      and d: "0 < MIN2 (fst blitsize) (snd blitsize)" "0 < MIN2 (fst blitsize') (snd blitsize')"
        "MIN2 (fst blitsize') (snd blitsize') < 2 ^ 31"
      and l: "log 2 (real_of_int (MIN2 (fst blitsize) (snd blitsize)))
                \<le> log 2 (real_of_int (MIN2 (fst blitsize') (snd blitsize')))"
  proof -
    from l d(1,2) have "real_of_int (MIN2 (fst blitsize) (snd blitsize))
                          \<le> real_of_int (MIN2 (fst blitsize') (snd blitsize'))"
      by simp
    then have "MIN2 (fst blitsize) (snd blitsize) \<le> MIN2 (fst blitsize') (snd blitsize')"
      by simp
    with assms r d(1) show ?thesis
      using d(3) by (intro bloom_iteration_count_mono)
  qed
  from assms have "1 \<le> bloom_iteration_count max_bloom_step radius blitsize
      \<and> bloom_iteration_count max_bloom_step radius blitsize \<le> max_bloom_step"
    by (rule bloom_iteration_count_bounds)
  with mono show ?thesis by blast
qed

theorem bloom_iteration_count_mono_bounded_witness:
  "(1::int) \<le> 16 \<and> - (2 ^ 30) \<le> (4::real) \<and> (4::real) \<le> 6 \<and> (6::real) \<le> 2 ^ 30
   \<and> 0 < MIN2 (fst (1280, 720)) (snd (1280, 720))
   \<and> 0 < MIN2 (fst (1920, 1080)) (snd (1920, 1080))
   \<and> MIN2 (fst (1920, 1080)) (snd (1920, 1080)) < 2 ^ 31
   \<and> log 2 (real_of_int (MIN2 (fst (1280, 720)) (snd (1280, 720))))
       \<le> log 2 (real_of_int (MIN2 (fst (1920, 1080)) (snd (1920, 1080))))
   \<and> bloom_iteration_count 16 4 (1280, 720) \<le> bloom_iteration_count 16 6 (1920, 1080)
   \<and> 1 \<le> bloom_iteration_count 16 4 (1280, 720)
   \<and> bloom_iteration_count 16 4 (1280, 720) \<le> 16"
proof -
  have h: "0 < MIN2 (fst (1280::int, 720::int)) (snd (1280::int, 720::int))"
    "0 < MIN2 (fst (1920::int, 1080::int)) (snd (1920::int, 1080::int))"
    "MIN2 (fst (1920::int, 1080::int)) (snd (1920::int, 1080::int)) < 2 ^ 31"
    "log 2 (real_of_int (MIN2 (fst (1280, 720)) (snd (1280, 720))))
       \<le> log 2 (real_of_int (MIN2 (fst (1920, 1080)) (snd (1920, 1080))))"
    by (simp_all add: MIN2_def)
  show ?thesis
    using h bloom_iteration_count_mono_bounded [of 16 4 6 "(1280, 720)" "(1920, 1080)"]
    by simp
qed

text \<open>
  Claim C6 as it is stated fails between the radii 100 and 3000000000, both numbers of the
  binary32 format, on a viewport of 1920 by 1080 with 16 for \<^verbatim>\<open>MAX_BLOOM_STEP\<close>: the first
  gives the count 16; with the second, \<^verbatim>\<open>maxIter\<close> is above the range of \<^verbatim>\<open>int\<close>, the cast
  gives \<^verbatim>\<open>INT_MIN\<close> and the count is 1.
\<close>

theorem bloom_iteration_count_not_monotone_counterexample:
  "bloom_iteration_count 16 100 (1920, 1080) = 16
   \<and> bloom_iteration_count 16 3000000000 (1920, 1080) = 1"
  using bloom_iteration_count_radius_100 bloom_iteration_count_radius_3e9 by (rule conjI)

text \<open>
  Claim C7. When the reflections are enabled, \<^verbatim>\<open>EEVEE_effects_init\<close> leaves in
  \<^verbatim>\<open>effects->ssr_ray_count\<close> the requested count clamped to \<open>[1, 4]\<close>; the only set-up of the
  screen tracing framebuffer it asks for carries exactly that many hit-output fields, the
  first ones; after it these hit outputs exist and the others are as they were. A request
  of 6 gives 4 hit buffers.
\<close>

theorem ssr_ray_count_clamped:
  assumes "prop_ssr_enable cfg"
  shows "ssr_ray_count (effects (EEVEE_effects_init m cfg s))
           = CLAMP (prop_ssr_ray_count cfg) 1 4
         \<and> 1 \<le> ssr_ray_count (effects (EEVEE_effects_init m cfg s))
         \<and> ssr_ray_count (effects (EEVEE_effects_init m cfg s)) \<le> 4
         \<and> (\<exists>w h texs.
               filter (\<lambda>e. init_target e = Some FBL_screen_tracing_fb)
                 (commands (EEVEE_effects_init m cfg) s)
                 = [Framebuffer_init FBL_screen_tracing_fb w h texs]
               \<and> texs = take (nat (ssr_ray_count (effects (EEVEE_effects_init m cfg s))))
                          [G_ssr_hit_output 0, G_ssr_hit_output 1, G_ssr_hit_output 2,
                           G_ssr_hit_output 3]
               \<and> int (length texs) = ssr_ray_count (effects (EEVEE_effects_init m cfg s)))
         \<and> (\<forall>i. int i < ssr_ray_count (effects (EEVEE_effects_init m cfg s))
                \<longrightarrow> ssr_hit_output (g_data (EEVEE_effects_init m cfg s)) i \<noteq> None)
         \<and> (\<forall>i. ssr_ray_count (effects (EEVEE_effects_init m cfg s)) \<le> int i
                \<longrightarrow> ssr_hit_output (g_data (EEVEE_effects_init m cfg s)) i
                    = ssr_hit_output (g_data s) i)
         \<and> (prop_ssr_ray_count cfg = 6
                \<longrightarrow> ssr_ray_count (effects (EEVEE_effects_init m cfg s)) = 4)"
proof -
  let ?n = "CLAMP (prop_ssr_ray_count cfg) 1 4"
  have n: "ssr_ray_count (effects (EEVEE_effects_init m cfg s)) = ?n"
    using assms by (rule EEVEE_effects_init_ssr_ray_count)
  have bounds: "1 \<le> ?n \<and> ?n \<le> 4" by (rule CLAMP_bounds) simp
  from EEVEE_effects_init_tracing_inits [OF assms, of m s] obtain w h where
    "filter (\<lambda>e. init_target e = Some FBL_screen_tracing_fb)
       (commands (EEVEE_effects_init m cfg) s)
       = [Framebuffer_init FBL_screen_tracing_fb w h
            (take (nat ?n) [G_ssr_hit_output 0, G_ssr_hit_output 1, G_ssr_hit_output 2,
                            G_ssr_hit_output 3])]"
    by blast
  moreover have "int (length (take (nat ?n) [G_ssr_hit_output 0, G_ssr_hit_output 1,
                                    G_ssr_hit_output 2, G_ssr_hit_output 3])) = ?n"
  proof -
    from bounds have "nat ?n \<le> 4" by linarith
    then have "length (take (nat ?n) [G_ssr_hit_output 0, G_ssr_hit_output 1,
                                     G_ssr_hit_output 2, G_ssr_hit_output 3]) = nat ?n"
      by (simp add: min_def del: take_Cons_numeral)
    with bounds show ?thesis by simp
  qed
  ultimately have fbinit: "\<exists>w h texs.
      filter (\<lambda>e. init_target e = Some FBL_screen_tracing_fb)
        (commands (EEVEE_effects_init m cfg) s)
        = [Framebuffer_init FBL_screen_tracing_fb w h texs]
      \<and> texs = take (nat ?n) [G_ssr_hit_output 0, G_ssr_hit_output 1, G_ssr_hit_output 2,
                               G_ssr_hit_output 3]
      \<and> int (length texs) = ?n"
    by blast
  have present: "\<forall>i. int i < ?n
      \<longrightarrow> ssr_hit_output (g_data (EEVEE_effects_init m cfg s)) i \<noteq> None"
    using EEVEE_effects_init_hit_outputs(1) [OF assms, of _ m s] by (simp add: slot_unfold)
  have others: "\<forall>i. ?n \<le> int i
      \<longrightarrow> ssr_hit_output (g_data (EEVEE_effects_init m cfg s)) i = ssr_hit_output (g_data s) i"
    using EEVEE_effects_init_hit_outputs(2) [OF assms, of _ m s] by (simp add: slot_unfold)
  have six: "prop_ssr_ray_count cfg = 6 \<longrightarrow> ?n = 4" by (simp add: CLAMP_def)
  from n bounds fbinit present others six show ?thesis by simp
qed

theorem ssr_ray_count_clamped_witness:
  "prop_ssr_enable (example_config\<lparr>prop_ssr_enable := True\<rparr>)
   \<and> prop_ssr_ray_count (example_config\<lparr>prop_ssr_enable := True\<rparr>) = 6
   \<and> ssr_ray_count (effects (EEVEE_effects_init 16 (example_config\<lparr>prop_ssr_enable := True\<rparr>)
                               example_state)) = 4
   \<and> ssr_hit_output (g_data (EEVEE_effects_init 16
         (example_config\<lparr>prop_ssr_enable := True\<rparr>) example_state)) 0 \<noteq> None
   \<and> ssr_hit_output (g_data (EEVEE_effects_init 16
         (example_config\<lparr>prop_ssr_enable := True\<rparr>) example_state)) 3 \<noteq> None"
proof -
  let ?cfg = "example_config\<lparr>prop_ssr_enable := True\<rparr>"
  let ?s' = "EEVEE_effects_init 16 ?cfg example_state"
  have en: "prop_ssr_enable ?cfg" and six: "prop_ssr_ray_count ?cfg = 6"
    by (simp_all add: example_config_def)
  from ssr_ray_count_clamped [OF en, of 16 example_state] six
  have n: "ssr_ray_count (effects ?s') = 4"
    and present: "\<forall>i. int i < ssr_ray_count (effects ?s')
                    \<longrightarrow> ssr_hit_output (g_data ?s') i \<noteq> None"
    by blast+
  from present n have "ssr_hit_output (g_data ?s') 0 \<noteq> None"
    and "ssr_hit_output (g_data ?s') 3 \<noteq> None"
    by simp_all
  with en six n show ?thesis by blast
qed

text \<open>
  Claim C10. With the reflections enabled, the resolve pass binds \<^verbatim>\<open>hitBuffer0\<close> to hit
  output 0 and, for \<open>i\<close> from 1 to 3, \<^verbatim>\<open>hitBuffer<i>\<close> to hit output 0 when the clamped ray
  count is at most \<open>i\<close> and to hit output \<open>i\<close> otherwise; so every hit output bound has an
  index below the ray count and exists.
\<close>

theorem ssr_resolve_hit_buffers_allocated:
  assumes "prop_ssr_enable cfg"
  shows "cache_init_ssr_hit_buffers (EEVEE_effects_init m cfg s) =
           [(''hitBuffer0'', G_ssr_hit_output 0),
            (''hitBuffer1'',
               if ssr_ray_count (effects (EEVEE_effects_init m cfg s)) \<le> 1
               then G_ssr_hit_output 0 else G_ssr_hit_output 1),
            (''hitBuffer2'',
               if ssr_ray_count (effects (EEVEE_effects_init m cfg s)) \<le> 2
               then G_ssr_hit_output 0 else G_ssr_hit_output 2),
            (''hitBuffer3'',
               if ssr_ray_count (effects (EEVEE_effects_init m cfg s)) \<le> 3
               then G_ssr_hit_output 0 else G_ssr_hit_output 3)]
         \<and> (\<forall>(name, ts) \<in> set (cache_init_ssr_hit_buffers (EEVEE_effects_init m cfg s)).
              \<exists>i. ts = G_ssr_hit_output i
                   \<and> int i < ssr_ray_count (effects (EEVEE_effects_init m cfg s))
                   \<and> tex_get ts (EEVEE_effects_init m cfg s) \<noteq> None)"
proof -
  let ?s' = "EEVEE_effects_init m cfg s"
  let ?n = "CLAMP (prop_ssr_ray_count cfg) 1 4"
  have n: "ssr_ray_count (effects ?s') = ?n"
    using assms by (rule EEVEE_effects_init_ssr_ray_count)
  have bounds: "1 \<le> ?n \<and> ?n \<le> 4" by (rule CLAMP_bounds) simp
  have bit: "enabled_effects (effects ?s') AND EFFECT_SSR \<noteq> 0"
    using assms by (simp add: EEVEE_effects_init_enabled enabled_final_ssr)
  have list: "cache_init_ssr_hit_buffers ?s' =
           [(''hitBuffer0'', G_ssr_hit_output 0),
            (''hitBuffer1'', if ?n \<le> 1 then G_ssr_hit_output 0 else G_ssr_hit_output 1),
            (''hitBuffer2'', if ?n \<le> 2 then G_ssr_hit_output 0 else G_ssr_hit_output 2),
            (''hitBuffer3'', if ?n \<le> 3 then G_ssr_hit_output 0 else G_ssr_hit_output 3)]"
    using bit n by (auto simp: cache_init_ssr_hit_buffers_def ssr_resolve_hit_buffers_def)
  have ok: "\<exists>i. ts = G_ssr_hit_output i \<and> int i < ?n \<and> tex_get ts ?s' \<noteq> None"
    if "ts = G_ssr_hit_output j" "int j < ?n" for ts j
    using that EEVEE_effects_init_hit_outputs(1) [OF assms, of j m s] by blast
  have h0: "\<exists>i. G_ssr_hit_output 0 = G_ssr_hit_output i \<and> int i < ?n
              \<and> tex_get (G_ssr_hit_output 0) ?s' \<noteq> None"
    using bounds by (intro ok [of _ 0]) simp_all
  have h1: "\<exists>i. (if ?n \<le> 1 then G_ssr_hit_output 0 else G_ssr_hit_output 1) = G_ssr_hit_output i
              \<and> int i < ?n
              \<and> tex_get (if ?n \<le> 1 then G_ssr_hit_output 0 else G_ssr_hit_output 1) ?s' \<noteq> None"
  proof (cases "?n \<le> 1")
    case True
    with h0 show ?thesis by simp
  next
    case False
    then show ?thesis by (simp only: if_False) (intro ok [of _ 1], simp_all)
  qed
  have h2: "\<exists>i. (if ?n \<le> 2 then G_ssr_hit_output 0 else G_ssr_hit_output 2) = G_ssr_hit_output i
              \<and> int i < ?n
              \<and> tex_get (if ?n \<le> 2 then G_ssr_hit_output 0 else G_ssr_hit_output 2) ?s' \<noteq> None"
  proof (cases "?n \<le> 2")
    case True
    with h0 show ?thesis by simp
  next
    case False
    then show ?thesis by (simp only: if_False) (intro ok [of _ 2], simp_all)
  qed
  have h3: "\<exists>i. (if ?n \<le> 3 then G_ssr_hit_output 0 else G_ssr_hit_output 3) = G_ssr_hit_output i
              \<and> int i < ?n
              \<and> tex_get (if ?n \<le> 3 then G_ssr_hit_output 0 else G_ssr_hit_output 3) ?s' \<noteq> None"
  proof (cases "?n \<le> 3")
    case True
    with h0 show ?thesis by simp
  next
    case False
    then show ?thesis by (simp only: if_False) (intro ok [of _ 3], simp_all)
  qed
  have "\<forall>(name, ts) \<in> set (cache_init_ssr_hit_buffers ?s').
          \<exists>i. ts = G_ssr_hit_output i \<and> int i < ?n \<and> tex_get ts ?s' \<noteq> None"
    unfolding list using h0 h1 h2 h3 by (simp only: list.set ball_simps prod.case)
  with list n show ?thesis by simp
qed

theorem ssr_resolve_hit_buffers_allocated_witness:
  "prop_ssr_enable (example_config\<lparr>prop_ssr_enable := True, prop_ssr_ray_count := 2\<rparr>)
   \<and> cache_init_ssr_hit_buffers
       (EEVEE_effects_init 16
          (example_config\<lparr>prop_ssr_enable := True, prop_ssr_ray_count := 2\<rparr>) example_state)
     = [(''hitBuffer0'', G_ssr_hit_output 0), (''hitBuffer1'', G_ssr_hit_output 1),
        (''hitBuffer2'', G_ssr_hit_output 0), (''hitBuffer3'', G_ssr_hit_output 0)]
   \<and> tex_get (G_ssr_hit_output 0)
       (EEVEE_effects_init 16
          (example_config\<lparr>prop_ssr_enable := True, prop_ssr_ray_count := 2\<rparr>) example_state)
       \<noteq> None
   \<and> tex_get (G_ssr_hit_output 1)
       (EEVEE_effects_init 16
          (example_config\<lparr>prop_ssr_enable := True, prop_ssr_ray_count := 2\<rparr>) example_state)
       \<noteq> None"
proof -
  let ?cfg = "example_config\<lparr>prop_ssr_enable := True, prop_ssr_ray_count := 2\<rparr>"
  have en: "prop_ssr_enable ?cfg" by (simp add: example_config_def)
  have n: "ssr_ray_count (effects (EEVEE_effects_init 16 ?cfg example_state)) = 2"
    by (simp add: EEVEE_effects_init_ssr_ray_count en CLAMP_def)
  from ssr_resolve_hit_buffers_allocated [OF en, of 16 example_state] n en
  show ?thesis by auto
qed

text \<open>
  Claim C1. When double buffering is active, a frame of \<^verbatim>\<open>EEVEE_draw_effects\<close> exchanges
  the main and the double-buffer targets exactly once, whichever post-process effects are
  enabled: one exchange is recorded, and at the end the two framebuffers and the two colour
  textures have traded places. The first \<^verbatim>\<open>SWAP_BUFFERS\<close> reached with the flag set does the
  exchange and clears the flag; with the flag cleared it does none.
\<close>

theorem double_buffers_exchanged_once:
  assumes "enabled_effects (effects s) AND EFFECT_DOUBLE_BUFFER \<noteq> 0"
  shows "exchanges (commands (EEVEE_draw_effects env) s) = 1
         \<and> main (fbl (EEVEE_draw_effects env s)) = double_buffer (fbl s)
         \<and> double_buffer (fbl (EEVEE_draw_effects env s)) = main (fbl s)
         \<and> color (txl (EEVEE_draw_effects env s)) = color_double_buffer (txl s)
         \<and> color_double_buffer (txl (EEVEE_draw_effects env s)) = color (txl s)
         \<and> fst (SWAP_BUFFERS (True, t)) = False
         \<and> exchanges (cmds (snd (SWAP_BUFFERS (True, t)))) = Suc (exchanges (cmds t))
         \<and> fst (SWAP_BUFFERS (False, t)) = False
         \<and> exchanges (cmds (snd (SWAP_BUFFERS (False, t)))) = exchanges (cmds t)"
proof -
  from assms EEVEE_draw_effects_view [of env "s\<lparr>cmds := []\<rparr>"]
  have "exchanges (commands (EEVEE_draw_effects env) s) = 1"
    by (simp add: exchange_view_def commands_def)
  moreover from assms EEVEE_draw_effects_view [of env s]
  have "main (fbl (EEVEE_draw_effects env s)) = double_buffer (fbl s)
        \<and> double_buffer (fbl (EEVEE_draw_effects env s)) = main (fbl s)
        \<and> color (txl (EEVEE_draw_effects env s)) = color_double_buffer (txl s)
        \<and> color_double_buffer (txl (EEVEE_draw_effects env s)) = color (txl s)"
    by (simp add: exchange_view_def)
  moreover from SWAP_BUFFERS_view [of "(True, t)"]
  have "fst (SWAP_BUFFERS (True, t)) = False
        \<and> exchanges (cmds (snd (SWAP_BUFFERS (True, t)))) = Suc (exchanges (cmds t))"
    by (simp add: flag_view_def exchange_view_def prod_eq_iff)
  moreover from SWAP_BUFFERS_view [of "(False, t)"]
  have "fst (SWAP_BUFFERS (False, t)) = False
        \<and> exchanges (cmds (snd (SWAP_BUFFERS (False, t)))) = exchanges (cmds t)"
    by (simp add: flag_view_def exchange_view_def prod_eq_iff)
  ultimately show ?thesis by blast
qed

theorem double_buffers_exchanged_once_witness:
  "enabled_effects (effects example_state_ssr) AND EFFECT_DOUBLE_BUFFER \<noteq> 0
   \<and> exchanges (commands (EEVEE_draw_effects \<lparr>debug_value = 0, is_image_render = False\<rparr>)
                  example_state_ssr) = 1
   \<and> main (fbl (EEVEE_draw_effects \<lparr>debug_value = 0, is_image_render = False\<rparr>
                   example_state_ssr)) = Some 4
   \<and> color (txl (EEVEE_draw_effects \<lparr>debug_value = 0, is_image_render = False\<rparr>
                    example_state_ssr)) = Some (GPUTexture 5 1920 1080)"
proof -
  have bit: "enabled_effects (effects example_state_ssr) AND EFFECT_DOUBLE_BUFFER \<noteq> 0"
    by (simp add: example_state_ssr_def EFFECT_SSR_def EFFECT_DOUBLE_BUFFER_def)
  from double_buffers_exchanged_once
         [OF bit, of "\<lparr>debug_value = 0, is_image_render = False\<rparr>" example_state_ssr]
  show ?thesis using bit by (simp add: example_state_ssr_def example_state_def)
qed

text \<open>
  Claim C4. When neither motion blur nor depth of field nor bloom is enabled,
  \<^verbatim>\<open>EEVEE_draw_effects\<close> draws no pass, \<^verbatim>\<open>effects->source_buffer\<close> is at the end the texture
  that \<^verbatim>\<open>txl->color\<close> was at the start, and that texture is the first one handed to
  \<^verbatim>\<open>DRW_transform_to_display\<close>; it is the only one unless the debug value selects a
  buffer to show.
\<close>

theorem no_effect_pass_through:
  assumes "enabled_effects (effects s) AND EFFECT_MOTION_BLUR = 0"
    and "enabled_effects (effects s) AND EFFECT_DOF = 0"
    and "enabled_effects (effects s) AND EFFECT_BLOOM = 0"
  shows "source_buffer (effects (EEVEE_draw_effects env s)) = color (txl s)
         \<and> (\<exists>rest. displayed (commands (EEVEE_draw_effects env) s) = color (txl s) # rest
                    \<and> (\<not> (0 < debug_value env \<and> debug_value env \<le> 5) \<longrightarrow> rest = []))
         \<and> (\<forall>p. Draw_pass p \<notin> set (commands (EEVEE_draw_effects env) s))"
proof -
  have run: "EEVEE_draw_effects env u
               = draw_finish env (fst (draw_begin u),
                                  draw_debug env (draw_tonemap (snd (draw_begin u))))"
    if "enabled_effects (effects u) = enabled_effects (effects s)" for u
    using that assms draw_effects_disabled [of u]
    by (simp add: EEVEE_draw_effects_def split_beta)
  have src: "source_buffer (effects (EEVEE_draw_effects env s)) = color (txl s)"
    by (simp add: run draw_finish_effects draw_debug_effects draw_tonemap_def draw_begin_def
        Let_def)
  let ?s0 = "s\<lparr>cmds := []\<rparr>"
  let ?t = "draw_tonemap (snd (draw_begin ?s0))"
  let ?d = "draw_debug env ?t"
  have ct: "cmds ?t = [Texture_detach (dtxl_depth s),
                        Texture_attach (dfbl_default_fb s) (dtxl_depth s) 0,
                        Framebuffer_bind (dfbl_default_fb s),
                        Transform_to_display (color (txl s))]"
    by (simp add: draw_tonemap_def draw_begin_def Let_def)
  from draw_debug_emits [of ?t env] obtain dbg
    where cd: "cmds ?d = cmds ?t @ dbg" and dbg: "list_all (\<lambda>e. \<exists>t. e = Transform_to_display t) dbg"
    by (auto simp: emits_iff)
  from draw_finish_emits [of "(fst (draw_begin ?s0), ?d)" env] obtain fin
    where cf: "commands (EEVEE_draw_effects env) s = cmds ?d @ fin"
      and fin: "list_all (\<lambda>e. e = Swap_double_buffers \<or> e = Request_redraw) fin"
    by (auto simp: emits_iff commands_def run)
  from fin have dfin: "displayed fin = []"
    by (induction fin) auto
  have shown: "displayed (commands (EEVEE_draw_effects env) s) = color (txl s) # displayed dbg"
    by (simp add: cf cd ct dfin)
  have nodbg: "displayed dbg = []" if "\<not> (0 < debug_value env \<and> debug_value env \<le> 5)"
    using cd draw_debug_off [OF that, of ?t] by simp
  have nopass: "Draw_pass p \<notin> set (commands (EEVEE_draw_effects env) s)" for p
    using dbg fin by (auto simp: cf cd ct list_all_iff)
  from src shown nodbg nopass show ?thesis by blast
qed

theorem no_effect_pass_through_witness:
  "enabled_effects (effects example_state_ssr) AND EFFECT_MOTION_BLUR = 0
   \<and> enabled_effects (effects example_state_ssr) AND EFFECT_DOF = 0
   \<and> enabled_effects (effects example_state_ssr) AND EFFECT_BLOOM = 0
   \<and> source_buffer (effects (EEVEE_draw_effects \<lparr>debug_value = 0, is_image_render = False\<rparr>
                                example_state_ssr)) = Some (GPUTexture 1 1920 1080)
   \<and> displayed (commands (EEVEE_draw_effects \<lparr>debug_value = 0, is_image_render = False\<rparr>)
                  example_state_ssr) = [Some (GPUTexture 1 1920 1080)]"
proof -
  have bits: "enabled_effects (effects example_state_ssr) AND EFFECT_MOTION_BLUR = 0"
    "enabled_effects (effects example_state_ssr) AND EFFECT_DOF = 0"
    "enabled_effects (effects example_state_ssr) AND EFFECT_BLOOM = 0"
    by (simp_all add: example_state_ssr_def EFFECT_SSR_def EFFECT_DOUBLE_BUFFER_def
        EFFECT_MOTION_BLUR_def EFFECT_DOF_def EFFECT_BLOOM_def)
  have c: "color (txl example_state_ssr) = Some (GPUTexture 1 1920 1080)"
    by (simp add: example_state_ssr_def example_state_def)
  from no_effect_pass_through
         [OF bits, of "\<lparr>debug_value = 0, is_image_render = False\<rparr>"]
  show ?thesis using bits c by auto
qed

text \<open>
  Claim C3. When the reflections are enabled, \<^verbatim>\<open>EEVEE_effects_do_ssr\<close> attaches the hit
  outputs of the rays to the screen tracing framebuffer and binds it; right after, it
  clears this framebuffer, the hit buffers, to \<open>(0, 0, -1, 0.001)\<close>, the last component
  in single precision, exactly when the double buffer is not valid, and draws the raytrace
  pass exactly when it is valid; then it detaches the hit outputs, and in both cases the
  resolve pass is drawn once, afterwards.
\<close>

theorem ssr_clear_iff_history_invalid:
  assumes "enabled_effects (effects s) AND EFFECT_SSR \<noteq> 0"
  shows "(Framebuffer_clear 0 0 (- 1) (round_float32 (1 / 1000))
            \<in> set (commands EEVEE_effects_do_ssr s)
            \<longleftrightarrow> \<not> valid_double_buffer (g_data s))
         \<and> (\<forall>r g b a. Framebuffer_clear r g b a \<in> set (commands EEVEE_effects_do_ssr s)
                \<longrightarrow> r = 0 \<and> g = 0 \<and> b = - 1 \<and> a = round_float32 (1 / 1000))
         \<and> (Draw_pass PSL_ssr_raytrace \<in> set (commands EEVEE_effects_do_ssr s)
                \<longleftrightarrow> valid_double_buffer (g_data s))
         \<and> (\<exists>post.
               commands EEVEE_effects_do_ssr s
                 = map (\<lambda>i. Texture_attach (screen_tracing_fb (fbl s))
                              (ssr_hit_output (g_data s) i) (int i))
                     [0..<nat (ssr_ray_count (effects s))]
                   @ [Framebuffer_bind (screen_tracing_fb (fbl s)),
                      if valid_double_buffer (g_data s) then Draw_pass PSL_ssr_raytrace
                      else Framebuffer_clear 0 0 (- 1) (round_float32 (1 / 1000))]
                   @ map (\<lambda>i. Texture_detach (ssr_hit_output (g_data s) i))
                       [0..<nat (ssr_ray_count (effects s))]
                   @ post
               \<and> length (filter (\<lambda>e. e = Draw_pass PSL_ssr_resolve) post) = 1
               \<and> Draw_pass PSL_ssr_raytrace \<notin> set post
               \<and> (\<forall>r g b a. Framebuffer_clear r g b a \<notin> set post)
               \<and> (\<forall>fb t i. Texture_attach fb t i \<in> set post \<longrightarrow> fb = main (fbl s)))"
proof -
  let ?pre = "map (\<lambda>i. Texture_attach (screen_tracing_fb (fbl s))
                         (ssr_hit_output (g_data s) i) (int i))
                [0..<nat (ssr_ray_count (effects s))]"
  let ?det = "map (\<lambda>i. Texture_detach (ssr_hit_output (g_data s) i))
                [0..<nat (ssr_ray_count (effects s))]"
  let ?post = "[Recursive_downsample (downsample_fb (fbl s)) (color_double_buffer (txl s)) 9
                  simple_downsample_cb
                  (case color_double_buffer (txl s) of None \<Rightarrow> []
                   | Some t \<Rightarrow> downsample_levels (nat 9) 1 (tex_width t, tex_height t)),
                Texture_detach (dtxl_depth s),
                Texture_detach (ssr_normal_input (txl s)),
                Texture_detach (ssr_specrough_input (txl s)),
                Framebuffer_bind (main (fbl s)),
                Draw_pass PSL_ssr_resolve,
                Texture_attach (main (fbl s)) (dtxl_depth s) 0,
                Texture_attach (main (fbl s)) (ssr_normal_input (txl s)) 1,
                Texture_attach (main (fbl s)) (ssr_specrough_input (txl s)) 2]"
  let ?mid = "[Framebuffer_bind (screen_tracing_fb (fbl s)),
               if valid_double_buffer (g_data s) then Draw_pass PSL_ssr_raytrace
               else Framebuffer_clear 0 0 (- 1) (round_float32 (1 / 1000))]"
  have c: "commands EEVEE_effects_do_ssr s = ?pre @ ?mid @ ?det @ ?post"
    using EEVEE_effects_do_ssr_commands [OF assms] by simp
  have pre: "Draw_pass PSL_ssr_raytrace \<notin> set ?pre"
    "\<And>r g b a. Framebuffer_clear r g b a \<notin> set ?pre"
    "Draw_pass PSL_ssr_raytrace \<notin> set ?det"
    "\<And>r g b a. Framebuffer_clear r g b a \<notin> set ?det"
    by auto
  have post: "length (filter (\<lambda>e. e = Draw_pass PSL_ssr_resolve) ?post) = 1"
    "Draw_pass PSL_ssr_raytrace \<notin> set ?post"
    "\<And>r g b a. Framebuffer_clear r g b a \<notin> set ?post"
    "\<And>fb t i. Texture_attach fb t i \<in> set ?post \<Longrightarrow> fb = main (fbl s)"
    by auto
  have clear: "Framebuffer_clear 0 0 (- 1) (round_float32 (1 / 1000))
                 \<in> set (commands EEVEE_effects_do_ssr s)
                 \<longleftrightarrow> \<not> valid_double_buffer (g_data s)"
    unfolding c using pre(2,4) post(3) by auto
  have sentinel: "\<forall>r g b a. Framebuffer_clear r g b a \<in> set (commands EEVEE_effects_do_ssr s)
                    \<longrightarrow> r = 0 \<and> g = 0 \<and> b = - 1 \<and> a = round_float32 (1 / 1000)"
    unfolding c using pre(2,4) post(3) by (auto split: if_splits)
  have trace: "Draw_pass PSL_ssr_raytrace \<in> set (commands EEVEE_effects_do_ssr s)
                 \<longleftrightarrow> valid_double_buffer (g_data s)"
    unfolding c using pre(1,3) post(2) by auto
  have shape: "\<exists>post.
       commands EEVEE_effects_do_ssr s = ?pre @ ?mid @ ?det @ post
       \<and> length (filter (\<lambda>e. e = Draw_pass PSL_ssr_resolve) post) = 1
       \<and> Draw_pass PSL_ssr_raytrace \<notin> set post
       \<and> (\<forall>r g b a. Framebuffer_clear r g b a \<notin> set post)
       \<and> (\<forall>fb t i. Texture_attach fb t i \<in> set post \<longrightarrow> fb = main (fbl s))"
  proof (intro exI [of _ ?post] conjI allI impI)
    show "commands EEVEE_effects_do_ssr s = ?pre @ ?mid @ ?det @ ?post" by (rule c)
    show "length (filter (\<lambda>e. e = Draw_pass PSL_ssr_resolve) ?post) = 1" by (rule post(1))
    show "Draw_pass PSL_ssr_raytrace \<notin> set ?post" by (rule post(2))
    show "Framebuffer_clear r g b a \<notin> set ?post" for r g b a by (rule post(3))
    show "fb = main (fbl s)" if "Texture_attach fb t i \<in> set ?post" for fb t i
      using that by (rule post(4))
  qed
  from clear sentinel trace shape show ?thesis by (intro conjI)
qed

theorem ssr_clear_iff_history_invalid_witness:
  "enabled_effects (effects example_state_hit) AND EFFECT_SSR \<noteq> 0
   \<and> \<not> valid_double_buffer (g_data example_state_hit)
   \<and> take 5 (commands EEVEE_effects_do_ssr example_state_hit)
       = [Texture_attach (Some 6) (Some (GPUTexture 7 1920 1080)) 0,
          Texture_attach (Some 6) (Some (GPUTexture 8 1920 1080)) 1,
          Framebuffer_bind (Some 6),
          Framebuffer_clear 0 0 (- 1) (round_float32 (1 / 1000)),
          Texture_detach (Some (GPUTexture 7 1920 1080))]
   \<and> Draw_pass PSL_ssr_raytrace \<notin> set (commands EEVEE_effects_do_ssr example_state_hit)"
proof -
  have bit: "enabled_effects (effects example_state_hit) AND EFFECT_SSR \<noteq> 0"
    by (simp add: example_state_hit_def example_state_ssr_def EFFECT_SSR_def
        EFFECT_DOUBLE_BUFFER_def)
  have inv: "\<not> valid_double_buffer (g_data example_state_hit)"
    by (simp add: example_state_hit_def example_state_ssr_def example_state_def)
  have rays: "[0..<nat (ssr_ray_count (effects example_state_hit))] = [0, 1]"
    by (simp add: example_state_hit_def upt_rec)
  have fields: "screen_tracing_fb (fbl example_state_hit) = Some 6"
    "ssr_hit_output (g_data example_state_hit) 0 = Some (GPUTexture 7 1920 1080)"
    "ssr_hit_output (g_data example_state_hit) (Suc 0) = Some (GPUTexture 8 1920 1080)"
    by (simp_all add: example_state_hit_def)
  note claim = ssr_clear_iff_history_invalid [OF bit]
  from claim [THEN conjunct2, THEN conjunct2, THEN conjunct1] inv
  have notrace: "Draw_pass PSL_ssr_raytrace \<notin> set (commands EEVEE_effects_do_ssr example_state_hit)"
    by simp
  from claim [THEN conjunct2, THEN conjunct2, THEN conjunct2] obtain post
    where "commands EEVEE_effects_do_ssr example_state_hit
             = map (\<lambda>i. Texture_attach (screen_tracing_fb (fbl example_state_hit))
                          (ssr_hit_output (g_data example_state_hit) i) (int i))
                 [0..<nat (ssr_ray_count (effects example_state_hit))]
               @ [Framebuffer_bind (screen_tracing_fb (fbl example_state_hit)),
                  if valid_double_buffer (g_data example_state_hit)
                  then Draw_pass PSL_ssr_raytrace
                  else Framebuffer_clear 0 0 (- 1) (round_float32 (1 / 1000))]
               @ map (\<lambda>i. Texture_detach (ssr_hit_output (g_data example_state_hit) i))
                   [0..<nat (ssr_ray_count (effects example_state_hit))]
               @ post"
    by (elim exE conjE)
  with inv have "take 5 (commands EEVEE_effects_do_ssr example_state_hit)
       = [Texture_attach (Some 6) (Some (GPUTexture 7 1920 1080)) 0,
          Texture_attach (Some 6) (Some (GPUTexture 8 1920 1080)) 1,
          Framebuffer_bind (Some 6),
          Framebuffer_clear 0 0 (- 1) (round_float32 (1 / 1000)),
          Texture_detach (Some (GPUTexture 7 1920 1080))]"
    by (simp add: rays fields)
  with bit inv notrace show ?thesis by (intro conjI)
qed




text \<open>
  Claim C8. In a frame with bloom and depth of field both enabled, the near-field
  downsample texture handed to the set-up of the depth of field downsample framebuffer is
  \<^verbatim>\<open>txl->bloom_downsample[0]\<close> and not \<^verbatim>\<open>txl->dof_down_near\<close>, and the scatter-near pass of
  \<^verbatim>\<open>EEVEE_draw_effects\<close> reads \<^verbatim>\<open>txl->bloom_downsample[0]\<close>. And when the depth of field is
  enabled and bloom is enabled now but was not in the previous frame, or the reverse, the
  downsample framebuffer of the previous frame, if there is one, is freed, and the
  framebuffer is created anew in this frame.
\<close>

theorem dof_near_reuses_bloom_buffer:
  "(prop_bloom_enable cfg \<and> prop_dof_enable cfg \<and> camera_view cfg \<longrightarrow>
      (\<exists>w h. filter (\<lambda>e. init_target e = Some FBL_dof_down_fb)
                (commands (EEVEE_effects_init m cfg) s)
              = [Framebuffer_init FBL_dof_down_fb w h
                   [TXL_bloom_downsample 0, TXL_dof_down_far, TXL_dof_coc]])
      \<and> unf_source_buffer
          (effects (snd (draw_dof (draw_motion_blur (draw_begin (EEVEE_effects_init m cfg s))))))
        = bloom_downsample (txl (EEVEE_effects_init m cfg s)) 0)
   \<and> (prop_dof_enable cfg \<and> camera_view cfg
        \<and> prop_bloom_enable cfg \<noteq> (enabled_effects (effects s) AND EFFECT_BLOOM \<noteq> 0) \<longrightarrow>
      (\<forall>f. dof_down_fb (fbl s) = Some f
            \<longrightarrow> Framebuffer_free f \<in> set (commands (EEVEE_effects_init m cfg) s))
      \<and> (\<exists>w h near. filter (\<lambda>e. init_target e = Some FBL_dof_down_fb)
                       (commands (EEVEE_effects_init m cfg) s)
                     = [Framebuffer_init FBL_dof_down_fb w h [near, TXL_dof_down_far, TXL_dof_coc]])
      \<and> (\<exists>f'. dof_down_fb (fbl (EEVEE_effects_init m cfg s)) = Some f' \<and> next_id s \<le> f'))"
proof -
  have aliased: "(\<exists>w h. filter (\<lambda>e. init_target e = Some FBL_dof_down_fb)
                (commands (EEVEE_effects_init m cfg) s)
              = [Framebuffer_init FBL_dof_down_fb w h
                   [TXL_bloom_downsample 0, TXL_dof_down_far, TXL_dof_coc]])
      \<and> unf_source_buffer
          (effects (snd (draw_dof (draw_motion_blur (draw_begin (EEVEE_effects_init m cfg s))))))
        = bloom_downsample (txl (EEVEE_effects_init m cfg s)) 0"
    if "prop_bloom_enable cfg" "prop_dof_enable cfg" "camera_view cfg"
  proof -
    from that have bits: "enabled_effects (effects (EEVEE_effects_init m cfg s)) AND EFFECT_DOF \<noteq> 0"
      "enabled_effects (effects (EEVEE_effects_init m cfg s)) AND EFFECT_BLOOM \<noteq> 0"
      by (simp_all add: EEVEE_effects_init_enabled enabled_final_dof enabled_final_bloom)
    from draw_dof_unf_source_buffer [OF bits(1)] bits(2)
    have "unf_source_buffer
            (effects (snd (draw_dof (draw_motion_blur (draw_begin (EEVEE_effects_init m cfg s))))))
          = bloom_downsample (txl (EEVEE_effects_init m cfg s)) 0"
      by simp
    with EEVEE_effects_init_dof_down_fb [OF that(2,3), of m s] that(1) show ?thesis by simp
  qed
  have rebuilt: "(\<forall>f. dof_down_fb (fbl s) = Some f
            \<longrightarrow> Framebuffer_free f \<in> set (commands (EEVEE_effects_init m cfg) s))
      \<and> (\<exists>w h near. filter (\<lambda>e. init_target e = Some FBL_dof_down_fb)
                       (commands (EEVEE_effects_init m cfg) s)
                     = [Framebuffer_init FBL_dof_down_fb w h [near, TXL_dof_down_far, TXL_dof_coc]])
      \<and> (\<exists>f'. dof_down_fb (fbl (EEVEE_effects_init m cfg s)) = Some f' \<and> next_id s \<le> f')"
    if "prop_dof_enable cfg" "camera_view cfg"
      "prop_bloom_enable cfg \<noteq> (enabled_effects (effects s) AND EFFECT_BLOOM \<noteq> 0)"
    using EEVEE_effects_init_dof_rebuilt(1) [OF that, where m = m]
      EEVEE_effects_init_dof_rebuilt(2) [OF that, where m = m]
      EEVEE_effects_init_dof_down_fb [OF that(1,2), of m s]
    by blast
  from aliased rebuilt show ?thesis by blast
qed

theorem dof_near_reuses_bloom_buffer_witness:
  "prop_bloom_enable (example_config\<lparr>prop_bloom_enable := True, prop_dof_enable := True\<rparr>)
   \<and> prop_dof_enable (example_config\<lparr>prop_bloom_enable := True, prop_dof_enable := True\<rparr>)
   \<and> camera_view (example_config\<lparr>prop_bloom_enable := True, prop_dof_enable := True\<rparr>)
   \<and> enabled_effects (effects example_state_dof) AND EFFECT_BLOOM = 0
   \<and> dof_down_fb (fbl example_state_dof) = Some 7
   \<and> Framebuffer_free 7
        \<in> set (commands (EEVEE_effects_init 16
                   (example_config\<lparr>prop_bloom_enable := True, prop_dof_enable := True\<rparr>))
                 example_state_dof)
   \<and> unf_source_buffer
        (effects (snd (draw_dof (draw_motion_blur (draw_begin
           (EEVEE_effects_init 16
              (example_config\<lparr>prop_bloom_enable := True, prop_dof_enable := True\<rparr>)
              example_state_dof))))))
      = bloom_downsample
          (txl (EEVEE_effects_init 16
                  (example_config\<lparr>prop_bloom_enable := True, prop_dof_enable := True\<rparr>)
                  example_state_dof)) 0"
proof -
  let ?cfg = "example_config\<lparr>prop_bloom_enable := True, prop_dof_enable := True\<rparr>"
  have cfg: "prop_bloom_enable ?cfg" "prop_dof_enable ?cfg" "camera_view ?cfg"
    by (simp_all add: example_config_def)
  have prev: "enabled_effects (effects example_state_dof) AND EFFECT_BLOOM = 0"
    by (simp add: example_state_dof_def EFFECT_DOF_def EFFECT_BLOOM_def)
  have old: "dof_down_fb (fbl example_state_dof) = Some 7"
    by (simp add: example_state_dof_def)
  from cfg prev have differs:
    "prop_bloom_enable ?cfg \<noteq> (enabled_effects (effects example_state_dof) AND EFFECT_BLOOM \<noteq> 0)"
    by simp
  from dof_near_reuses_bloom_buffer [of ?cfg 16 example_state_dof] cfg differs old
  have "Framebuffer_free 7 \<in> set (commands (EEVEE_effects_init 16 ?cfg) example_state_dof)"
    and "unf_source_buffer
           (effects (snd (draw_dof (draw_motion_blur (draw_begin
              (EEVEE_effects_init 16 ?cfg example_state_dof))))))
         = bloom_downsample (txl (EEVEE_effects_init 16 ?cfg example_state_dof)) 0"
    by blast+
  with cfg prev old show ?thesis by blast
qed

text \<open>
  Claim C2. An effect that was enabled in the previous frame and is not enabled in this
  one has all its textures and framebuffers freed and set to null when
  \<^verbatim>\<open>EEVEE_effects_init\<close> returns. The function does so for the reflections and the double
  buffer, in the two branches commented \<^verbatim>\<open>/* Cleanup to release memory */\<close>, and has no
  such branch for the bloom: in the example viewport, after a first frame with bloom and a
  second frame with every option off, the bit \<^verbatim>\<open>EFFECT_BLOOM\<close> was set and is cleared, the
  blit texture and the blit framebuffer created by the first frame are still in
  \<^verbatim>\<open>txl->bloom_blit\<close> and \<^verbatim>\<open>fbl->bloom_blit_fb\<close>, and the only command of the second
  \<^verbatim>\<open>EEVEE_effects_init\<close> is the set-up of the framebuffer of the depth pyramids: nothing is
  freed.
\<close>

theorem bloom_resources_not_released:
  "enabled_effects (effects example_frame_bloom) AND EFFECT_BLOOM = EFFECT_BLOOM
   \<and> bloom_blit (txl example_frame_bloom) = Some (GPUTexture 5 1920 1080)
   \<and> bloom_blit_fb (fbl example_frame_bloom) = Some 4
   \<and> enabled_effects (effects (EEVEE_effects_init 16 example_config example_frame_bloom))
         AND EFFECT_BLOOM = 0
   \<and> bloom_blit (txl (EEVEE_effects_init 16 example_config example_frame_bloom))
       = Some (GPUTexture 5 1920 1080)
   \<and> bloom_blit_fb (fbl (EEVEE_effects_init 16 example_config example_frame_bloom)) = Some 4
   \<and> commands (EEVEE_effects_init 16 example_config) example_frame_bloom
       = [Framebuffer_init FBL_downsample_fb 960 540 [G_minzbuffer]]"
proof -
  let ?on = "example_config\<lparr>prop_bloom_enable := True\<rparr>"
  have on: "prop_bloom_enable ?on" "\<not> prop_ssr_enable ?on"
    and off: "\<not> prop_motion_blur_enable example_config" "\<not> prop_bloom_enable example_config"
      "\<not> prop_dof_enable example_config" "\<not> prop_volumetric_enable example_config"
      "\<not> prop_ssr_enable example_config"
    and size: "viewport_size ?on = (1920, 1080)" "viewport_size example_config = (1920, 1080)"
    by (simp_all add: example_config_def)
  have start: "bloom_blit (txl example_state) = None" "bloom_blit_fb (fbl example_state) = None"
    "next_id example_state = 4"
    by (simp_all add: example_state_def)
  have bit1: "enabled_effects (effects example_frame_bloom) AND EFFECT_BLOOM = EFFECT_BLOOM"
    unfolding example_frame_bloom_def EEVEE_effects_init_enabled
    by (simp add: enabled_final_def enabled_local_def Let_def example_config_def
        EFFECT_BLOOM_def)
  have bit2: "enabled_effects (effects (EEVEE_effects_init 16 example_config example_frame_bloom))
                AND EFFECT_BLOOM = 0"
    unfolding EEVEE_effects_init_enabled
    by (simp add: enabled_final_def enabled_local_def Let_def example_config_def)
  have tex1: "bloom_blit (txl example_frame_bloom) = Some (GPUTexture 5 1920 1080)"
    unfolding example_frame_bloom_def
    using EEVEE_effects_init_bloom_blit(1) [OF on(1) start(1,2), of 16]
    by (simp add: size start(3))
  have fb1: "bloom_blit_fb (fbl example_frame_bloom) = Some 4"
    unfolding example_frame_bloom_def
    using EEVEE_effects_init_bloom_blit(2) [OF on(1) start(1,2), of 16]
    by (simp add: start(3))
  have none: "ssr_normal_input (txl example_frame_bloom) = None"
    "ssr_specrough_input (txl example_frame_bloom) = None"
    "screen_tracing_fb (fbl example_frame_bloom) = None"
    "color_double_buffer (txl example_frame_bloom) = None"
    "double_buffer (fbl example_frame_bloom) = None"
    unfolding example_frame_bloom_def
    by (rule EEVEE_effects_init_ssr_released [OF on(2)])+
  have "commands (EEVEE_effects_init 16 example_config) example_frame_bloom
          = [Framebuffer_init FBL_downsample_fb 960 540 [G_minzbuffer]]"
    unfolding commands_def EEVEE_effects_init_all_off_cmds [OF off]
    by (simp add: none size signed_divide_int_def)
  with bit1 bit2 tex1 fb1 EEVEE_effects_init_bloom_kept [OF off(2), of 16 example_frame_bloom]
  show ?thesis by simp
qed

end
